theory Spec2Isabelle
  imports Complex_Main
begin

section \<open>Zen-Slice: the data model\<close>

text \<open>
  The game core lives in one React component (\<open>GameCanvas\<close>); its mutable refs and
  React state cells are the fields of one record, \<open>Game\<close>, that every operation takes
  and returns. A JavaScript \<open>number\<close> that measures something (positions, speeds,
  radii, life, shake) is a \<open>real\<close>; a \<open>number\<close> that counts (score, lives, combo, the
  statistics) or is a \<open>Date.now()\<close> millisecond stamp is an \<open>int\<close>. The hit test of
  the collision detector compares a computed distance with a radius, so there the
  rounding of double arithmetic decides: in its lines every arithmetic result is
  rounded to a double by \<open>roundDouble\<close>, the rounding of the platform, and
  \<open>Math.hypot\<close> is \<open>mathHypot\<close>, the engine's function, whose result the language
  standard leaves to the implementation. Everywhere else the arithmetic on reals is
  exact. Field names carry a prefix (\<open>e_\<close>, \<open>p_\<close>, \<open>ft_\<close>, \<open>pt_\<close>) because the source
  reuses \<open>x\<close>, \<open>y\<close>, \<open>id\<close>, \<open>life\<close>, \<open>scale\<close> across its interfaces.
\<close>

record Point =
  pt_x :: real
  pt_y :: real

record TrailPoint = Point +
  timestamp :: int

datatype FruitType =
    APPLE | PEAR | ORANGE | LEMON | BANANA | WATERMELON | GRAPE | STRAWBERRY
  | PINEAPPLE | MANGO | PEACH | CHERRY | KIWI | COCONUT | MELON | AVOCADO | BOMB

record Entity =
  e_id :: string
  e_type :: FruitType
  e_x :: real
  e_y :: real
  e_vx :: real
  e_vy :: real
  e_rotation :: real
  e_rotationSpeed :: real
  e_radius :: real
  e_isSliced :: bool
  e_scale :: real
  e_opacity :: real
  e_flash :: real
  e_isFragment :: "bool option"
  e_sliceAngleRelative :: "real option"
  e_sliceSide :: "real option"

datatype ParticleType = JUICE | SPARK | CORE

record Particle =
  p_id :: string
  p_type :: ParticleType
  p_x :: real
  p_y :: real
  p_vx :: real
  p_vy :: real
  p_color :: string
  p_life :: real
  p_decay :: real
  p_size :: real
  p_gravity :: real
  p_rotation :: real
  p_rotationSpeed :: real
  p_stuck :: bool
  p_scale :: real

record FloatingText =
  ft_id :: string
  ft_text :: string
  ft_x :: real
  ft_y :: real
  ft_vx :: real
  ft_vy :: real
  ft_life :: real
  ft_color :: string
  ft_scale :: real

record GameStats =
  score :: int
  highScore :: int
  combos :: int
  fruitsSliced :: int
  bombsHit :: int
  accuracy :: real
  maxCombo :: int

record DifficultyConfig =
  gravity :: real
  minSpeed :: real
  maxSpeed :: real
  spawnRate :: real
  bombChance :: real

record HudStats =
  hud_score :: int
  hud_fruits :: int
  hud_maxCombo :: int

datatype GameState = LOADING | MENU | PLAYING | GAMEOVER

datatype AudioEvent = AudioInit | PlayStart | PlaySlice | PlaySplat | PlayBomb | PlayCombo int

text \<open>
  The refs and state cells of \<open>GameCanvas\<close>, then what the component reads from its
  surroundings: \<open>mathRandom n\<close>, \<open>dateNow n\<close> and \<open>performanceNow n\<close> are the values the
  \<open>n\<close>-th call of \<open>Math.random()\<close>, \<open>Date.now()\<close> and \<open>performance.now()\<close> returns, and
  the \<open>...Calls\<close> counters say how many calls were made so far. \<open>numberToString v r\<close> is
  \<open>v.toString(r)\<close>. \<open>audio\<close> is the log of the calls made to \<open>AudioService\<close>.
  \<open>roundDouble\<close> and \<open>mathHypot\<close> are the platform's double arithmetic.

  A React state setter that is handed a value (\<open>setGameState\<close>, \<open>setHudStats\<close>,
  \<open>setFinalStats\<close>, \<open>setGameOverQuote\<close>) is applied at the call. What is handed to
  \<open>setCurrentCombo\<close> is a \<open>ComboAction\<close>: the value of line 403 or the updater
  function of lines 389-401, a closure over the entity that was hit. React runs such
  an action when it processes the component's updates, after the animation frame that
  made the call, unless it runs it at the call itself; \<open>comboQueue\<close> holds the
  actions it has not processed yet. \<open>reactEager n\<close> says whether React computes the
  new state at the \<open>n\<close>-th call of \<open>setCurrentCombo\<close> itself, which it may do when it
  has no update of the component pending, and \<open>dispatchCalls\<close> counts these calls.
\<close>

datatype ComboAction = SetCombo int | ComboUpdater Entity

text \<open>
  A rounding of exact results to doubles. All that is asked of it is what every
  rounding mode of the floating-point standard gives: it is monotone, and it leaves
  the double 25 as it is. \<open>applyRounding r x\<close> is the double that \<open>r\<close> rounds \<open>x\<close> to.
  Positions are pixels: no result is taken to overflow, and the infinities and \<open>NaN\<close>
  are left out.
\<close>

typedef Rounding = "{fl :: real \<Rightarrow> real. (\<forall>x y. x \<le> y \<longrightarrow> fl x \<le> fl y) \<and> fl 25 = 25}"
  morphisms applyRounding mkRounding
  by (rule exI[of _ "\<lambda>x. x"]) simp

record Game =
  scoreRef :: int
  livesRef :: int
  lastTimeRef :: real
  spawnTimerRef :: real
  entitiesRef :: "Entity list"
  particlesRef :: "Particle list"
  floatingTextsRef :: "FloatingText list"
  trailRef :: "TrailPoint list"
  lastHandPosRef :: "Point option"
  lastSliceSoundTime :: real
  shakeIntensityRef :: real
  statsRef :: GameStats
  gameState :: GameState
  finalStats :: "GameStats option"
  gameOverQuote :: string
  currentCombo :: int
  hudStats :: HudStats
  comboTimerRef :: int
  audio :: "AudioEvent list"
  mathRandom :: "nat \<Rightarrow> real"
  randomCalls :: nat
  dateNow :: "nat \<Rightarrow> int"
  dateCalls :: nat
  performanceNow :: "nat \<Rightarrow> real"
  performanceCalls :: nat
  numberToString :: "real \<Rightarrow> nat \<Rightarrow> string"
  comboQueue :: "ComboAction list"
  reactEager :: "nat \<Rightarrow> bool"
  dispatchCalls :: nat
  roundDouble :: Rounding
  mathHypot :: "real \<Rightarrow> real \<Rightarrow> real"

section \<open>Constants (constants.ts)\<close>

definition FRUIT_TYPES :: "FruitType list" where
  "FRUIT_TYPES = [APPLE, PEAR, ORANGE, LEMON, BANANA, WATERMELON, GRAPE, STRAWBERRY,
                  PINEAPPLE, MANGO, PEACH, CHERRY, KIWI, COCONUT, MELON, AVOCADO]"

definition BOMB_TYPE :: FruitType where
  "BOMB_TYPE = BOMB"

definition FRUIT_RADIUS :: real where
  "FRUIT_RADIUS = 35"

definition SLICE_LIFETIME :: int where
  "SLICE_LIFETIME = 250"

fun FRUIT_COLORS :: "FruitType \<Rightarrow> string" where
  "FRUIT_COLORS APPLE = ''#ff4d4d''"
| "FRUIT_COLORS PEAR = ''#99cc00''"
| "FRUIT_COLORS ORANGE = ''#ffad33''"
| "FRUIT_COLORS LEMON = ''#ffff66''"
| "FRUIT_COLORS BANANA = ''#ffe135''"
| "FRUIT_COLORS WATERMELON = ''#ff6666''"
| "FRUIT_COLORS GRAPE = ''#9933ff''"
| "FRUIT_COLORS STRAWBERRY = ''#ff0066''"
| "FRUIT_COLORS PINEAPPLE = ''#ffff00''"
| "FRUIT_COLORS MANGO = ''#ffcc00''"
| "FRUIT_COLORS PEACH = ''#ff9966''"
| "FRUIT_COLORS CHERRY = ''#cc0000''"
| "FRUIT_COLORS KIWI = ''#66cc00''"
| "FRUIT_COLORS COCONUT = ''#e6e6e6''"
| "FRUIT_COLORS MELON = ''#99ff99''"
| "FRUIT_COLORS AVOCADO = ''#ccff66''"
| "FRUIT_COLORS BOMB = ''#333333''"

definition INITIAL_DIFFICULTY :: DifficultyConfig where
  "INITIAL_DIFFICULTY =
     \<lparr>gravity = 15 / 100, minSpeed = 14, maxSpeed = 19, spawnRate = 1400, bombChance = 1 / 10\<rparr>"

definition HARD_DIFFICULTY :: DifficultyConfig where
  "HARD_DIFFICULTY =
     \<lparr>gravity = 22 / 100, minSpeed = 18, maxSpeed = 24, spawnRate = 900, bombChance = 2 / 10\<rparr>"

definition WINNING_QUOTES :: "string list" where
  "WINNING_QUOTES =
     [''Sharp blade, sharper mind!'', ''A glorious harvest!'', ''Your reflexes are legendary!'',
      ''The fruits fear your name!'', ''Precision and power in perfect harmony!'',
      ''True mastery achieved!'', ''You flow like water, slice like steel.'']"

definition LOSING_QUOTES :: "string list" where
  "LOSING_QUOTES =
     [''Mind the explosives, young grasshopper.'', ''Chaos is the enemy of the ninja.'',
      ''Focus on the fruit, ignore the distractions.'',
      ''A dull blade cuts nothing but hope. Try again.'',
      ''Victory requires patience, not just speed.'',
      ''The bomb is not a fruit. Remember this.'', ''Fall down seven times, stand up eight.'']"

section \<open>The JavaScript library functions the core calls\<close>

definition atan2 :: "real \<Rightarrow> real \<Rightarrow> real" where
  "atan2 b a =
     (if 0 < a then arctan (b / a)
      else if a < 0 then (if 0 \<le> b then arctan (b / a) + pi else arctan (b / a) - pi)
      else if 0 < b then pi / 2
      else if b < 0 then - (pi / 2)
      else 0)"

definition Math_random :: "Game \<Rightarrow> real \<times> Game" where
  "Math_random s = (mathRandom s (randomCalls s), s\<lparr>randomCalls := Suc (randomCalls s)\<rparr>)"

definition Date_now :: "Game \<Rightarrow> int \<times> Game" where
  "Date_now s = (dateNow s (dateCalls s), s\<lparr>dateCalls := Suc (dateCalls s)\<rparr>)"

definition performance_now :: "Game \<Rightarrow> real \<times> Game" where
  "performance_now s =
     (performanceNow s (performanceCalls s), s\<lparr>performanceCalls := Suc (performanceCalls s)\<rparr>)"

definition playAudio :: "AudioEvent \<Rightarrow> Game \<Rightarrow> Game" where
  "playAudio ev s = s\<lparr>audio := audio s @ [ev]\<rparr>"

section \<open>Logic helpers of GameCanvas\<close>

definition spawnFloatingText :: "real \<Rightarrow> real \<Rightarrow> string \<Rightarrow> string \<Rightarrow> Game \<Rightarrow> Game" where
  "spawnFloatingText x y txt color s0 =
     (let (rId, s1) = Math_random s0;
          (rVx, s2) = Math_random s1;
          (rVy, s3) = Math_random s2
      in s3\<lparr>floatingTextsRef := floatingTextsRef s3 @
            [\<lparr>ft_id = numberToString s3 rId 10, ft_text = txt, ft_x = x, ft_y = y,
              ft_vx = (rVx - 1 / 2) * 2, ft_vy = - 3 - rVy * 2, ft_life = 1,
              ft_color = color, ft_scale = 1\<rparr>]\<rparr>)"

text \<open>
  One pass of the loop body of \<open>createExplosion\<close>. The calls of \<open>Math.random()\<close> are
  made in the order of the source: angle, speed, the stuck draw (fruit only, by the
  short circuit of \<open>&&\<close>), id, decay (free particles only), size, rotation,
  rotation speed.
\<close>

definition explosionParticle ::
  "real \<Rightarrow> real \<Rightarrow> string \<Rightarrow> bool \<Rightarrow> real option \<Rightarrow> real option \<Rightarrow> Game \<Rightarrow> Game" where
  "explosionParticle x y color isBomb directionAngle forceMagnitude s0 =
     (let (rAngle, s1) = Math_random s0;
          angle = (case directionAngle of
                     Some d \<Rightarrow> if \<not> isBomb then d + (rAngle - 1 / 2) * (8 / 10) else rAngle * pi * 2
                   | None \<Rightarrow> rAngle * pi * 2);
          baseSpeed = (if isBomb then 30 else 15 :: real);
          extraSpeed = (case forceMagnitude of
                          Some f \<Rightarrow> if f \<noteq> 0 then min f 40 * (4 / 10) else 0
                        | None \<Rightarrow> 0);
          (rSpeed, s2) = Math_random s1;
          speed = rSpeed * (baseSpeed + extraSpeed);
          (isStuck, s3) = (if isBomb then (False, s2)
                           else (let (rStuck, s) = Math_random s2 in (rStuck < 2 / 10, s)));
          (rId, s4) = Math_random s3;
          (decay, s5) = (if isStuck then (5 / 1000, s4)
                         else (let (rDecay, s) = Math_random s4 in (2 / 100 + rDecay * (3 / 100), s)));
          (rSize, s6) = Math_random s5;
          (rRot, s7) = Math_random s6;
          (rRotSpeed, s8) = Math_random s7
      in s8\<lparr>particlesRef := particlesRef s8 @
            [\<lparr>p_id = numberToString s8 rId 10,
              p_type = (if isBomb then SPARK else JUICE),
              p_x = x, p_y = y,
              p_vx = (if isStuck then 0 else cos angle * speed),
              p_vy = (if isStuck then 0 else sin angle * speed),
              p_color = (if isBomb then ''#ffaa00'' else color),
              p_life = (if isStuck then 2 else 1),
              p_decay = decay,
              p_size = rSize * (if isBomb then 10 else 8) + 3,
              p_gravity = (if isStuck then 5 / 100 else if isBomb then 2 / 10 else 5 / 10),
              p_rotation = rRot * pi,
              p_rotationSpeed = (rRotSpeed - 1 / 2) * (2 / 10),
              p_stuck = isStuck, p_scale = 1\<rparr>]\<rparr>)"

fun explosionLoop ::
  "nat \<Rightarrow> real \<Rightarrow> real \<Rightarrow> string \<Rightarrow> bool \<Rightarrow> real option \<Rightarrow> real option \<Rightarrow> Game \<Rightarrow> Game" where
  "explosionLoop 0 x y color isBomb directionAngle forceMagnitude s = s"
| "explosionLoop (Suc n) x y color isBomb directionAngle forceMagnitude s =
     explosionLoop n x y color isBomb directionAngle forceMagnitude
       (explosionParticle x y color isBomb directionAngle forceMagnitude s)"

definition createExplosion ::
  "real \<Rightarrow> real \<Rightarrow> string \<Rightarrow> bool \<Rightarrow> real option \<Rightarrow> real option \<Rightarrow> Game \<Rightarrow> Game" where
  "createExplosion x y color isBomb directionAngle forceMagnitude s0 =
     (let particleCount = (if isBomb then 50 else 25 :: nat);
          s1 = explosionLoop particleCount x y color isBomb directionAngle forceMagnitude s0;
          (rCore, s2) = Math_random s1
      in s2\<lparr>particlesRef := particlesRef s2 @
            [\<lparr>p_id = ''core-'' @ numberToString s2 rCore 10, p_type = CORE,
              p_x = x, p_y = y, p_vx = 0, p_vy = 0, p_color = ''#ffffff'',
              p_life = 1, p_decay = 15 / 100, p_size = 80, p_gravity = 0,
              p_rotation = 0, p_rotationSpeed = 0, p_stuck = False, p_scale = 1\<rparr>]\<rparr>)"

section \<open>The collision detector (checkCollisions)\<close>

text \<open>
  The two buffers and the flag that \<open>checkCollisions\<close> declares before its scan,
  together with the game state the scan's callback mutates.
\<close>

record Scan =
  game :: Game
  scoreChanged :: bool
  entitiesToRemove :: "string list"
  entitiesToAdd :: "Entity list"

text \<open>
  Lines 294-303 of the callback: the distance from the entity's centre to the point of
  the segment that the clamped projection parameter selects, as the code computes it:
  \<open>fl\<close> rounds the result of each operation to a double and \<open>hyp\<close> is the engine's
  \<open>Math.hypot\<close>. \<open>l2\<close> is the computed \<open>dist * dist\<close>, with
  \<open>dist = Math.hypot(dx, dy)\<close>. \<open>Math.max\<close> and \<open>Math.min\<close> return one of their
  arguments and round nothing.
\<close>

definition distToSegment ::
  "(real \<Rightarrow> real) \<Rightarrow> (real \<Rightarrow> real \<Rightarrow> real) \<Rightarrow> TrailPoint \<Rightarrow> real \<Rightarrow> real \<Rightarrow> real \<Rightarrow> Entity \<Rightarrow> real"
  where
  "distToSegment fl hyp p1 dx dy l2 entity =
     (let t0 = fl (fl (fl (fl (e_x entity - pt_x p1) * dx) + fl (fl (e_y entity - pt_y p1) * dy))
                   / l2);
          t = max 0 (min 1 t0);
          projX = fl (pt_x p1 + fl (t * dx));
          projY = fl (pt_y p1 + fl (t * dy))
      in hyp (fl (e_x entity - projX)) (fl (e_y entity - projY)))"

definition bombLogic :: "Entity \<Rightarrow> Scan \<Rightarrow> Entity \<times> Scan" where
  "bombLogic entity a =
     (let s1 = playAudio PlayBomb (game a);
          s2 = createExplosion (e_x entity) (e_y entity) ''#fff'' True None None s1;
          s3 = s2\<lparr>shakeIntensityRef := 45\<rparr>;
          s4 = s3\<lparr>livesRef := 0\<rparr>;
          s5 = s4\<lparr>statsRef := (statsRef s4)\<lparr>bombsHit := bombsHit (statsRef s4) + 1\<rparr>\<rparr>
      in (entity\<lparr>e_isSliced := True, e_flash := 1\<rparr>, a\<lparr>game := s5\<rparr>))"

definition createFragment ::
  "real \<Rightarrow> real \<Rightarrow> real \<Rightarrow> real \<Rightarrow> real \<Rightarrow> Entity \<Rightarrow> real \<Rightarrow> Entity" where
  "createFragment dx dy dist' sliceAngle offsetFactor entity side =
     (let sepVelocity = 3 / 2;
          forwardImpulse = 2 / 10;
          perpAngle = sliceAngle + pi / 2;
          vxSep = cos perpAngle * sepVelocity * side;
          vySep = sin perpAngle * sepVelocity * side;
          vxImpulse = dx * forwardImpulse;
          vyImpulse = dy * forwardImpulse;
          spin = offsetFactor * dist' * (2 / 1000) + side * (5 / 100)
      in entity\<lparr>e_id := e_id entity @ (if side = 1 then ''-A'' else ''-B''),
                e_isSliced := True,
                e_isFragment := Some True,
                e_sliceAngleRelative := Some (sliceAngle - e_rotation entity),
                e_sliceSide := Some side,
                e_vx := e_vx entity + vxImpulse + vxSep,
                e_vy := e_vy entity + vyImpulse + vySep,
                e_rotationSpeed := e_rotationSpeed entity + spin,
                e_flash := 1\<rparr>)"

text \<open>
  The updater function of lines 389-401, for the entity it closes over: from the value
  \<open>prev\<close> of the counter it returns the new value, and it writes the refs.
\<close>

definition comboUpdater :: "Entity \<Rightarrow> int \<Rightarrow> Game \<Rightarrow> int \<times> Game" where
  "comboUpdater entity prev s0 =
     (let newCombo = prev + 1;
          u1 = s0\<lparr>statsRef :=
                 (statsRef s0)\<lparr>maxCombo := max (maxCombo (statsRef s0)) newCombo\<rparr>\<rparr>;
          u2 = (if newCombo > 1 then
                  (let v1 = playAudio (PlayCombo newCombo) u1;
                       bonus = newCombo * 5;
                       v2 = v1\<lparr>scoreRef := scoreRef v1 + bonus\<rparr>;
                       v3 = v2\<lparr>statsRef :=
                              (statsRef v2)\<lparr>score := score (statsRef v2) + bonus\<rparr>\<rparr>;
                       v4 = v3\<lparr>shakeIntensityRef := min (of_int newCombo * 3) 15\<rparr>
                   in spawnFloatingText (e_x entity) (e_y entity - 100)
                        (numberToString v4 (of_int newCombo) 10 @ ''x COMBO!'')
                        ''#ffff00'' v4)
                else u1)
      in (newCombo, u2))"

text \<open>
  React's side of \<open>setCurrentCombo\<close> (the library is not part of the repository; this
  is the contract of a state setter of \<open>useState\<close>). An action is a value, which
  becomes the state, or a function, which is run on the state so far and returns the
  new one. A call of the setter puts the action into the component's queue, and the
  queue is run, in order, when React next renders the component. When no update is
  pending, React may run the action at the call itself, on the current state: it then
  keeps the computed state for the next render and does not run the action again, and
  it schedules nothing when the computed state is the current one.
  \<open>processComboQueue\<close> is React processing the queue; the game loop never calls it.
\<close>

fun basicStateReducer :: "ComboAction \<Rightarrow> int \<Rightarrow> Game \<Rightarrow> int \<times> Game" where
  "basicStateReducer (SetCombo v) prev s = (v, s)"
| "basicStateReducer (ComboUpdater entity) prev s = comboUpdater entity prev s"

definition setCurrentCombo :: "ComboAction \<Rightarrow> Game \<Rightarrow> Game" where
  "setCurrentCombo action s0 =
     (let eager = (reactEager s0 (dispatchCalls s0) \<and> comboQueue s0 = []);
          s1 = s0\<lparr>dispatchCalls := Suc (dispatchCalls s0)\<rparr>
      in if eager then
           (let (v, s2) = basicStateReducer action (currentCombo s1) s1
            in if v = currentCombo s2 then s2 else s2\<lparr>comboQueue := [SetCombo v]\<rparr>)
         else s1\<lparr>comboQueue := comboQueue s1 @ [action]\<rparr>)"

fun runComboQueue :: "ComboAction list \<Rightarrow> int \<Rightarrow> Game \<Rightarrow> int \<times> Game" where
  "runComboQueue [] prev s = (prev, s)"
| "runComboQueue (action # rest) prev s =
     (let (v, s1) = basicStateReducer action prev s in runComboQueue rest v s1)"

definition processComboQueue :: "Game \<Rightarrow> Game" where
  "processComboQueue s =
     (let (v, s1) = runComboQueue (comboQueue s) (currentCombo s) s
      in s1\<lparr>currentCombo := v, comboQueue := []\<rparr>)"

text \<open>The combo system, lines 386-405.\<close>

definition comboSystem :: "Entity \<Rightarrow> Game \<Rightarrow> Game" where
  "comboSystem entity s0 =
     (let (now, s1) = Date_now s0;
          s2 = (if now - comboTimerRef s1 < 400 then setCurrentCombo (ComboUpdater entity) s1
                else setCurrentCombo (SetCombo 1) s1)
      in s2\<lparr>comboTimerRef := now\<rparr>)"

definition fruitLogic :: "TrailPoint \<Rightarrow> real \<Rightarrow> real \<Rightarrow> real \<Rightarrow> Entity \<Rightarrow> Scan \<Rightarrow> Scan" where
  "fruitLogic p1 dx dy dist' entity a =
     (let s1 = playAudio PlaySplat (game a);
          color = FRUIT_COLORS (e_type entity);
          sliceAngle = atan2 dy dx;
          v2x = e_x entity - pt_x p1;
          v2y = e_y entity - pt_y p1;
          crossZ = dx * v2y - dy * v2x;
          offsetFactor = max (- 1) (min 1 (crossZ / (dist' * e_radius entity)));
          s2 = createExplosion (e_x entity) (e_y entity) color False (Some sliceAngle) (Some dist') s1;
          s3 = s2\<lparr>scoreRef := scoreRef s2 + 10\<rparr>;
          s4 = s3\<lparr>statsRef := (statsRef s3)\<lparr>score := score (statsRef s3) + 10\<rparr>\<rparr>;
          s5 = s4\<lparr>statsRef := (statsRef s4)\<lparr>fruitsSliced := fruitsSliced (statsRef s4) + 1\<rparr>\<rparr>;
          s6 = spawnFloatingText (e_x entity) (e_y entity - 50) ''+10'' ''#fff'' s5;
          frag = createFragment dx dy dist' sliceAngle offsetFactor entity;
          s7 = comboSystem entity s6
      in a\<lparr>game := s7, scoreChanged := True,
            entitiesToRemove := entitiesToRemove a @ [e_id entity],
            entitiesToAdd := entitiesToAdd a @ [frag 1, frag (- 1)]\<rparr>)"

text \<open>
  The callback of \<open>entitiesRef.current.forEach\<close>. It returns the entity as the
  callback leaves it (a hit bomb is mutated in place) and the buffers.
\<close>

definition sliceEntity ::
  "(real \<Rightarrow> real) \<Rightarrow> (real \<Rightarrow> real \<Rightarrow> real) \<Rightarrow> TrailPoint \<Rightarrow> real \<Rightarrow> real \<Rightarrow> real \<Rightarrow> Entity \<Rightarrow> Scan
     \<Rightarrow> Entity \<times> Scan" where
  "sliceEntity fl hyp p1 dx dy dist' entity a =
     (if e_isSliced entity then (entity, a)
      else (let l2 = fl (dist' * dist') in
        if l2 = 0 then (entity, a)
        else if distToSegment fl hyp p1 dx dy l2 entity < e_radius entity * 1 then
          (if e_type entity = BOMB_TYPE then bombLogic entity a
           else (entity, fruitLogic p1 dx dy dist' entity a))
        else (entity, a)))"

fun forEachEntity ::
  "(real \<Rightarrow> real) \<Rightarrow> (real \<Rightarrow> real \<Rightarrow> real) \<Rightarrow> TrailPoint \<Rightarrow> real \<Rightarrow> real \<Rightarrow> real \<Rightarrow> Entity list
     \<Rightarrow> Scan \<Rightarrow> Entity list \<times> Scan" where
  "forEachEntity fl hyp p1 dx dy dist' [] a = ([], a)"
| "forEachEntity fl hyp p1 dx dy dist' (entity # rest) a =
     (let (entity', a1) = sliceEntity fl hyp p1 dx dy dist' entity a;
          (rest', a2) = forEachEntity fl hyp p1 dx dy dist' rest a1
      in (entity' # rest', a2))"

definition checkCollisions :: "real \<Rightarrow> real \<Rightarrow> real \<Rightarrow> Game \<Rightarrow> Game" where
  "checkCollisions width height dt s =
     (if length (trailRef s) < 2 then s
      else (let p1 = trailRef s ! (length (trailRef s) - 2);
                p2 = trailRef s ! (length (trailRef s) - 1);
                dx = applyRounding (roundDouble s) (pt_x p2 - pt_x p1);
                dy = applyRounding (roundDouble s) (pt_y p2 - pt_y p1);
                dist' = mathHypot s dx dy
            in if dist' < 5 then s
               else (let (entities, a) =
                           forEachEntity (applyRounding (roundDouble s)) (mathHypot s) p1 dx dy dist'
                             (entitiesRef s)
                             \<lparr>game = s, scoreChanged = False,
                              entitiesToRemove = [], entitiesToAdd = []\<rparr>;
                         s1 = (if entitiesToRemove a \<noteq> [] then
                                 (game a)\<lparr>entitiesRef :=
                                    filter (\<lambda>e. e_id e \<notin> set (entitiesToRemove a)) entities
                                      @ entitiesToAdd a\<rparr>
                               else (game a)\<lparr>entitiesRef := entities\<rparr>)
                     in if scoreChanged a then
                          s1\<lparr>hudStats := \<lparr>hud_score = scoreRef s1,
                                           hud_fruits = fruitsSliced (statsRef s1),
                                           hud_maxCombo = maxCombo (statsRef s1)\<rparr>\<rparr>
                        else s1)))"

section \<open>Spawning, session start and end\<close>

text \<open>
  \<open>Math.random()\<close> returns a value in \<open>[0, 1)\<close>, so the index into \<open>FRUIT_TYPES\<close> is
  below its length. \<open>substr(2, 9)\<close> is \<open>take 9 \<circ> drop 2\<close>.
\<close>

definition spawnEntity :: "real \<Rightarrow> real \<Rightarrow> DifficultyConfig \<Rightarrow> Game \<Rightarrow> Game" where
  "spawnEntity width height difficulty s0 =
     (let (rBomb, s1) = Math_random s0;
          isBomb = rBomb < bombChance difficulty;
          (type, s2) = (if isBomb then (BOMB_TYPE, s1)
                        else (let (rType, s) = Math_random s1
                              in (FRUIT_TYPES ! nat \<lfloor>rType * real (length FRUIT_TYPES)\<rfloor>, s)));
          (rX, s3) = Math_random s2;
          x = rX * (width - 200) + 100;
          y = height + 50;
          scaleFactor = height / 1080;
          (rTarget, s4) = Math_random s3;
          targetX = width / 2 + (rTarget * 300 - 150);
          (rFlight, s5) = Math_random s4;
          flightTime = 200 + rFlight * 60;
          (rOver, s6) = Math_random s5;
          vx = ((targetX - x) / flightTime) * (1 + rOver * (2 / 10));
          (rSpeed, s7) = Math_random s6;
          vy = - (rSpeed * (maxSpeed difficulty - minSpeed difficulty) + minSpeed difficulty)
                 * scaleFactor;
          (rId, s8) = Math_random s7;
          (rRot, s9) = Math_random s8
      in s9\<lparr>entitiesRef := entitiesRef s9 @
            [\<lparr>e_id = take 9 (drop 2 (numberToString s9 rId 36)), e_type = type,
              e_x = x, e_y = y, e_vx = vx, e_vy = vy, e_rotation = 0,
              e_rotationSpeed = (rRot - 1 / 2) * (15 / 100),
              e_radius = FRUIT_RADIUS * scaleFactor, e_isSliced = False, e_scale = 1,
              e_opacity = 1, e_flash = 0, e_isFragment = None,
              e_sliceAngleRelative = None, e_sliceSide = None\<rparr>]\<rparr>)"

definition startGame :: "Game \<Rightarrow> Game" where
  "startGame s0 =
     (let s1 = playAudio AudioInit s0;
          s2 = playAudio PlayStart s1;
          s3 = s2\<lparr>scoreRef := 0, livesRef := 1, entitiesRef := [], particlesRef := [],
                 floatingTextsRef := [], trailRef := [], lastHandPosRef := None,
                 statsRef := \<lparr>score = 0, highScore = 0, combos = 0, fruitsSliced = 0,
                              bombsHit = 0, accuracy = 0, maxCombo = 0\<rparr>,
                 hudStats := \<lparr>hud_score = 0, hud_fruits = 0, hud_maxCombo = 0\<rparr>,
                 shakeIntensityRef := 0, gameState := PLAYING, finalStats := None,
                 gameOverQuote := []\<rparr>;
          (now, s4) = performance_now s3
      in s4\<lparr>lastTimeRef := now\<rparr>)"

definition endGame :: "Game \<Rightarrow> Game" where
  "endGame s0 =
     (let s1 = s0\<lparr>gameState := GAMEOVER\<rparr>;
          s2 = s1\<lparr>finalStats := Some (statsRef s1)\<rparr>;
          quotes = (if score (statsRef s2) > 50 then WINNING_QUOTES else LOSING_QUOTES);
          (r, s3) = Math_random s2;
          randomQuote = quotes ! nat \<lfloor>r * real (length quotes)\<rfloor>
      in s3\<lparr>gameOverQuote := randomQuote\<rparr>)"

section \<open>The simulation stepper (update)\<close>

definition stepEntity :: "DifficultyConfig \<Rightarrow> real \<Rightarrow> Entity \<Rightarrow> Entity" where
  "stepEntity difficulty timeScale e0 =
     (let e1 = e0\<lparr>e_x := e_x e0 + e_vx e0 * timeScale\<rparr>;
          e2 = e1\<lparr>e_y := e_y e1 + e_vy e1 * timeScale\<rparr>;
          e3 = e2\<lparr>e_vy := e_vy e2 + gravity difficulty * timeScale\<rparr>;
          e4 = e3\<lparr>e_rotation := e_rotation e3 + e_rotationSpeed e3 * timeScale\<rparr>;
          e5 = (if e_isSliced e4 then
                  (let f1 = e4\<lparr>e_opacity := e_opacity e4
                               - (if e_isFragment e4 = Some True then 3 / 100 else 2 / 100) * timeScale\<rparr>
                   in if e_isFragment f1 \<noteq> Some True
                      then f1\<lparr>e_scale := e_scale f1 + (1 / 100) * timeScale\<rparr> else f1)
                else e4)
      in if e_flash e5 > 0 then e5\<lparr>e_flash := e_flash e5 - (1 / 10) * timeScale\<rparr> else e5)"

text \<open>
  The callback of \<open>particlesRef.current.forEach\<close>; a stuck particle reads the clock
  for its pulse, so the callback threads the game state.
\<close>

definition stepParticle :: "real \<Rightarrow> Particle \<Rightarrow> Game \<Rightarrow> Particle \<times> Game" where
  "stepParticle timeScale p0 s0 =
     (if p_stuck p0 then
        (let p1 = p0\<lparr>p_y := p_y p0 + p_gravity p0 * timeScale\<rparr>;
             p2 = p1\<lparr>p_life := p_life p1 - p_decay p1 * timeScale\<rparr>;
             (now, s1) = Date_now s0
         in (p2\<lparr>p_scale := 1 + sin (of_int now / 100) * (1 / 10)\<rparr>, s1))
      else
        (let p1 = p0\<lparr>p_x := p_x p0 + p_vx p0 * timeScale\<rparr>;
             p2 = p1\<lparr>p_y := p_y p1 + p_vy p1 * timeScale\<rparr>;
             p3 = p2\<lparr>p_vy := p_vy p2 + p_gravity p2 * timeScale\<rparr>;
             p4 = p3\<lparr>p_life := p_life p3 - p_decay p3 * timeScale\<rparr>;
             p5 = p4\<lparr>p_vx := p_vx p4 * (95 / 100)\<rparr>;
             p6 = p5\<lparr>p_vy := p_vy p5 * (95 / 100)\<rparr>
         in (p6\<lparr>p_rotation := p_rotation p6 + p_rotationSpeed p6 * timeScale\<rparr>, s0)))"

fun forEachParticle :: "real \<Rightarrow> Particle list \<Rightarrow> Game \<Rightarrow> Particle list \<times> Game" where
  "forEachParticle timeScale [] s = ([], s)"
| "forEachParticle timeScale (p # rest) s =
     (let (p', s1) = stepParticle timeScale p s;
          (rest', s2) = forEachParticle timeScale rest s1
      in (p' # rest', s2))"

definition stepFloatingText :: "real \<Rightarrow> FloatingText \<Rightarrow> FloatingText" where
  "stepFloatingText timeScale ft0 =
     (let ft1 = ft0\<lparr>ft_x := ft_x ft0 + ft_vx ft0 * timeScale\<rparr>;
          ft2 = ft1\<lparr>ft_y := ft_y ft1 + ft_vy ft1 * timeScale\<rparr>;
          ft3 = ft2\<lparr>ft_life := ft_life ft2 - (2 / 100) * timeScale\<rparr>
      in ft3\<lparr>ft_scale := ft_scale ft3 + (1 / 100) * timeScale\<rparr>)"

text \<open>
  \<open>update\<close> runs these blocks in order. The transition to \<open>GAMEOVER\<close>, lines 427-431:
\<close>

definition checkGameOver :: "Game \<Rightarrow> Game" where
  "checkGameOver s =
     (if livesRef s \<le> 0 \<and> gameState s = PLAYING then
        (if shakeIntensityRef s < 1 then endGame s else s)
      else s)"

text \<open>The decay of the screen shake, lines 433-437.\<close>

definition decayShake :: "real \<Rightarrow> Game \<Rightarrow> Game" where
  "decayShake dt s =
     (if shakeIntensityRef s > 0 then
        (let s1 = s\<lparr>shakeIntensityRef := shakeIntensityRef s * ((9 / 10) powr (dt * 60))\<rparr>
         in if shakeIntensityRef s1 < 1 / 2 then s1\<lparr>shakeIntensityRef := 0\<rparr> else s1)
      else s)"

text \<open>The spawn timer, lines 442-446.\<close>

definition spawnTick :: "real \<Rightarrow> real \<Rightarrow> real \<Rightarrow> DifficultyConfig \<Rightarrow> Game \<Rightarrow> Game" where
  "spawnTick dt width height difficulty s =
     (let s1 = s\<lparr>spawnTimerRef := spawnTimerRef s + dt * 1000\<rparr>
      in if spawnTimerRef s1 > spawnRate difficulty then
           (spawnEntity width height difficulty s1)\<lparr>spawnTimerRef := 0\<rparr>
         else s1)"

text \<open>Entities, particles, floating texts and the trail, lines 448-497.\<close>

definition updateEntities :: "DifficultyConfig \<Rightarrow> real \<Rightarrow> real \<Rightarrow> Game \<Rightarrow> Game" where
  "updateEntities difficulty timeScale height s =
     s\<lparr>entitiesRef :=
         filter (\<lambda>e. e_opacity e > 0 \<and> e_y e < height + 300)
           (map (stepEntity difficulty timeScale) (entitiesRef s))\<rparr>"

definition updateParticles :: "real \<Rightarrow> Game \<Rightarrow> Game" where
  "updateParticles timeScale s =
     (let (particles, s1) = forEachParticle timeScale (particlesRef s) s
      in s1\<lparr>particlesRef := filter (\<lambda>p. p_life p > 0) particles\<rparr>)"

definition updateFloatingTexts :: "real \<Rightarrow> Game \<Rightarrow> Game" where
  "updateFloatingTexts timeScale s =
     s\<lparr>floatingTextsRef :=
         filter (\<lambda>ft. ft_life ft > 0) (map (stepFloatingText timeScale) (floatingTextsRef s))\<rparr>"

definition pruneTrail :: "Game \<Rightarrow> Game" where
  "pruneTrail s =
     (let (now, s1) = Date_now s
      in s1\<lparr>trailRef := filter (\<lambda>p. now - timestamp p < SLICE_LIFETIME) (trailRef s1)\<rparr>)"

definition update :: "real \<Rightarrow> real \<Rightarrow> real \<Rightarrow> Game \<Rightarrow> Game" where
  "update dt width height s0 =
     (let s1 = checkGameOver s0;
          s2 = decayShake dt s1;
          difficulty = (if scoreRef s2 > 250 then HARD_DIFFICULTY else INITIAL_DIFFICULTY);
          timeScale = dt * 60;
          s3 = spawnTick dt width height difficulty s2;
          s4 = updateEntities difficulty timeScale height s3;
          s5 = updateParticles timeScale s4;
          s6 = updateFloatingTexts timeScale s5
      in pruneTrail s6)"

section \<open>Pointer input and the frame loop\<close>

text \<open>
  What \<open>detectHand\<close> gets from the hand-tracking collaborator in one frame: nothing
  (the landmarker or the video is not ready), a result without a hand, or the index
  finger tip together with the video's width and height.
\<close>

datatype HandInput = NotReady | NoHand | IndexTip real real real real

definition detectHand :: "real \<Rightarrow> real \<Rightarrow> HandInput \<Rightarrow> Game \<Rightarrow> Game" where
  "detectHand width height input s0 =
     (case input of
        NotReady \<Rightarrow> s0
      | NoHand \<Rightarrow>
          (let (now, s1) = performance_now s0
           in if trailRef s1 = [] then s1\<lparr>lastHandPosRef := None\<rparr> else s1)
      | IndexTip tipX tipY vWidth vHeight \<Rightarrow>
          (let (now, s1) = performance_now s0;
               scale = max (width / vWidth) (height / vHeight);
               scaledW = vWidth * scale;
               scaledH = vHeight * scale;
               dx = (width - scaledW) / 2;
               rawX = width - (dx + tipX * scaledW);
               rawY = (height - scaledH) / 2 + tipY * scaledH;
               (newX, newY, s2) =
                 (case lastHandPosRef s1 of
                    None \<Rightarrow> (rawX, rawY, s1)
                  | Some l \<Rightarrow>
                      (let alpha = 1 / 2;
                           nx = pt_x l + (rawX - pt_x l) * alpha;
                           ny = pt_y l + (rawY - pt_y l) * alpha;
                           dist' = mathHypot s1 (nx - pt_x l) (ny - pt_y l)
                       in (nx, ny,
                           if dist' > 10 \<and> now - lastSliceSoundTime s1 > 100
                           then (playAudio PlaySlice s1)\<lparr>lastSliceSoundTime := now\<rparr>
                           else s1)));
               s3 = s2\<lparr>lastHandPosRef := Some \<lparr>pt_x = newX, pt_y = newY\<rparr>\<rparr>;
               (stamp, s4) = Date_now s3
           in s4\<lparr>trailRef := trailRef s4 @ [\<lparr>pt_x = newX, pt_y = newY, timestamp = stamp\<rparr>]\<rparr>))"

text \<open>
  One animation frame. \<open>canvas\<close> is the canvas's width and height when the canvas and
  its 2D context exist. \<open>draw\<close> only reads the game state and is left out (the
  oracle \<open>mathRandom\<close> numbers the calls of the functions modelled here); the next
  frame is requested by the browser.
\<close>

definition renderFrame :: "(real \<times> real) option \<Rightarrow> HandInput \<Rightarrow> Game \<Rightarrow> Game" where
  "renderFrame canvas input s0 =
     (let (now, s1) = performance_now s0;
          dt = min ((now - lastTimeRef s1) / 1000) (1 / 10);
          s2 = s1\<lparr>lastTimeRef := now\<rparr>
      in case canvas of
           None \<Rightarrow> s2
         | Some (width, height) \<Rightarrow>
             if gameState s2 = PLAYING then
               update dt width height
                 (checkCollisions width height dt (detectHand width height input s2))
             else if gameState s2 = MENU \<or> gameState s2 = GAMEOVER then
               (let s3 = detectHand width height input s2
                in if particlesRef s3 \<noteq> [] \<or> floatingTextsRef s3 \<noteq> []
                   then update dt width height s3 else s3)
             else s2)"

section \<open>The feedback request (geminiService.ts)\<close>

text \<open>
  \<open>generateSenseiFeedback\<close> is an \<open>async\<close> function: its promise is rejected with a
  thrown value (\<open>Inl\<close>) or fulfilled with a string (\<open>Inr\<close>). The text-generation client
  is the collaborator: \<open>generateContent key model contents\<close> is what awaiting
  \<open>ai.models.generateContent\<close> gives for a client built with \<open>key\<close>, either a thrown
  value or the \<open>text\<close> of the response, which may be undefined. Building the client
  from a non-empty key does not throw. \<open>str\<close> is the number formatting of a template
  literal. The console output is left out.
\<close>

datatype exn = Thrown string

definition initGenAI :: "string option \<Rightarrow> string option" where
  "initGenAI API_KEY =
     (case API_KEY of
        None \<Rightarrow> None
      | Some k \<Rightarrow> if k = [] then None else Some k)"

definition tryCatch :: "exn + 'a \<Rightarrow> (exn \<Rightarrow> exn + 'a) \<Rightarrow> exn + 'a" where
  "tryCatch body handler = (case body of Inl error \<Rightarrow> handler error | Inr v \<Rightarrow> Inr v)"

definition senseiPrompt :: "(int \<Rightarrow> string) \<Rightarrow> GameStats \<Rightarrow> string" where
  "senseiPrompt str stats =
     concat (map (\<lambda>l. l @ [CHR 0x0A])
       [[],
        ''      You are a wise, mystical Fruit Ninja Sensei. A student has just finished training.'',
        ''      '',
        ''      Here are their stats:'',
        ''      - Score: '' @ str (score stats),
        ''      - Max Combo: '' @ str (maxCombo stats),
        ''      - Fruits Sliced: '' @ str (fruitsSliced stats),
        ''      - Bombs Hit: '' @ str (bombsHit stats),
        ''      '',
        ''      Provide a brief, 2-sentence response.'',
        ''      The first sentence should be a mystical observation about their performance style.'',
        ''      The second sentence should be a specific, actionable tip or a funny remark about fruit.'',
        ''      Don'' @ [CHR 0x27] @ ''t use markdown. Keep it plain text.'']) @ ''    ''"

definition generateSenseiFeedback ::
  "string option \<Rightarrow> (string \<Rightarrow> string \<Rightarrow> string \<Rightarrow> exn + string option) \<Rightarrow> (int \<Rightarrow> string)
     \<Rightarrow> GameStats \<Rightarrow> exn + string" where
  "generateSenseiFeedback API_KEY generateContent str stats =
     (case initGenAI API_KEY of
        None \<Rightarrow> Inr ''The Dojo is silent (API Key missing).''
      | Some ai \<Rightarrow>
          tryCatch
            (let prompt = senseiPrompt str stats
             in case generateContent ai ''gemini-3-flash-preview'' prompt of
                  Inl error \<Rightarrow> Inl error
                | Inr response_text \<Rightarrow>
                    Inr (case response_text of
                           None \<Rightarrow> ''Focus your mind, and the fruit will reveal its path.''
                         | Some t \<Rightarrow>
                             if t = [] then ''Focus your mind, and the fruit will reveal its path.''
                             else t))
            (\<lambda>error. Inr ''Even masters stumble. Try again.''))"

section \<open>Notions the properties are stated with\<close>

text \<open>
  The distance of the specification: the Euclidean distance from the centre
  \<open>(cx, cy)\<close> to the point of the segment from \<open>(x1, y1)\<close> to \<open>(x2, y2)\<close> selected by
  the projection parameter \<open>t = dot(centre - p1, p2 - p1) / |p2 - p1|\<^sup>2\<close> clamped to
  \<open>[0, 1]\<close>.
\<close>

definition segmentDistance :: "real \<Rightarrow> real \<Rightarrow> real \<Rightarrow> real \<Rightarrow> real \<Rightarrow> real \<Rightarrow> real" where
  "segmentDistance cx cy x1 y1 x2 y2 =
     (let t = ((cx - x1) * (x2 - x1) + (cy - y1) * (y2 - y1)) / ((x2 - x1)\<^sup>2 + (y2 - y1)\<^sup>2);
          tc = max 0 (min 1 t);
          qx = x1 + tc * (x2 - x1);
          qy = y1 + tc * (y2 - y1)
      in sqrt ((cx - qx)\<^sup>2 + (cy - qy)\<^sup>2))"

text \<open>
  Exact arithmetic: the Euclidean norm, which \<open>Math.hypot\<close> approximates, and the
  rounding that rounds nothing.
\<close>

definition hypot :: "real \<Rightarrow> real \<Rightarrow> real" where
  "hypot a b = sqrt (a * a + b * b)"

definition exactRounding :: Rounding where
  "exactRounding = mkRounding (\<lambda>x. x)"

definition exactArithmetic :: "Game \<Rightarrow> bool" where
  "exactArithmetic s = (roundDouble s = exactRounding \<and> mathHypot s = hypot)"

text \<open>
  The swipe segment of a state, lines 274-279 of \<open>checkCollisions\<close>: the last two
  trail points, and the differences and the length as the code computes them.
\<close>

definition swipeP1 :: "Game \<Rightarrow> TrailPoint" where
  "swipeP1 s = trailRef s ! (length (trailRef s) - 2)"

definition swipeP2 :: "Game \<Rightarrow> TrailPoint" where
  "swipeP2 s = trailRef s ! (length (trailRef s) - 1)"

definition swipeDx :: "Game \<Rightarrow> real" where
  "swipeDx s = applyRounding (roundDouble s) (pt_x (swipeP2 s) - pt_x (swipeP1 s))"

definition swipeDy :: "Game \<Rightarrow> real" where
  "swipeDy s = applyRounding (roundDouble s) (pt_y (swipeP2 s) - pt_y (swipeP1 s))"

definition swipeDist :: "Game \<Rightarrow> real" where
  "swipeDist s = mathHypot s (swipeDx s) (swipeDy s)"

definition swipeL2 :: "Game \<Rightarrow> real" where
  "swipeL2 s = applyRounding (roundDouble s) (swipeDist s * swipeDist s)"

text \<open>The batch update that ends \<open>checkCollisions\<close>, lines 410-423.\<close>

definition applyBatch :: "Entity list \<times> Scan \<Rightarrow> Game" where
  "applyBatch r =
     (let entities = fst r; a = snd r;
          s1 = (if entitiesToRemove a \<noteq> [] then
                  (game a)\<lparr>entitiesRef :=
                     filter (\<lambda>e. e_id e \<notin> set (entitiesToRemove a)) entities @ entitiesToAdd a\<rparr>
                else (game a)\<lparr>entitiesRef := entities\<rparr>)
      in if scoreChanged a then
           s1\<lparr>hudStats := \<lparr>hud_score = scoreRef s1, hud_fruits = fruitsSliced (statsRef s1),
                            hud_maxCombo = maxCombo (statsRef s1)\<rparr>\<rparr>
         else s1)"

text \<open>
  The entities a scan hits: not yet sliced and, by the computed distance, closer to
  the segment than their radius (the test of \<open>sliceEntity\<close>). A hit bomb stays in the
  collection, marked; a hit fruit is replaced by its two fragments.
\<close>

definition isHit ::
  "(real \<Rightarrow> real) \<Rightarrow> (real \<Rightarrow> real \<Rightarrow> real) \<Rightarrow> TrailPoint \<Rightarrow> real \<Rightarrow> real \<Rightarrow> real \<Rightarrow> Entity \<Rightarrow> bool"
  where
  "isHit fl hyp p1 dx dy dist' e =
     (\<not> e_isSliced e \<and> fl (dist' * dist') \<noteq> 0
      \<and> distToSegment fl hyp p1 dx dy (fl (dist' * dist')) e < e_radius e * 1)"

definition isFruitHit ::
  "(real \<Rightarrow> real) \<Rightarrow> (real \<Rightarrow> real \<Rightarrow> real) \<Rightarrow> TrailPoint \<Rightarrow> real \<Rightarrow> real \<Rightarrow> real \<Rightarrow> Entity \<Rightarrow> bool"
  where
  "isFruitHit fl hyp p1 dx dy dist' e = (isHit fl hyp p1 dx dy dist' e \<and> e_type e \<noteq> BOMB_TYPE)"

definition markBomb ::
  "(real \<Rightarrow> real) \<Rightarrow> (real \<Rightarrow> real \<Rightarrow> real) \<Rightarrow> TrailPoint \<Rightarrow> real \<Rightarrow> real \<Rightarrow> real \<Rightarrow> Entity \<Rightarrow> Entity"
  where
  "markBomb fl hyp p1 dx dy dist' e =
     (if isHit fl hyp p1 dx dy dist' e \<and> e_type e = BOMB_TYPE
      then e\<lparr>e_isSliced := True, e_flash := 1\<rparr> else e)"

definition fragmentOf :: "TrailPoint \<Rightarrow> real \<Rightarrow> real \<Rightarrow> real \<Rightarrow> Entity \<Rightarrow> real \<Rightarrow> Entity" where
  "fragmentOf p1 dx dy dist' e side =
     createFragment dx dy dist' (atan2 dy dx)
       (max (- 1) (min 1 ((dx * (e_y e - pt_y p1) - dy * (e_x e - pt_x p1)) / (dist' * e_radius e))))
       e side"

text \<open>
  The combo bonus of one fruit hit at clock reading \<open>now\<close>, and the bonuses of \<open>n\<close>
  successive fruit hits of one scan, whose clock readings are \<open>clock c\<close>,
  \<open>clock (c + 1)\<close>, ...
\<close>

definition comboAfter :: "int \<Rightarrow> int \<Rightarrow> int \<Rightarrow> int" where
  "comboAfter now lastHitTime combo = (if now - lastHitTime < 400 then combo + 1 else 1)"

definition comboBonus :: "int \<Rightarrow> int \<Rightarrow> int \<Rightarrow> int" where
  "comboBonus now lastHitTime combo =
     (if now - lastHitTime < 400 \<and> combo + 1 > 1 then (combo + 1) * 5 else 0)"

fun scanBonus :: "(nat \<Rightarrow> int) \<Rightarrow> nat \<Rightarrow> int \<Rightarrow> int \<Rightarrow> nat \<Rightarrow> int" where
  "scanBonus clock c lastHitTime combo 0 = 0"
| "scanBonus clock c lastHitTime combo (Suc n) =
     comboBonus (clock c) lastHitTime combo
       + scanBonus clock (Suc c) (clock c) (comboAfter (clock c) lastHitTime combo) n"

text \<open>
  What a queue of combo actions comes to when it is run from the counter value
  \<open>combo\<close>: the value of the counter, the bonus points added to the score, and the
  longest combo recorded, from the record \<open>best\<close> so far.
\<close>

fun queueCombo :: "ComboAction list \<Rightarrow> int \<Rightarrow> int" where
  "queueCombo [] combo = combo"
| "queueCombo (SetCombo v # rest) combo = queueCombo rest v"
| "queueCombo (ComboUpdater e # rest) combo = queueCombo rest (combo + 1)"

fun queueBonus :: "ComboAction list \<Rightarrow> int \<Rightarrow> int" where
  "queueBonus [] combo = 0"
| "queueBonus (SetCombo v # rest) combo = queueBonus rest v"
| "queueBonus (ComboUpdater e # rest) combo =
     (if combo + 1 > 1 then (combo + 1) * 5 else 0) + queueBonus rest (combo + 1)"

fun queueMaxCombo :: "ComboAction list \<Rightarrow> int \<Rightarrow> int \<Rightarrow> int" where
  "queueMaxCombo [] combo best = best"
| "queueMaxCombo (SetCombo v # rest) combo best = queueMaxCombo rest v best"
| "queueMaxCombo (ComboUpdater e # rest) combo best =
     queueMaxCombo rest (combo + 1) (max best (combo + 1))"

text \<open>
  What the counter, the score, the score of the statistics and the longest combo of a
  state come to once React has run the actions that are still in the queue.
\<close>

definition pendingCombo :: "Game \<Rightarrow> int" where
  "pendingCombo s = queueCombo (comboQueue s) (currentCombo s)"

definition settledScore :: "Game \<Rightarrow> int" where
  "settledScore s = scoreRef s + queueBonus (comboQueue s) (currentCombo s)"

definition settledStatsScore :: "Game \<Rightarrow> int" where
  "settledStatsScore s = score (statsRef s) + queueBonus (comboQueue s) (currentCombo s)"

definition settledMaxCombo :: "Game \<Rightarrow> int" where
  "settledMaxCombo s = queueMaxCombo (comboQueue s) (currentCombo s) (maxCombo (statsRef s))"

text \<open>The action that the combo system hands to \<open>setCurrentCombo\<close> for a hit at \<open>now\<close>.\<close>

definition comboAction :: "int \<Rightarrow> int \<Rightarrow> Entity \<Rightarrow> ComboAction" where
  "comboAction now lastHitTime entity =
     (if now - lastHitTime < 400 then ComboUpdater entity else SetCombo 1)"

text \<open>
  A spark of a bomb burst at \<open>(x, y)\<close>: a free \<open>SPARK\<close> particle with full life whose
  direction is a random draw over the full turn and whose speed is a random draw up
  to the bomb's base speed 30; neither depends on the swipe.
\<close>

definition bombSpark :: "(nat \<Rightarrow> real) \<Rightarrow> real \<Rightarrow> real \<Rightarrow> Particle \<Rightarrow> bool" where
  "bombSpark rnd x y p =
     (p_type p = SPARK \<and> p_x p = x \<and> p_y p = y \<and> \<not> p_stuck p \<and> p_life p = 1
      \<and> p_color p = ''#ffaa00'' \<and> p_gravity p = 2 / 10
      \<and> (\<exists>i. p_vx p = cos (rnd i * pi * 2) * (rnd (Suc i) * 30)
             \<and> p_vy p = sin (rnd i * pi * 2) * (rnd (Suc i) * 30)
             \<and> p_decay p = 2 / 100 + rnd (i + 3) * (3 / 100)))"

definition coreFlash :: "real \<Rightarrow> real \<Rightarrow> Particle \<Rightarrow> bool" where
  "coreFlash x y p =
     (p_type p = CORE \<and> p_x p = x \<and> p_y p = y \<and> p_vx p = 0 \<and> p_vy p = 0 \<and> \<not> p_stuck p
      \<and> p_life p = 1 \<and> p_decay p = 15 / 100)"

section \<open>Sample states\<close>

text \<open>
  The state of a freshly mounted \<open>GameCanvas\<close> (the initial values of its refs and
  state cells) for given oracles, and small concrete scenes.
\<close>

definition mountedGame ::
  "(nat \<Rightarrow> real) \<Rightarrow> (nat \<Rightarrow> int) \<Rightarrow> (nat \<Rightarrow> real) \<Rightarrow> (real \<Rightarrow> nat \<Rightarrow> string) \<Rightarrow> (nat \<Rightarrow> bool)
     \<Rightarrow> Rounding \<Rightarrow> (real \<Rightarrow> real \<Rightarrow> real) \<Rightarrow> Game" where
  "mountedGame rnd clock perf str eager fl hyp =
     \<lparr>scoreRef = 0, livesRef = 1, lastTimeRef = 0, spawnTimerRef = 0, entitiesRef = [],
      particlesRef = [], floatingTextsRef = [], trailRef = [], lastHandPosRef = None,
      lastSliceSoundTime = 0, shakeIntensityRef = 0,
      statsRef = \<lparr>score = 0, highScore = 0, combos = 0, fruitsSliced = 0, bombsHit = 0,
                  accuracy = 0, maxCombo = 0\<rparr>,
      gameState = LOADING, finalStats = None, gameOverQuote = [], currentCombo = 0,
      hudStats = \<lparr>hud_score = 0, hud_fruits = 0, hud_maxCombo = 0\<rparr>, comboTimerRef = 0,
      audio = [], mathRandom = rnd, randomCalls = 0, dateNow = clock, dateCalls = 0,
      performanceNow = perf, performanceCalls = 0, numberToString = str,
      comboQueue = [], reactEager = eager, dispatchCalls = 0, roundDouble = fl,
      mathHypot = hyp\<rparr>"

text \<open>
  The sample game runs on exact arithmetic, and its React never computes a state at
  the call.
\<close>

definition sampleGame :: Game where
  "sampleGame =
     mountedGame (\<lambda>n. 1 / 2) (\<lambda>n. 1000000) (\<lambda>n. 16 * real n) (\<lambda>v r. ''n'') (\<lambda>n. False)
       exactRounding hypot"

definition entityAt :: "string \<Rightarrow> FruitType \<Rightarrow> real \<Rightarrow> real \<Rightarrow> Entity" where
  "entityAt i ty x y =
     \<lparr>e_id = i, e_type = ty, e_x = x, e_y = y, e_vx = 0, e_vy = 0, e_rotation = 0,
      e_rotationSpeed = 0, e_radius = 35, e_isSliced = False, e_scale = 1, e_opacity = 1,
      e_flash = 0, e_isFragment = None, e_sliceAngleRelative = None, e_sliceSide = None\<rparr>"

definition trailPoint :: "real \<Rightarrow> real \<Rightarrow> int \<Rightarrow> TrailPoint" where
  "trailPoint x y t = \<lparr>pt_x = x, pt_y = y, timestamp = t\<rparr>"

definition swipeScene :: "Entity list \<Rightarrow> Game" where
  "swipeScene es =
     sampleGame\<lparr>gameState := PLAYING, entitiesRef := es,
                trailRef := [trailPoint 0 0 999990, trailPoint 100 0 999995]\<rparr>"

text \<open>A swipe of 3 pixels that passes through the centre of a fruit.\<close>

definition shortSwipeScene :: Game where
  "shortSwipeScene =
     sampleGame\<lparr>gameState := PLAYING, entitiesRef := [entityAt ''f'' APPLE 1 0],
                trailRef := [trailPoint 0 0 999990, trailPoint 3 0 999995]\<rparr>"

text \<open>
  Two fruits under the 100-pixel swipe; and, at the boundary of the hit test, a fruit
  whose centre is 35 pixels from the swipe next to one at 34 pixels.
\<close>

definition twoFruitScene :: Game where
  "twoFruitScene = swipeScene [entityAt ''f'' APPLE 30 0, entityAt ''g'' PEAR 70 0]"

definition boundaryScene :: Game where
  "boundaryScene = swipeScene [entityAt ''m'' APPLE 50 35, entityAt ''h'' PEAR 50 34]"

definition emptyScan :: "Game \<Rightarrow> Scan" where
  "emptyScan s = \<lparr>game = s, scoreChanged = False, entitiesToRemove = [], entitiesToAdd = []\<rparr>"

definition sparkParticle :: "real \<Rightarrow> real \<Rightarrow> Particle" where
  "sparkParticle life decay =
     \<lparr>p_id = ''p'', p_type = SPARK, p_x = 0, p_y = 0, p_vx = 0, p_vy = 0, p_color = ''#ffaa00'',
      p_life = life, p_decay = decay, p_size = 3, p_gravity = 2 / 10, p_rotation = 0,
      p_rotationSpeed = 0, p_stuck = False, p_scale = 1\<rparr>"

definition bombedScene :: "real \<Rightarrow> Game" where
  "bombedScene shake = sampleGame\<lparr>gameState := PLAYING, livesRef := 0, shakeIntensityRef := shake\<rparr>"

definition particleScene :: "Particle list \<Rightarrow> Game" where
  "particleScene ps = sampleGame\<lparr>gameState := PLAYING, particlesRef := ps\<rparr>"

text \<open>
  A round that has just ended with a combo of 3 on the counter, and the same state a
  frame later while a spark of the bomb is still alive and the spawn timer is about
  to expire.
\<close>

definition finishedScene :: Game where
  "finishedScene =
     sampleGame\<lparr>scoreRef := 70, livesRef := 0, gameState := GAMEOVER, currentCombo := 3,
                comboTimerRef := 999000, particlesRef := [sparkParticle 1 (2 / 100)],
                spawnTimerRef := 1390, performanceCalls := 1,
                statsRef := \<lparr>score = 70, highScore = 0, combos = 0, fruitsSliced = 4,
                             bombsHit = 1, accuracy = 0, maxCombo = 3\<rparr>\<rparr>"

text \<open>
  A retry of such a round whose last fruit was hit at 999700, with the first fruit of
  the new round under the first swipe: when it is hit, the clock reads 1000000.
  \<open>eager\<close> says when React runs a combo action at the call.
\<close>

definition retriedRound :: "(nat \<Rightarrow> bool) \<Rightarrow> Game" where
  "retriedRound eager =
     (startGame (finishedScene\<lparr>comboTimerRef := 999700, reactEager := eager\<rparr>))
       \<lparr>entitiesRef := [entityAt ''f'' APPLE 50 0],
        trailRef := [trailPoint 0 0 999990, trailPoint 100 0 999995]\<rparr>"

section \<open>Verified properties\<close>

subsection \<open>Arithmetic of \<open>Math.hypot\<close> and of the rounding\<close>

lemma hypot_nonneg: "0 \<le> hypot a b"
  by (simp add: hypot_def)

lemma hypot_square: "hypot a b * hypot a b = a * a + b * b"
  by (simp add: hypot_def)

lemma hypot_zero_right: "hypot a 0 = \<bar>a\<bar>"
  by (simp add: hypot_def)

lemma hypot_eq_0_iff: "hypot a b = 0 \<longleftrightarrow> a = 0 \<and> b = 0"
  by (simp add: hypot_def add_nonneg_eq_0_iff)

lemma square_ge_25: "\<not> d < 5 \<Longrightarrow> 25 \<le> d * (d::real)"
  using mult_mono[of 5 d 5 d] by simp

lemma applyRounding_mono: "x \<le> y \<Longrightarrow> applyRounding r x \<le> applyRounding r y"
  using applyRounding[of r] by simp

lemma applyRounding_25: "applyRounding r 25 = 25"
  using applyRounding[of r] by simp

lemma applyRounding_exact: "applyRounding exactRounding = (\<lambda>x. x)"
  by (simp add: exactRounding_def mkRounding_inverse)

lemma rounded_square_ge_25: "\<not> d < 5 \<Longrightarrow> 25 \<le> applyRounding r (d * d)"
  using applyRounding_mono[OF square_ge_25, of d r] by (simp add: applyRounding_25)

subsection \<open>The guards of the collision detector\<close>

lemma checkCollisions_scan:
  "2 \<le> length (trailRef s) \<Longrightarrow> \<not> swipeDist s < 5 \<Longrightarrow>
   checkCollisions width height dt s =
     applyBatch (forEachEntity (applyRounding (roundDouble s)) (mathHypot s) (swipeP1 s)
        (swipeDx s) (swipeDy s) (swipeDist s) (entitiesRef s) (emptyScan s))"
  by (simp add: checkCollisions_def applyBatch_def swipeDist_def swipeDx_def swipeDy_def
      swipeP1_def swipeP2_def emptyScan_def Let_def split_def)

lemma checkCollisions_skip:
  "length (trailRef s) < 2 \<or> swipeDist s < 5 \<Longrightarrow> checkCollisions width height dt s = s"
  by (auto simp add: checkCollisions_def swipeDist_def swipeDx_def swipeDy_def
      swipeP1_def swipeP2_def Let_def)

lemma sliceEntity_no_zero_guard:
  "\<not> dist' < 5 \<Longrightarrow>
   sliceEntity (applyRounding r) hyp p1 dx dy dist' entity a =
     (if e_isSliced entity then (entity, a)
      else if distToSegment (applyRounding r) hyp p1 dx dy (applyRounding r (dist' * dist')) entity
                < e_radius entity * 1 then
        (if e_type entity = BOMB_TYPE then bombLogic entity a
         else (entity, fruitLogic p1 dx dy dist' entity a))
      else (entity, a))"
  using rounded_square_ge_25[of dist' r] by (simp add: sliceEntity_def Let_def)

text \<open>
  C10. With fewer than two trail points, or a swipe segment whose computed length is
  less than 5 pixels, \<open>checkCollisions\<close> returns the state it was given, unchanged in
  every field. When both guards pass, the scan runs with \<open>dist * dist \<ge> 25\<close>, in
  exact arithmetic and as the double the code computes for the divisor \<open>l2\<close> of the
  projection, so the divisor is not zero where the division is executed, and the
  callback's own test \<open>l2 === 0\<close> never fires.
\<close>

theorem checkCollisions_guards:
  "(length (trailRef s) < 2 \<or> swipeDist s < 5 \<longrightarrow> checkCollisions width height dt s = s)
   \<and> (2 \<le> length (trailRef s) \<and> \<not> swipeDist s < 5 \<longrightarrow>
        checkCollisions width height dt s =
          applyBatch (forEachEntity (applyRounding (roundDouble s)) (mathHypot s) (swipeP1 s)
                        (swipeDx s) (swipeDy s) (swipeDist s) (entitiesRef s) (emptyScan s))
        \<and> 25 \<le> swipeDist s * swipeDist s
        \<and> swipeDist s * swipeDist s \<noteq> 0
        \<and> 25 \<le> swipeL2 s
        \<and> swipeL2 s \<noteq> 0
        \<and> (\<forall>entity a. sliceEntity (applyRounding (roundDouble s)) (mathHypot s) (swipeP1 s)
                          (swipeDx s) (swipeDy s) (swipeDist s) entity a =
             (if e_isSliced entity then (entity, a)
              else if distToSegment (applyRounding (roundDouble s)) (mathHypot s) (swipeP1 s)
                        (swipeDx s) (swipeDy s) (swipeL2 s) entity < e_radius entity * 1 then
                (if e_type entity = BOMB_TYPE then bombLogic entity a
                 else (entity, fruitLogic (swipeP1 s) (swipeDx s) (swipeDy s) (swipeDist s) entity a))
              else (entity, a))))"
proof (intro conjI impI)
  assume "length (trailRef s) < 2 \<or> swipeDist s < 5"
  then show "checkCollisions width height dt s = s"
    by (rule checkCollisions_skip)
next
  assume g: "2 \<le> length (trailRef s) \<and> \<not> swipeDist s < 5"
  then show "checkCollisions width height dt s =
          applyBatch (forEachEntity (applyRounding (roundDouble s)) (mathHypot s) (swipeP1 s)
                        (swipeDx s) (swipeDy s) (swipeDist s) (entitiesRef s) (emptyScan s))"
    by (simp add: checkCollisions_scan)
  from g show ge: "25 \<le> swipeDist s * swipeDist s"
    by (simp add: square_ge_25)
  from ge show "swipeDist s * swipeDist s \<noteq> 0"
    by linarith
  from g show ge2: "25 \<le> swipeL2 s"
    by (simp add: swipeL2_def rounded_square_ge_25)
  from ge2 show "swipeL2 s \<noteq> 0"
    by linarith
  from g show "\<forall>entity a. sliceEntity (applyRounding (roundDouble s)) (mathHypot s) (swipeP1 s)
                          (swipeDx s) (swipeDy s) (swipeDist s) entity a =
             (if e_isSliced entity then (entity, a)
              else if distToSegment (applyRounding (roundDouble s)) (mathHypot s) (swipeP1 s)
                        (swipeDx s) (swipeDy s) (swipeL2 s) entity < e_radius entity * 1 then
                (if e_type entity = BOMB_TYPE then bombLogic entity a
                 else (entity, fruitLogic (swipeP1 s) (swipeDx s) (swipeDy s) (swipeDist s) entity a))
              else (entity, a))"
    unfolding swipeL2_def
    using sliceEntity_no_zero_guard[of "swipeDist s" "roundDouble s" "mathHypot s"] by blast
qed

lemma sampleGame_arith:
  "applyRounding (roundDouble sampleGame) = (\<lambda>x. x)" "mathHypot sampleGame = hypot"
  "exactArithmetic sampleGame"
  by (simp_all add: sampleGame_def mountedGame_def applyRounding_exact exactArithmetic_def)

lemma swipeScene_arith:
  "applyRounding (roundDouble (swipeScene es)) = (\<lambda>x. x)" "mathHypot (swipeScene es) = hypot"
  "exactArithmetic (swipeScene es)"
  using sampleGame_arith by (simp_all add: swipeScene_def exactArithmetic_def)

lemma swipeScene_segment:
  "length (trailRef (swipeScene es)) = 2" "swipeP1 (swipeScene es) = trailPoint 0 0 999990"
  "swipeP2 (swipeScene es) = trailPoint 100 0 999995"
  "swipeDx (swipeScene es) = 100" "swipeDy (swipeScene es) = 0" "swipeDist (swipeScene es) = 100"
  "swipeL2 (swipeScene es) = 10000"
  by (simp_all add: swipeP1_def swipeP2_def swipeDx_def swipeDy_def swipeDist_def swipeL2_def
      swipeScene_arith)
     (simp_all add: swipeScene_def trailPoint_def hypot_zero_right)

text \<open>
  The guards at work: before any pointer sample the detector leaves a scene with a
  fruit under the future swipe untouched; on the 100-pixel swipe it scans.
\<close>

theorem checkCollisions_guards_witness:
  "length (trailRef ((swipeScene [entityAt ''f'' APPLE 50 0])\<lparr>trailRef := []\<rparr>)) < 2
   \<and> checkCollisions 800 600 (1 / 60) ((swipeScene [entityAt ''f'' APPLE 50 0])\<lparr>trailRef := []\<rparr>)
       = (swipeScene [entityAt ''f'' APPLE 50 0])\<lparr>trailRef := []\<rparr>
   \<and> 2 \<le> length (trailRef (swipeScene [entityAt ''f'' APPLE 50 0]))
   \<and> \<not> swipeDist (swipeScene [entityAt ''f'' APPLE 50 0]) < 5
   \<and> swipeDist (swipeScene [entityAt ''f'' APPLE 50 0])
        * swipeDist (swipeScene [entityAt ''f'' APPLE 50 0]) \<noteq> 0
   \<and> swipeL2 (swipeScene [entityAt ''f'' APPLE 50 0]) \<noteq> 0"
  using checkCollisions_guards[of "(swipeScene [entityAt ''f'' APPLE 50 0])\<lparr>trailRef := []\<rparr>"
          800 600 "1 / 60"]
        checkCollisions_guards[of "swipeScene [entityAt ''f'' APPLE 50 0]" 800 600 "1 / 60"]
  by (simp add: swipeScene_segment)

subsection \<open>The hit test\<close>

text \<open>In exact arithmetic the computed distance is the distance of the specification.\<close>

lemma distToSegment_spec:
  "distToSegment (\<lambda>x. x) hypot p1 (pt_x p2 - pt_x p1) (pt_y p2 - pt_y p1)
      (hypot (pt_x p2 - pt_x p1) (pt_y p2 - pt_y p1) * hypot (pt_x p2 - pt_x p1) (pt_y p2 - pt_y p1)) e
   = segmentDistance (e_x e) (e_y e) (pt_x p1) (pt_y p1) (pt_x p2) (pt_y p2)"
  by (simp add: distToSegment_def segmentDistance_def hypot_square Let_def)
     (simp add: hypot_def power2_eq_square)

lemma bombLogic_changes: "\<not> e_isSliced e \<Longrightarrow> bombLogic e a \<noteq> (e, a)"
proof
  assume ns: "\<not> e_isSliced e" and eq: "bombLogic e a = (e, a)"
  from eq have "e_isSliced (fst (bombLogic e a)) = e_isSliced e" by simp
  with ns show False by (simp add: bombLogic_def Let_def)
qed

lemma fruitLogic_changes: "fruitLogic p1 dx dy d e a \<noteq> a"
proof
  assume eq: "fruitLogic p1 dx dy d e a = a"
  then have "length (entitiesToRemove (fruitLogic p1 dx dy d e a)) = length (entitiesToRemove a)"
    by simp
  then show False by (simp add: fruitLogic_def Let_def)
qed

lemma sliceEntity_by_test:
  "sliceEntity fl hyp p1 dx dy d e a =
     (if isHit fl hyp p1 dx dy d e then
        (if e_type e = BOMB then bombLogic e a else (e, fruitLogic p1 dx dy d e a))
      else (e, a))"
  by (simp add: sliceEntity_def isHit_def Let_def BOMB_TYPE_def)

lemma sliceEntity_changes_iff:
  "sliceEntity fl hyp p1 dx dy d e a \<noteq> (e, a) \<longleftrightarrow> isHit fl hyp p1 dx dy d e"
proof (cases "isHit fl hyp p1 dx dy d e")
  case True
  then have "\<not> e_isSliced e" by (simp add: isHit_def)
  with True show ?thesis
    using bombLogic_changes[of e a] fruitLogic_changes[of p1 dx dy d e a]
    by (simp add: sliceEntity_by_test)
next
  case False
  then show ?thesis by (simp add: sliceEntity_by_test)
qed

text \<open>
  The point the clamped projection selects is the closest point of the segment: no
  point of the segment is nearer to the centre, and the distance is attained on it.
\<close>

lemma clamp_nearest:
  fixes t u :: real
  assumes "0 \<le> u" "u \<le> 1"
  shows "(max 0 (min 1 t) - t)\<^sup>2 \<le> (u - t)\<^sup>2"
proof -
  have "\<bar>max 0 (min 1 t) - t\<bar> \<le> \<bar>u - t\<bar>"
    using assms by (auto simp add: max_def min_def abs_if)
  then show ?thesis by (rule abs_le_square_iff[THEN iffD1])
qed

lemma point_on_line_distance:
  fixes cx cy x1 y1 dx dy u :: real
  assumes "dx\<^sup>2 + dy\<^sup>2 \<noteq> 0"
  shows "(cx - (x1 + u * dx))\<^sup>2 + (cy - (y1 + u * dy))\<^sup>2
         = (cx - x1)\<^sup>2 + (cy - y1)\<^sup>2
           - (dx\<^sup>2 + dy\<^sup>2) * (((cx - x1) * dx + (cy - y1) * dy) / (dx\<^sup>2 + dy\<^sup>2))\<^sup>2
           + (dx\<^sup>2 + dy\<^sup>2) * (u - ((cx - x1) * dx + (cy - y1) * dy) / (dx\<^sup>2 + dy\<^sup>2))\<^sup>2"
proof -
  define L where "L = dx\<^sup>2 + dy\<^sup>2"
  define w where "w = (cx - x1) * dx + (cy - y1) * dy"
  have L: "L \<noteq> 0" using assms by (simp add: L_def)
  have "L * (u - w / L)\<^sup>2 - L * (w / L)\<^sup>2 = L * u\<^sup>2 - 2 * u * w"
    using L by (simp add: power2_eq_square field_simps)
  moreover have "(cx - (x1 + u * dx))\<^sup>2 + (cy - (y1 + u * dy))\<^sup>2
         = (cx - x1)\<^sup>2 + (cy - y1)\<^sup>2 + (L * u\<^sup>2 - 2 * u * w)"
    by (simp add: L_def w_def power2_eq_square algebra_simps)
  ultimately show ?thesis
    unfolding L_def w_def by linarith
qed

lemma segmentDistance_least:
  assumes "x2 \<noteq> x1 \<or> y2 \<noteq> y1" and "0 \<le> u" and "u \<le> 1"
  shows "segmentDistance cx cy x1 y1 x2 y2
           \<le> sqrt ((cx - (x1 + u * (x2 - x1)))\<^sup>2 + (cy - (y1 + u * (y2 - y1)))\<^sup>2)"
proof -
  let ?dx = "x2 - x1" and ?dy = "y2 - y1"
  let ?L = "?dx\<^sup>2 + ?dy\<^sup>2"
  let ?t = "((cx - x1) * ?dx + (cy - y1) * ?dy) / ?L"
  let ?tc = "max 0 (min 1 ?t)"
  have nz: "?L \<noteq> 0"
    using assms(1) by (auto simp add: sum_power2_eq_zero_iff)
  have pos: "0 \<le> ?L" by simp
  have "?L * (?tc - ?t)\<^sup>2 \<le> ?L * (u - ?t)\<^sup>2"
    using clamp_nearest[OF assms(2,3), of ?t] pos by (rule mult_left_mono)
  then have "(cx - (x1 + ?tc * ?dx))\<^sup>2 + (cy - (y1 + ?tc * ?dy))\<^sup>2
          \<le> (cx - (x1 + u * ?dx))\<^sup>2 + (cy - (y1 + u * ?dy))\<^sup>2"
    unfolding point_on_line_distance[OF nz, of cx x1 ?tc cy y1]
      point_on_line_distance[OF nz, of cx x1 u cy y1]
    by linarith
  then show ?thesis
    unfolding segmentDistance_def Let_def by (rule real_sqrt_le_mono)
qed

lemma segmentDistance_attained:
  "\<exists>u. 0 \<le> u \<and> u \<le> 1
     \<and> segmentDistance cx cy x1 y1 x2 y2
         = sqrt ((cx - (x1 + u * (x2 - x1)))\<^sup>2 + (cy - (y1 + u * (y2 - y1)))\<^sup>2)"
  unfolding segmentDistance_def Let_def
  by (rule exI[of _ "max 0 (min 1 (((cx - x1) * (x2 - x1) + (cy - y1) * (y2 - y1))
        / ((x2 - x1)\<^sup>2 + (y2 - y1)\<^sup>2)))"]) simp

lemma sqrt_1225: "sqrt 1225 = (35::real)"
  by (rule real_sqrt_unique) simp_all

lemma sqrt_1156: "sqrt 1156 = (34::real)"
  by (rule real_sqrt_unique) simp_all

lemma entityAt_sel:
  "e_id (entityAt i ty x y) = i" "e_type (entityAt i ty x y) = ty"
  "e_x (entityAt i ty x y) = x" "e_y (entityAt i ty x y) = y"
  "e_radius (entityAt i ty x y) = 35" "e_isSliced (entityAt i ty x y) = False"
  by (simp_all add: entityAt_def)

lemma trailPoint_sel:
  "pt_x (trailPoint x y t) = x" "pt_y (trailPoint x y t) = y" "timestamp (trailPoint x y t) = t"
  by (simp_all add: trailPoint_def)

subsection \<open>What the helpers change\<close>

lemma Math_random_fst: "fst (Math_random s) = mathRandom s (randomCalls s)"
  by (simp add: Math_random_def)

lemma Math_random_snd: "snd (Math_random s) = s\<lparr>randomCalls := Suc (randomCalls s)\<rparr>"
  by (simp add: Math_random_def)

lemma Date_now_fst: "fst (Date_now s) = dateNow s (dateCalls s)"
  by (simp add: Date_now_def)

lemma Date_now_snd: "snd (Date_now s) = s\<lparr>dateCalls := Suc (dateCalls s)\<rparr>"
  by (simp add: Date_now_def)

lemma performance_now_fst: "fst (performance_now s) = performanceNow s (performanceCalls s)"
  by (simp add: performance_now_def)

lemma performance_now_snd:
  "snd (performance_now s) = s\<lparr>performanceCalls := Suc (performanceCalls s)\<rparr>"
  by (simp add: performance_now_def)

lemmas oracle_simps =
  Math_random_fst Math_random_snd Date_now_fst Date_now_snd performance_now_fst
  performance_now_snd split_def Let_def

lemma spawnFloatingText_frame:
  "spawnFloatingText x y t c s =
     s\<lparr>randomCalls := randomCalls (spawnFloatingText x y t c s),
       floatingTextsRef := floatingTextsRef (spawnFloatingText x y t c s)\<rparr>"
  by (simp add: spawnFloatingText_def oracle_simps)

lemma explosionParticle_frame:
  "explosionParticle x y c b d f s =
     s\<lparr>randomCalls := randomCalls (explosionParticle x y c b d f s),
       particlesRef := particlesRef (explosionParticle x y c b d f s)\<rparr>"
  by (simp add: explosionParticle_def oracle_simps)

lemma explosionLoop_frame:
  "explosionLoop n x y c b d f s =
     s\<lparr>randomCalls := randomCalls (explosionLoop n x y c b d f s),
       particlesRef := particlesRef (explosionLoop n x y c b d f s)\<rparr>"
proof (induction n arbitrary: s)
  case 0
  show ?case by simp
next
  case (Suc n)
  let ?s' = "explosionParticle x y c b d f s"
  have "explosionLoop n x y c b d f ?s' =
     ?s'\<lparr>randomCalls := randomCalls (explosionLoop n x y c b d f ?s'),
       particlesRef := particlesRef (explosionLoop n x y c b d f ?s')\<rparr>"
    by (rule Suc.IH)
  also have "\<dots> = s\<lparr>randomCalls := randomCalls (explosionLoop n x y c b d f ?s'),
       particlesRef := particlesRef (explosionLoop n x y c b d f ?s')\<rparr>"
    by (subst explosionParticle_frame) simp
  finally show ?case by simp
qed

lemma createExplosion_frame:
  "createExplosion x y c b d f s =
     s\<lparr>randomCalls := randomCalls (createExplosion x y c b d f s),
       particlesRef := particlesRef (createExplosion x y c b d f s)\<rparr>"
proof -
  let ?n = "if b then 50 else 25 :: nat"
  let ?s1 = "explosionLoop ?n x y c b d f s"
  have "createExplosion x y c b d f s =
          ?s1\<lparr>randomCalls := randomCalls (createExplosion x y c b d f s),
               particlesRef := particlesRef (createExplosion x y c b d f s)\<rparr>"
    by (simp add: createExplosion_def oracle_simps)
  also have "\<dots> = s\<lparr>randomCalls := randomCalls (createExplosion x y c b d f s),
               particlesRef := particlesRef (createExplosion x y c b d f s)\<rparr>"
    by (subst explosionLoop_frame) simp
  finally show ?thesis .
qed

lemma createExplosion_keeps:
  "scoreRef (createExplosion x y c b d f s) = scoreRef s"
  "livesRef (createExplosion x y c b d f s) = livesRef s"
  "statsRef (createExplosion x y c b d f s) = statsRef s"
  "currentCombo (createExplosion x y c b d f s) = currentCombo s"
  "comboTimerRef (createExplosion x y c b d f s) = comboTimerRef s"
  "shakeIntensityRef (createExplosion x y c b d f s) = shakeIntensityRef s"
  "dateNow (createExplosion x y c b d f s) = dateNow s"
  "dateCalls (createExplosion x y c b d f s) = dateCalls s"
  "mathRandom (createExplosion x y c b d f s) = mathRandom s"
  "floatingTextsRef (createExplosion x y c b d f s) = floatingTextsRef s"
  "gameState (createExplosion x y c b d f s) = gameState s"
  "audio (createExplosion x y c b d f s) = audio s"
  "comboQueue (createExplosion x y c b d f s) = comboQueue s"
  "reactEager (createExplosion x y c b d f s) = reactEager s"
  "dispatchCalls (createExplosion x y c b d f s) = dispatchCalls s"
  "roundDouble (createExplosion x y c b d f s) = roundDouble s"
  "mathHypot (createExplosion x y c b d f s) = mathHypot s"
  "entitiesRef (createExplosion x y c b d f s) = entitiesRef s"
  by (subst createExplosion_frame, simp)+

lemma spawnFloatingText_keeps:
  "scoreRef (spawnFloatingText x y t c s) = scoreRef s"
  "livesRef (spawnFloatingText x y t c s) = livesRef s"
  "statsRef (spawnFloatingText x y t c s) = statsRef s"
  "currentCombo (spawnFloatingText x y t c s) = currentCombo s"
  "comboTimerRef (spawnFloatingText x y t c s) = comboTimerRef s"
  "shakeIntensityRef (spawnFloatingText x y t c s) = shakeIntensityRef s"
  "dateNow (spawnFloatingText x y t c s) = dateNow s"
  "dateCalls (spawnFloatingText x y t c s) = dateCalls s"
  "mathRandom (spawnFloatingText x y t c s) = mathRandom s"
  "particlesRef (spawnFloatingText x y t c s) = particlesRef s"
  "gameState (spawnFloatingText x y t c s) = gameState s"
  "audio (spawnFloatingText x y t c s) = audio s"
  "comboQueue (spawnFloatingText x y t c s) = comboQueue s"
  "reactEager (spawnFloatingText x y t c s) = reactEager s"
  "dispatchCalls (spawnFloatingText x y t c s) = dispatchCalls s"
  "roundDouble (spawnFloatingText x y t c s) = roundDouble s"
  "mathHypot (spawnFloatingText x y t c s) = mathHypot s"
  "entitiesRef (spawnFloatingText x y t c s) = entitiesRef s"
  by (subst spawnFloatingText_frame, simp)+

lemma playAudio_keeps:
  "scoreRef (playAudio ev s) = scoreRef s"
  "livesRef (playAudio ev s) = livesRef s"
  "statsRef (playAudio ev s) = statsRef s"
  "currentCombo (playAudio ev s) = currentCombo s"
  "comboTimerRef (playAudio ev s) = comboTimerRef s"
  "shakeIntensityRef (playAudio ev s) = shakeIntensityRef s"
  "dateNow (playAudio ev s) = dateNow s"
  "dateCalls (playAudio ev s) = dateCalls s"
  "mathRandom (playAudio ev s) = mathRandom s"
  "randomCalls (playAudio ev s) = randomCalls s"
  "particlesRef (playAudio ev s) = particlesRef s"
  "floatingTextsRef (playAudio ev s) = floatingTextsRef s"
  "gameState (playAudio ev s) = gameState s"
  "comboQueue (playAudio ev s) = comboQueue s"
  "reactEager (playAudio ev s) = reactEager s"
  "dispatchCalls (playAudio ev s) = dispatchCalls s"
  "roundDouble (playAudio ev s) = roundDouble s"
  "mathHypot (playAudio ev s) = mathHypot s"
  "entitiesRef (playAudio ev s) = entitiesRef s"
  by (simp_all add: playAudio_def)

subsection \<open>The queue of combo actions\<close>

lemma queueCombo_append: "queueCombo (q @ r) v = queueCombo r (queueCombo q v)"
  by (induction q v rule: queueCombo.induct) simp_all

lemma queueBonus_append:
  "queueBonus (q @ r) v = queueBonus q v + queueBonus r (queueCombo q v)"
  by (induction q v rule: queueBonus.induct) simp_all

lemma queueMaxCombo_append:
  "queueMaxCombo (q @ r) v m = queueMaxCombo r (queueCombo q v) (queueMaxCombo q v m)"
  by (induction q v m rule: queueMaxCombo.induct) simp_all

lemma queueBonus_nonneg: "0 \<le> queueBonus q v"
  by (induction q v rule: queueBonus.induct) simp_all

lemma comboUpdater_fields:
  "fst (comboUpdater e prev s) = prev + 1"
  "scoreRef (snd (comboUpdater e prev s))
     = scoreRef s + (if prev + 1 > 1 then (prev + 1) * 5 else 0)"
  "score (statsRef (snd (comboUpdater e prev s)))
     = score (statsRef s) + (if prev + 1 > 1 then (prev + 1) * 5 else 0)"
  "maxCombo (statsRef (snd (comboUpdater e prev s))) = max (maxCombo (statsRef s)) (prev + 1)"
  "fruitsSliced (statsRef (snd (comboUpdater e prev s))) = fruitsSliced (statsRef s)"
  "bombsHit (statsRef (snd (comboUpdater e prev s))) = bombsHit (statsRef s)"
  "currentCombo (snd (comboUpdater e prev s)) = currentCombo s"
  "comboQueue (snd (comboUpdater e prev s)) = comboQueue s"
  "comboTimerRef (snd (comboUpdater e prev s)) = comboTimerRef s"
  "dateNow (snd (comboUpdater e prev s)) = dateNow s"
  "dateCalls (snd (comboUpdater e prev s)) = dateCalls s"
  "livesRef (snd (comboUpdater e prev s)) = livesRef s"
  "particlesRef (snd (comboUpdater e prev s)) = particlesRef s"
  "entitiesRef (snd (comboUpdater e prev s)) = entitiesRef s"
  "reactEager (snd (comboUpdater e prev s)) = reactEager s"
  "dispatchCalls (snd (comboUpdater e prev s)) = dispatchCalls s"
  by (simp_all add: comboUpdater_def Let_def spawnFloatingText_keeps playAudio_keeps)

lemma basicStateReducer_fields:
  "fst (basicStateReducer act prev s) = queueCombo [act] prev"
  "scoreRef (snd (basicStateReducer act prev s)) = scoreRef s + queueBonus [act] prev"
  "score (statsRef (snd (basicStateReducer act prev s)))
     = score (statsRef s) + queueBonus [act] prev"
  "maxCombo (statsRef (snd (basicStateReducer act prev s)))
     = queueMaxCombo [act] prev (maxCombo (statsRef s))"
  "fruitsSliced (statsRef (snd (basicStateReducer act prev s))) = fruitsSliced (statsRef s)"
  "bombsHit (statsRef (snd (basicStateReducer act prev s))) = bombsHit (statsRef s)"
  "currentCombo (snd (basicStateReducer act prev s)) = currentCombo s"
  "comboQueue (snd (basicStateReducer act prev s)) = comboQueue s"
  "comboTimerRef (snd (basicStateReducer act prev s)) = comboTimerRef s"
  "dateNow (snd (basicStateReducer act prev s)) = dateNow s"
  "dateCalls (snd (basicStateReducer act prev s)) = dateCalls s"
  "livesRef (snd (basicStateReducer act prev s)) = livesRef s"
  "particlesRef (snd (basicStateReducer act prev s)) = particlesRef s"
  "entitiesRef (snd (basicStateReducer act prev s)) = entitiesRef s"
  "reactEager (snd (basicStateReducer act prev s)) = reactEager s"
  "dispatchCalls (snd (basicStateReducer act prev s)) = dispatchCalls s"
  by (cases act; simp add: comboUpdater_fields)+

lemma queue_cons:
  "queueCombo (act # rest) v = queueCombo rest (queueCombo [act] v)"
  "queueBonus (act # rest) v = queueBonus [act] v + queueBonus rest (queueCombo [act] v)"
  "queueMaxCombo (act # rest) v m = queueMaxCombo rest (queueCombo [act] v) (queueMaxCombo [act] v m)"
  by (cases act; simp)+

lemma runComboQueue_fst: "fst (runComboQueue q prev s) = queueCombo q prev"
proof (induction q arbitrary: prev s)
  case Nil
  show ?case by simp
next
  case (Cons act rest)
  show ?case
    by (simp add: split_def Let_def Cons.IH basicStateReducer_fields queue_cons(1)[of act rest])
qed

lemma runComboQueue_scoreRef:
  "scoreRef (snd (runComboQueue q prev s)) = scoreRef s + queueBonus q prev"
proof (induction q arbitrary: prev s)
  case Nil
  show ?case by simp
next
  case (Cons act rest)
  show ?case
    by (simp add: split_def Let_def Cons.IH basicStateReducer_fields queue_cons(2)[of act rest])
qed

lemma runComboQueue_score:
  "score (statsRef (snd (runComboQueue q prev s))) = score (statsRef s) + queueBonus q prev"
proof (induction q arbitrary: prev s)
  case Nil
  show ?case by simp
next
  case (Cons act rest)
  show ?case
    by (simp add: split_def Let_def Cons.IH basicStateReducer_fields queue_cons(2)[of act rest])
qed

lemma runComboQueue_maxCombo:
  "maxCombo (statsRef (snd (runComboQueue q prev s)))
     = queueMaxCombo q prev (maxCombo (statsRef s))"
proof (induction q arbitrary: prev s)
  case Nil
  show ?case by simp
next
  case (Cons act rest)
  show ?case
    by (simp add: split_def Let_def Cons.IH basicStateReducer_fields queue_cons(3)[of act rest])
qed

lemma runComboQueue_keeps:
  "comboTimerRef (snd (runComboQueue q prev s)) = comboTimerRef s"
  "livesRef (snd (runComboQueue q prev s)) = livesRef s"
  "fruitsSliced (statsRef (snd (runComboQueue q prev s))) = fruitsSliced (statsRef s)"
  "bombsHit (statsRef (snd (runComboQueue q prev s))) = bombsHit (statsRef s)"
  "entitiesRef (snd (runComboQueue q prev s)) = entitiesRef s"
  "particlesRef (snd (runComboQueue q prev s)) = particlesRef s"
  by (induction q arbitrary: prev s; simp add: split_def Let_def basicStateReducer_fields)+

text \<open>Once React has processed the queue, the state holds the settled values.\<close>

lemma processComboQueue_fields:
  "currentCombo (processComboQueue s) = pendingCombo s"
  "scoreRef (processComboQueue s) = settledScore s"
  "score (statsRef (processComboQueue s)) = settledStatsScore s"
  "maxCombo (statsRef (processComboQueue s)) = settledMaxCombo s"
  "comboQueue (processComboQueue s) = []"
  "comboTimerRef (processComboQueue s) = comboTimerRef s"
  "livesRef (processComboQueue s) = livesRef s"
  "fruitsSliced (statsRef (processComboQueue s)) = fruitsSliced (statsRef s)"
  "bombsHit (statsRef (processComboQueue s)) = bombsHit (statsRef s)"
  "entitiesRef (processComboQueue s) = entitiesRef s"
  "particlesRef (processComboQueue s) = particlesRef s"
  by (simp_all add: processComboQueue_def split_def Let_def pendingCombo_def settledScore_def
      settledStatsScore_def settledMaxCombo_def runComboQueue_fst runComboQueue_scoreRef
      runComboQueue_score runComboQueue_maxCombo runComboQueue_keeps)

lemma settled_empty_queue:
  "comboQueue s = [] \<Longrightarrow> pendingCombo s = currentCombo s"
  "comboQueue s = [] \<Longrightarrow> settledScore s = scoreRef s"
  "comboQueue s = [] \<Longrightarrow> settledStatsScore s = score (statsRef s)"
  "comboQueue s = [] \<Longrightarrow> settledMaxCombo s = maxCombo (statsRef s)"
  by (simp_all add: pendingCombo_def settledScore_def settledStatsScore_def settledMaxCombo_def)

text \<open>
  A call of \<open>setCurrentCombo\<close>: what it writes at the call, and what the state settles
  to, whether React runs the action at the call or later.
\<close>

lemma setCurrentCombo_deferred:
  "\<not> reactEager s (dispatchCalls s) \<Longrightarrow>
   setCurrentCombo act s
     = s\<lparr>dispatchCalls := Suc (dispatchCalls s), comboQueue := comboQueue s @ [act]\<rparr>"
  by (simp add: setCurrentCombo_def Let_def)

lemma setCurrentCombo_keeps:
  "currentCombo (setCurrentCombo act s) = currentCombo s"
  "comboTimerRef (setCurrentCombo act s) = comboTimerRef s"
  "dateNow (setCurrentCombo act s) = dateNow s"
  "dateCalls (setCurrentCombo act s) = dateCalls s"
  "livesRef (setCurrentCombo act s) = livesRef s"
  "particlesRef (setCurrentCombo act s) = particlesRef s"
  "entitiesRef (setCurrentCombo act s) = entitiesRef s"
  "fruitsSliced (statsRef (setCurrentCombo act s)) = fruitsSliced (statsRef s)"
  "bombsHit (statsRef (setCurrentCombo act s)) = bombsHit (statsRef s)"
  "reactEager (setCurrentCombo act s) = reactEager s"
  "dispatchCalls (setCurrentCombo act s) = Suc (dispatchCalls s)"
  by (simp_all add: setCurrentCombo_def Let_def split_def basicStateReducer_fields)

lemma setCurrentCombo_settled:
  "pendingCombo (setCurrentCombo act s) = queueCombo [act] (pendingCombo s)"
  "settledScore (setCurrentCombo act s) = settledScore s + queueBonus [act] (pendingCombo s)"
  "settledStatsScore (setCurrentCombo act s)
     = settledStatsScore s + queueBonus [act] (pendingCombo s)"
  "settledMaxCombo (setCurrentCombo act s)
     = queueMaxCombo [act] (pendingCombo s) (settledMaxCombo s)"
  by (simp_all add: setCurrentCombo_def Let_def split_def basicStateReducer_fields
      pendingCombo_def settledScore_def settledStatsScore_def settledMaxCombo_def
      queueCombo_append queueBonus_append queueMaxCombo_append)

lemma setCurrentCombo_score_grows:
  "scoreRef s \<le> scoreRef (setCurrentCombo act s)"
  "score (statsRef s) \<le> score (statsRef (setCurrentCombo act s))"
  by (simp_all add: setCurrentCombo_def Let_def split_def basicStateReducer_fields
      queueBonus_nonneg)

subsection \<open>The combo system and the fruit logic, field by field\<close>

lemma queue_single_action:
  "queueCombo [comboAction now t e] v = comboAfter now t v"
  "queueBonus [comboAction now t e] v = comboBonus now t v"
  "queueMaxCombo [comboAction now t e] v m = (if now - t < 400 then max m (v + 1) else m)"
  by (simp_all add: comboAction_def comboAfter_def comboBonus_def)

lemma comboSystem_action:
  "comboSystem e s =
     (setCurrentCombo (comboAction (dateNow s (dateCalls s)) (comboTimerRef s) e)
        (s\<lparr>dateCalls := Suc (dateCalls s)\<rparr>))\<lparr>comboTimerRef := dateNow s (dateCalls s)\<rparr>"
  by (simp add: comboSystem_def comboAction_def oracle_simps)

lemma settled_update_irrelevant:
  "pendingCombo (s\<lparr>comboTimerRef := t\<rparr>) = pendingCombo s"
  "settledScore (s\<lparr>comboTimerRef := t\<rparr>) = settledScore s"
  "settledStatsScore (s\<lparr>comboTimerRef := t\<rparr>) = settledStatsScore s"
  "settledMaxCombo (s\<lparr>comboTimerRef := t\<rparr>) = settledMaxCombo s"
  "pendingCombo (s\<lparr>dateCalls := c\<rparr>) = pendingCombo s"
  "settledScore (s\<lparr>dateCalls := c\<rparr>) = settledScore s"
  "settledStatsScore (s\<lparr>dateCalls := c\<rparr>) = settledStatsScore s"
  "settledMaxCombo (s\<lparr>dateCalls := c\<rparr>) = settledMaxCombo s"
  by (simp_all add: pendingCombo_def settledScore_def settledStatsScore_def settledMaxCombo_def)

lemma comboSystem_fields:
  "comboTimerRef (comboSystem e s) = dateNow s (dateCalls s)"
  "currentCombo (comboSystem e s) = currentCombo s"
  "pendingCombo (comboSystem e s)
     = comboAfter (dateNow s (dateCalls s)) (comboTimerRef s) (pendingCombo s)"
  "settledScore (comboSystem e s)
     = settledScore s + comboBonus (dateNow s (dateCalls s)) (comboTimerRef s) (pendingCombo s)"
  "settledStatsScore (comboSystem e s)
     = settledStatsScore s
       + comboBonus (dateNow s (dateCalls s)) (comboTimerRef s) (pendingCombo s)"
  "settledMaxCombo (comboSystem e s)
     = (if dateNow s (dateCalls s) - comboTimerRef s < 400
        then max (settledMaxCombo s) (pendingCombo s + 1) else settledMaxCombo s)"
  "fruitsSliced (statsRef (comboSystem e s)) = fruitsSliced (statsRef s)"
  "bombsHit (statsRef (comboSystem e s)) = bombsHit (statsRef s)"
  "dateCalls (comboSystem e s) = Suc (dateCalls s)"
  "dateNow (comboSystem e s) = dateNow s"
  "livesRef (comboSystem e s) = livesRef s"
  "particlesRef (comboSystem e s) = particlesRef s"
  "reactEager (comboSystem e s) = reactEager s"
  "dispatchCalls (comboSystem e s) = Suc (dispatchCalls s)"
  by (simp_all add: comboSystem_action settled_update_irrelevant setCurrentCombo_settled
      setCurrentCombo_keeps queue_single_action)

lemma comboSystem_score_grows:
  "scoreRef s \<le> scoreRef (comboSystem e s)"
  "score (statsRef s) \<le> score (statsRef (comboSystem e s))"
  using setCurrentCombo_score_grows[of "s\<lparr>dateCalls := Suc (dateCalls s)\<rparr>"
          "comboAction (dateNow s (dateCalls s)) (comboTimerRef s) e"]
  by (simp_all add: comboSystem_action)

lemma comboSystem_deferred:
  assumes "\<not> reactEager s (dispatchCalls s)"
  shows "comboQueue (comboSystem e s)
           = comboQueue s @ [comboAction (dateNow s (dateCalls s)) (comboTimerRef s) e]"
    and "scoreRef (comboSystem e s) = scoreRef s"
    and "statsRef (comboSystem e s) = statsRef s"
    and "shakeIntensityRef (comboSystem e s) = shakeIntensityRef s"
    and "floatingTextsRef (comboSystem e s) = floatingTextsRef s"
    and "audio (comboSystem e s) = audio s"
  using assms by (simp_all add: comboSystem_action setCurrentCombo_deferred)

lemma settled_fruit_stage:
  fixes s :: Game
  defines "g \<equiv> \<lambda>x y c d f x' y' t c'.
     spawnFloatingText x' y' t c'
       ((createExplosion x y c False d f (playAudio PlaySplat s))
          \<lparr>scoreRef := scoreRef s + 10,
           statsRef := (statsRef s)\<lparr>score := score (statsRef s) + 10,
                                    fruitsSliced := fruitsSliced (statsRef s) + 1\<rparr>\<rparr>)"
  shows "pendingCombo (g x y c d f x' y' t c') = pendingCombo s"
    and "settledScore (g x y c d f x' y' t c') = settledScore s + 10"
    and "settledStatsScore (g x y c d f x' y' t c') = settledStatsScore s + 10"
    and "settledMaxCombo (g x y c d f x' y' t c') = settledMaxCombo s"
  by (simp_all add: g_def pendingCombo_def settledScore_def settledStatsScore_def
      settledMaxCombo_def spawnFloatingText_keeps createExplosion_keeps playAudio_keeps)

lemma fruitLogic_game:
  "game (fruitLogic p1 dx dy d e a) =
     comboSystem e
       (spawnFloatingText (e_x e) (e_y e - 50) ''+10'' ''#fff''
          ((createExplosion (e_x e) (e_y e) (FRUIT_COLORS (e_type e)) False (Some (atan2 dy dx))
              (Some d) (playAudio PlaySplat (game a)))
             \<lparr>scoreRef := scoreRef (game a) + 10,
              statsRef := (statsRef (game a))\<lparr>score := score (statsRef (game a)) + 10,
                            fruitsSliced := fruitsSliced (statsRef (game a)) + 1\<rparr>\<rparr>))"
  by (simp add: fruitLogic_def Let_def createExplosion_keeps playAudio_keeps)

lemma fruitLogic_fields:
  "comboTimerRef (game (fruitLogic p1 dx dy d e a)) = dateNow (game a) (dateCalls (game a))"
  "currentCombo (game (fruitLogic p1 dx dy d e a)) = currentCombo (game a)"
  "pendingCombo (game (fruitLogic p1 dx dy d e a))
     = comboAfter (dateNow (game a) (dateCalls (game a))) (comboTimerRef (game a))
         (pendingCombo (game a))"
  "settledScore (game (fruitLogic p1 dx dy d e a))
     = settledScore (game a) + 10
       + comboBonus (dateNow (game a) (dateCalls (game a))) (comboTimerRef (game a))
           (pendingCombo (game a))"
  "settledStatsScore (game (fruitLogic p1 dx dy d e a))
     = settledStatsScore (game a) + 10
       + comboBonus (dateNow (game a) (dateCalls (game a))) (comboTimerRef (game a))
           (pendingCombo (game a))"
  "settledMaxCombo (game (fruitLogic p1 dx dy d e a))
     = (if dateNow (game a) (dateCalls (game a)) - comboTimerRef (game a) < 400
        then max (settledMaxCombo (game a)) (pendingCombo (game a) + 1)
        else settledMaxCombo (game a))"
  "fruitsSliced (statsRef (game (fruitLogic p1 dx dy d e a)))
     = fruitsSliced (statsRef (game a)) + 1"
  "bombsHit (statsRef (game (fruitLogic p1 dx dy d e a))) = bombsHit (statsRef (game a))"
  "dateCalls (game (fruitLogic p1 dx dy d e a)) = Suc (dateCalls (game a))"
  "dateNow (game (fruitLogic p1 dx dy d e a)) = dateNow (game a)"
  "livesRef (game (fruitLogic p1 dx dy d e a)) = livesRef (game a)"
  "reactEager (game (fruitLogic p1 dx dy d e a)) = reactEager (game a)"
  "dispatchCalls (game (fruitLogic p1 dx dy d e a)) = Suc (dispatchCalls (game a))"
  by (simp_all add: fruitLogic_game comboSystem_fields settled_fruit_stage
      spawnFloatingText_keeps createExplosion_keeps playAudio_keeps)

lemma fruitLogic_score_grows:
  "scoreRef (game a) + 10 \<le> scoreRef (game (fruitLogic p1 dx dy d e a))"
  "score (statsRef (game a)) + 10 \<le> score (statsRef (game (fruitLogic p1 dx dy d e a)))"
  unfolding fruitLogic_game
  by (rule order_trans[OF _ comboSystem_score_grows(1)],
      simp add: spawnFloatingText_keeps createExplosion_keeps playAudio_keeps,
      rule order_trans[OF _ comboSystem_score_grows(2)],
      simp add: spawnFloatingText_keeps createExplosion_keeps playAudio_keeps)

lemma fruitLogic_deferred:
  assumes "\<not> reactEager (game a) (dispatchCalls (game a))"
  shows "comboQueue (game (fruitLogic p1 dx dy d e a))
           = comboQueue (game a)
             @ [comboAction (dateNow (game a) (dateCalls (game a))) (comboTimerRef (game a)) e]"
    and "scoreRef (game (fruitLogic p1 dx dy d e a)) = scoreRef (game a) + 10"
    and "score (statsRef (game (fruitLogic p1 dx dy d e a))) = score (statsRef (game a)) + 10"
    and "maxCombo (statsRef (game (fruitLogic p1 dx dy d e a))) = maxCombo (statsRef (game a))"
    and "shakeIntensityRef (game (fruitLogic p1 dx dy d e a)) = shakeIntensityRef (game a)"
  using assms unfolding fruitLogic_game
  by (simp_all add: comboSystem_deferred spawnFloatingText_keeps createExplosion_keeps
      playAudio_keeps)

lemma fruitLogic_buffers:
  "entitiesToRemove (fruitLogic p1 dx dy d e a) = entitiesToRemove a @ [e_id e]"
  "entitiesToAdd (fruitLogic p1 dx dy d e a)
     = entitiesToAdd a @ [fragmentOf p1 dx dy d e 1, fragmentOf p1 dx dy d e (- 1)]"
  "scoreChanged (fruitLogic p1 dx dy d e a) = True"
  by (simp_all add: fruitLogic_def fragmentOf_def Let_def)

lemma bombLogic_fields:
  "fst (bombLogic e a) = e\<lparr>e_isSliced := True, e_flash := 1\<rparr>"
  "livesRef (game (snd (bombLogic e a))) = 0"
  "shakeIntensityRef (game (snd (bombLogic e a))) = 45"
  "bombsHit (statsRef (game (snd (bombLogic e a)))) = bombsHit (statsRef (game a)) + 1"
  "score (statsRef (game (snd (bombLogic e a)))) = score (statsRef (game a))"
  "fruitsSliced (statsRef (game (snd (bombLogic e a)))) = fruitsSliced (statsRef (game a))"
  "maxCombo (statsRef (game (snd (bombLogic e a)))) = maxCombo (statsRef (game a))"
  "scoreRef (game (snd (bombLogic e a))) = scoreRef (game a)"
  "currentCombo (game (snd (bombLogic e a))) = currentCombo (game a)"
  "comboTimerRef (game (snd (bombLogic e a))) = comboTimerRef (game a)"
  "dateCalls (game (snd (bombLogic e a))) = dateCalls (game a)"
  "dateNow (game (snd (bombLogic e a))) = dateNow (game a)"
  "entitiesToRemove (snd (bombLogic e a)) = entitiesToRemove a"
  "entitiesToAdd (snd (bombLogic e a)) = entitiesToAdd a"
  "scoreChanged (snd (bombLogic e a)) = scoreChanged a"
  "particlesRef (game (snd (bombLogic e a)))
     = particlesRef (createExplosion (e_x e) (e_y e) ''#fff'' True None None
         (playAudio PlayBomb (game a)))"
  "comboQueue (game (snd (bombLogic e a))) = comboQueue (game a)"
  "reactEager (game (snd (bombLogic e a))) = reactEager (game a)"
  "dispatchCalls (game (snd (bombLogic e a))) = dispatchCalls (game a)"
  by (simp_all add: bombLogic_def Let_def createExplosion_keeps playAudio_keeps)

lemma bombLogic_settled:
  "pendingCombo (game (snd (bombLogic e a))) = pendingCombo (game a)"
  "settledScore (game (snd (bombLogic e a))) = settledScore (game a)"
  "settledStatsScore (game (snd (bombLogic e a))) = settledStatsScore (game a)"
  "settledMaxCombo (game (snd (bombLogic e a))) = settledMaxCombo (game a)"
  by (simp_all add: pendingCombo_def settledScore_def settledStatsScore_def
      settledMaxCombo_def bombLogic_fields)

subsection \<open>The bomb burst\<close>

lemma explosionParticle_bomb:
  "\<exists>p. particlesRef (explosionParticle x y c True d None s) = particlesRef s @ [p]
       \<and> bombSpark (mathRandom s) x y p"
proof -
  let ?i = "randomCalls s"
  let ?p = "last (particlesRef (explosionParticle x y c True d None s))"
  have 1: "particlesRef (explosionParticle x y c True d None s) = particlesRef s @ [?p]"
    by (simp add: explosionParticle_def oracle_simps)
  have 2: "p_vx ?p = cos (mathRandom s ?i * pi * 2) * (mathRandom s (Suc ?i) * 30)
         \<and> p_vy ?p = sin (mathRandom s ?i * pi * 2) * (mathRandom s (Suc ?i) * 30)
         \<and> p_decay ?p = 2 / 100 + mathRandom s (?i + 3) * (3 / 100)"
    by (cases d) (simp_all add: explosionParticle_def oracle_simps eval_nat_numeral)
  have 3: "p_type ?p = SPARK \<and> p_x ?p = x \<and> p_y ?p = y \<and> \<not> p_stuck ?p \<and> p_life ?p = 1
      \<and> p_color ?p = ''#ffaa00'' \<and> p_gravity ?p = 2 / 10"
    by (simp add: explosionParticle_def oracle_simps)
  from 2 3 have "bombSpark (mathRandom s) x y ?p"
    unfolding bombSpark_def by blast
  with 1 show ?thesis by blast
qed

lemma explosionParticle_mathRandom:
  "mathRandom (explosionParticle x y c b d f s) = mathRandom s"
  by (subst explosionParticle_frame) simp

lemma explosionLoop_bomb:
  "\<exists>ps. particlesRef (explosionLoop n x y c True d None s) = particlesRef s @ ps
        \<and> length ps = n \<and> (\<forall>p\<in>set ps. bombSpark (mathRandom s) x y p)"
proof (induction n arbitrary: s)
  case 0
  show ?case by simp
next
  case (Suc n)
  let ?s' = "explosionParticle x y c True d None s"
  obtain p where p: "particlesRef ?s' = particlesRef s @ [p]" "bombSpark (mathRandom s) x y p"
    using explosionParticle_bomb[of x y c d s] by blast
  obtain ps where ps: "particlesRef (explosionLoop n x y c True d None ?s') = particlesRef ?s' @ ps"
      "length ps = n" "\<forall>q\<in>set ps. bombSpark (mathRandom ?s') x y q"
    using Suc.IH[of ?s'] by blast
  have "particlesRef (explosionLoop (Suc n) x y c True d None s) = particlesRef s @ (p # ps)"
    using p(1) ps(1) by simp
  moreover have "length (p # ps) = Suc n"
    using ps(2) by simp
  moreover have "\<forall>q\<in>set (p # ps). bombSpark (mathRandom s) x y q"
    using p(2) ps(3) by (simp add: explosionParticle_mathRandom)
  ultimately show ?case by blast
qed

lemma createExplosion_bomb:
  "\<exists>sparks core.
      particlesRef (createExplosion x y c True d None s) = particlesRef s @ sparks @ [core]
      \<and> length sparks = 50 \<and> (\<forall>p\<in>set sparks. bombSpark (mathRandom s) x y p)
      \<and> coreFlash x y core"
proof -
  obtain ps where ps: "particlesRef (explosionLoop 50 x y c True d None s) = particlesRef s @ ps"
      "length ps = 50" "\<forall>q\<in>set ps. bombSpark (mathRandom s) x y q"
    using explosionLoop_bomb[of 50 x y c d s] by blast
  let ?core = "last (particlesRef (createExplosion x y c True d None s))"
  have "particlesRef (createExplosion x y c True d None s) = particlesRef s @ ps @ [?core]"
    using ps(1) by (simp add: createExplosion_def oracle_simps)
  moreover have "coreFlash x y ?core"
    by (simp add: createExplosion_def oracle_simps coreFlash_def)
  ultimately show ?thesis using ps(2,3) by blast
qed

text \<open>
  The hit test in exact arithmetic, for a segment between two distinct points: the
  test passes exactly when the entity is not yet sliced and the distance of the
  specification is less than its radius.
\<close>

lemma isHit_exact:
  assumes "pt_x p2 \<noteq> pt_x p1 \<or> pt_y p2 \<noteq> pt_y p1"
  shows "isHit (\<lambda>x. x) hypot p1 (pt_x p2 - pt_x p1) (pt_y p2 - pt_y p1)
            (hypot (pt_x p2 - pt_x p1) (pt_y p2 - pt_y p1)) e
         \<longleftrightarrow> \<not> e_isSliced e
             \<and> segmentDistance (e_x e) (e_y e) (pt_x p1) (pt_y p1) (pt_x p2) (pt_y p2)
                 < e_radius e"
proof -
  have "hypot (pt_x p2 - pt_x p1) (pt_y p2 - pt_y p1) \<noteq> 0"
    using assms by (auto simp add: hypot_eq_0_iff)
  then show ?thesis
    using distToSegment_spec[of p1 p2 e] by (simp add: isHit_def)
qed

text \<open>
  C7. When the scan's callback meets a not-yet-sliced bomb that its hit test finds
  closer to the swipe segment than its radius: lives become 0, \<open>bombsHit\<close> grows by
  one, the entity it leaves in the collection is the bomb marked sliced with flash 1,
  the particle collection grows by 50 \<open>SPARK\<close> particles at the bomb's centre, each
  flying in a direction drawn over the full turn (so independent of the swipe), and
  one \<open>CORE\<close> flash, the screen shake is 45, and the combo timer, the combo counter,
  the queue of combo actions and the score are what they were; the bomb is neither
  fragmented nor queued for removal.
\<close>

theorem bomb_hit_effects:
  assumes "isHit fl hyp p1 dx dy d entity" and "e_type entity = BOMB"
  shows "fst (sliceEntity fl hyp p1 dx dy d entity a) = entity\<lparr>e_isSliced := True, e_flash := 1\<rparr>
    \<and> (\<exists>a'. a' = snd (sliceEntity fl hyp p1 dx dy d entity a)
          \<and> livesRef (game a') = 0
          \<and> bombsHit (statsRef (game a')) = bombsHit (statsRef (game a)) + 1
          \<and> shakeIntensityRef (game a') = 45
          \<and> comboTimerRef (game a') = comboTimerRef (game a)
          \<and> currentCombo (game a') = currentCombo (game a)
          \<and> comboQueue (game a') = comboQueue (game a)
          \<and> scoreRef (game a') = scoreRef (game a)
          \<and> score (statsRef (game a')) = score (statsRef (game a))
          \<and> entitiesToRemove a' = entitiesToRemove a
          \<and> entitiesToAdd a' = entitiesToAdd a
          \<and> (\<exists>sparks core.
                particlesRef (game a') = particlesRef (game a) @ sparks @ [core]
                \<and> length sparks = 50
                \<and> (\<forall>p\<in>set sparks. bombSpark (mathRandom (game a)) (e_x entity) (e_y entity) p)
                \<and> coreFlash (e_x entity) (e_y entity) core))"
proof -
  have run: "sliceEntity fl hyp p1 dx dy d entity a = bombLogic entity a"
    using assms by (simp add: sliceEntity_by_test)
  obtain sparks core where burst:
      "particlesRef (createExplosion (e_x entity) (e_y entity) ''#fff'' True None None
          (playAudio PlayBomb (game a)))
        = particlesRef (playAudio PlayBomb (game a)) @ sparks @ [core]"
      "length sparks = 50"
      "\<forall>p\<in>set sparks. bombSpark (mathRandom (playAudio PlayBomb (game a)))
                          (e_x entity) (e_y entity) p"
      "coreFlash (e_x entity) (e_y entity) core"
    using createExplosion_bomb[of "e_x entity" "e_y entity" "''#fff''" None
            "playAudio PlayBomb (game a)"] by blast
  have particles: "\<exists>sparks core.
        particlesRef (game (snd (bombLogic entity a))) = particlesRef (game a) @ sparks @ [core]
        \<and> length sparks = 50
        \<and> (\<forall>p\<in>set sparks. bombSpark (mathRandom (game a)) (e_x entity) (e_y entity) p)
        \<and> coreFlash (e_x entity) (e_y entity) core"
    using burst by (auto simp add: bombLogic_fields playAudio_keeps)
  show ?thesis
    unfolding run using particles by (simp add: bombLogic_fields)
qed

lemma segmentDistance_on_swipe: "segmentDistance 50 0 0 0 100 0 = 0"
  by (simp add: segmentDistance_def Let_def)

lemma isHit_on_swipe:
  "isHit (\<lambda>x. x) hypot (trailPoint 0 0 0) 100 0 (hypot 100 0) (entityAt i ty 50 0)"
  using isHit_exact[of "trailPoint 100 0 5" "trailPoint 0 0 0" "entityAt i ty 50 0"]
  by (simp add: trailPoint_sel entityAt_sel segmentDistance_on_swipe)

text \<open>
  A bomb of radius 35 centred at (50,0) under the swipe from (0,0) to (100,0), in exact
  arithmetic.
\<close>

theorem bomb_hit_effects_witness:
  "isHit (\<lambda>x. x) hypot (trailPoint 0 0 0) 100 0 (hypot 100 0) (entityAt ''b'' BOMB 50 0)
   \<and> e_type (entityAt ''b'' BOMB 50 0) = BOMB
   \<and> segmentDistance 50 0 0 0 100 0 < e_radius (entityAt ''b'' BOMB 50 0)
   \<and> livesRef (game (snd (sliceEntity (\<lambda>x. x) hypot (trailPoint 0 0 0) 100 0 (hypot 100 0)
        (entityAt ''b'' BOMB 50 0) (emptyScan sampleGame)))) = 0
   \<and> currentCombo (game (snd (sliceEntity (\<lambda>x. x) hypot (trailPoint 0 0 0) 100 0 (hypot 100 0)
        (entityAt ''b'' BOMB 50 0) (emptyScan sampleGame)))) = currentCombo sampleGame
   \<and> length (particlesRef (game (snd (sliceEntity (\<lambda>x. x) hypot (trailPoint 0 0 0) 100 0
        (hypot 100 0) (entityAt ''b'' BOMB 50 0) (emptyScan sampleGame))))) = 51"
proof -
  have h1: "isHit (\<lambda>x. x) hypot (trailPoint 0 0 0) 100 0 (hypot 100 0) (entityAt ''b'' BOMB 50 0)"
    by (rule isHit_on_swipe)
  have h2: "e_type (entityAt ''b'' BOMB 50 0) = BOMB"
    by (simp add: entityAt_sel)
  have h4: "segmentDistance 50 0 0 0 100 0 < e_radius (entityAt ''b'' BOMB 50 0)"
    by (simp add: segmentDistance_on_swipe entityAt_sel)
  have e: "particlesRef sampleGame = []" "game (emptyScan sampleGame) = sampleGame"
    by (simp_all add: emptyScan_def sampleGame_def mountedGame_def)
  show ?thesis
    using bomb_hit_effects[OF h1 h2, of "emptyScan sampleGame"] h1 h2 h4
    by (auto simp add: e)
qed

subsection \<open>The combo on a fruit hit\<close>

text \<open>
  C3, as the code has it. When the scan's callback hits a fruit, with \<open>now\<close> the clock
  reading of that hit, \<open>lastHitTime\<close> becomes \<open>now\<close> at once, and the fruit's 10 points
  are on the score. The combo itself is an action handed to \<open>setCurrentCombo\<close>, the
  updater if \<open>now - lastHitTime < 400\<close> and the value 1 otherwise, and the counter
  cell is not written at the call; when React does not run the action at the call,
  the action joins the queue, and \<open>maxCombo\<close> and the score hold no trace of the combo
  yet. Once React has processed the queue (\<open>s1\<close>, against \<open>s0\<close>, the state before the
  hit with its queue processed): within the window the counter is one more than
  before, \<open>maxCombo\<close> is the maximum of itself and the new counter, and a new counter
  above 1 has added the bonus counter \<times> 5 to the score on top of the 10 points (a
  counter of 1 adds no bonus); outside the window the counter is 1, there is no bonus
  and \<open>maxCombo\<close> is kept. The first hit after mounting has \<open>lastHitTime = 0\<close> and sets
  the counter to 1 once the clock reads 400 or more.
\<close>

theorem fruit_hit_combo:
  fixes a :: Scan
  defines "now \<equiv> dateNow (game a) (dateCalls (game a))"
  assumes "isHit fl hyp p1 dx dy d entity" and "e_type entity \<noteq> BOMB"
  shows "\<exists>a' s0 s1. a' = snd (sliceEntity fl hyp p1 dx dy d entity a)
          \<and> s0 = processComboQueue (game a) \<and> s1 = processComboQueue (game a')
          \<and> comboTimerRef (game a') = now
          \<and> comboTimerRef s1 = now
          \<and> currentCombo (game a') = currentCombo (game a)
          \<and> scoreRef (game a) + 10 \<le> scoreRef (game a')
          \<and> (\<not> reactEager (game a) (dispatchCalls (game a)) \<longrightarrow>
                comboQueue (game a')
                  = comboQueue (game a) @ [comboAction now (comboTimerRef (game a)) entity]
              \<and> scoreRef (game a') = scoreRef (game a) + 10
              \<and> score (statsRef (game a')) = score (statsRef (game a)) + 10
              \<and> maxCombo (statsRef (game a')) = maxCombo (statsRef (game a)))
          \<and> (now - comboTimerRef (game a) < 400 \<longrightarrow>
                currentCombo s1 = currentCombo s0 + 1
              \<and> maxCombo (statsRef s1) = max (maxCombo (statsRef s0)) (currentCombo s1)
              \<and> (currentCombo s1 > 1 \<longrightarrow>
                    scoreRef s1 = scoreRef s0 + 10 + currentCombo s1 * 5
                  \<and> score (statsRef s1) = score (statsRef s0) + 10 + currentCombo s1 * 5)
              \<and> (\<not> currentCombo s1 > 1 \<longrightarrow>
                    scoreRef s1 = scoreRef s0 + 10
                  \<and> score (statsRef s1) = score (statsRef s0) + 10))
          \<and> (\<not> now - comboTimerRef (game a) < 400 \<longrightarrow>
                currentCombo s1 = 1
              \<and> maxCombo (statsRef s1) = maxCombo (statsRef s0)
              \<and> scoreRef s1 = scoreRef s0 + 10
              \<and> score (statsRef s1) = score (statsRef s0) + 10)
          \<and> (comboTimerRef (game a) = 0 \<and> 400 \<le> now \<longrightarrow> currentCombo s1 = 1)"
proof -
  have run: "sliceEntity fl hyp p1 dx dy d entity a = (entity, fruitLogic p1 dx dy d entity a)"
    using assms(2,3) by (simp add: sliceEntity_by_test)
  have grows: "scoreRef (game a) + 10 \<le> scoreRef (game (fruitLogic p1 dx dy d entity a))"
    by (rule fruitLogic_score_grows)
  have deferred: "\<not> reactEager (game a) (dispatchCalls (game a)) \<longrightarrow>
      comboQueue (game (fruitLogic p1 dx dy d entity a))
        = comboQueue (game a) @ [comboAction now (comboTimerRef (game a)) entity]
      \<and> scoreRef (game (fruitLogic p1 dx dy d entity a)) = scoreRef (game a) + 10
      \<and> score (statsRef (game (fruitLogic p1 dx dy d entity a))) = score (statsRef (game a)) + 10
      \<and> maxCombo (statsRef (game (fruitLogic p1 dx dy d entity a)))
          = maxCombo (statsRef (game a))"
    unfolding now_def by (simp add: fruitLogic_deferred)
  show ?thesis
    unfolding run using grows deferred unfolding now_def
    by (simp add: fruitLogic_fields processComboQueue_fields comboAfter_def comboBonus_def)
qed

lemma sampleGame_sel:
  "scoreRef sampleGame = 0" "currentCombo sampleGame = 0" "comboTimerRef sampleGame = 0"
  "dateNow sampleGame = (\<lambda>n. 1000000)" "particlesRef sampleGame = []"
  "score (statsRef sampleGame) = 0" "maxCombo (statsRef sampleGame) = 0"
  "comboQueue sampleGame = []" "reactEager sampleGame = (\<lambda>n. False)"
  "dispatchCalls sampleGame = 0" "dateCalls sampleGame = 0"
  by (simp_all add: sampleGame_def mountedGame_def)

lemma emptyScan_sel:
  "game (emptyScan s) = s" "scoreChanged (emptyScan s) = False"
  "entitiesToRemove (emptyScan s) = []" "entitiesToAdd (emptyScan s) = []"
  by (simp_all add: emptyScan_def)

text \<open>
  Two fruits under the swipe from (0,0) to (100,0), hit one after the other at clock
  reading 1000000 after mounting, on a React that runs no action at the call: after
  the second hit, 0 ms after the first, the counter cell still holds 0 and the score
  holds the two times 10 points; once the queue is processed the combo is 2 and the
  score 30, the bonus 10 included.
\<close>

theorem fruit_hit_combo_witness:
  "isHit (\<lambda>x. x) hypot (trailPoint 0 0 0) 100 0 (hypot 100 0) (entityAt ''g'' PEAR 50 0)
   \<and> e_type (entityAt ''g'' PEAR 50 0) \<noteq> BOMB
   \<and> currentCombo (game (snd (sliceEntity (\<lambda>x. x) hypot (trailPoint 0 0 0) 100 0 (hypot 100 0)
        (entityAt ''g'' PEAR 50 0)
        (fruitLogic (trailPoint 0 0 0) 100 0 100 (entityAt ''f'' APPLE 50 0)
           (emptyScan sampleGame))))) = 0
   \<and> scoreRef (game (snd (sliceEntity (\<lambda>x. x) hypot (trailPoint 0 0 0) 100 0 (hypot 100 0)
        (entityAt ''g'' PEAR 50 0)
        (fruitLogic (trailPoint 0 0 0) 100 0 100 (entityAt ''f'' APPLE 50 0)
           (emptyScan sampleGame))))) = 20
   \<and> currentCombo (processComboQueue (game (snd (sliceEntity (\<lambda>x. x) hypot (trailPoint 0 0 0)
        100 0 (hypot 100 0) (entityAt ''g'' PEAR 50 0)
        (fruitLogic (trailPoint 0 0 0) 100 0 100 (entityAt ''f'' APPLE 50 0)
           (emptyScan sampleGame)))))) = 2
   \<and> scoreRef (processComboQueue (game (snd (sliceEntity (\<lambda>x. x) hypot (trailPoint 0 0 0)
        100 0 (hypot 100 0) (entityAt ''g'' PEAR 50 0)
        (fruitLogic (trailPoint 0 0 0) 100 0 100 (entityAt ''f'' APPLE 50 0)
           (emptyScan sampleGame)))))) = 30"
proof -
  let ?a1 = "fruitLogic (trailPoint 0 0 0) 100 0 100 (entityAt ''f'' APPLE 50 0)
               (emptyScan sampleGame)"
  have h1: "isHit (\<lambda>x. x) hypot (trailPoint 0 0 0) 100 0 (hypot 100 0) (entityAt ''g'' PEAR 50 0)"
    by (rule isHit_on_swipe)
  have h2: "e_type (entityAt ''g'' PEAR 50 0) \<noteq> BOMB"
    by (simp add: entityAt_sel)
  have lazy: "\<not> reactEager (game (emptyScan sampleGame)) (dispatchCalls (game (emptyScan sampleGame)))"
    by (simp add: emptyScan_sel sampleGame_sel)
  have first: "currentCombo (game ?a1) = 0" "scoreRef (game ?a1) = 10"
    "comboTimerRef (game ?a1) = 1000000" "dateNow (game ?a1) = (\<lambda>n. 1000000)"
    "reactEager (game ?a1) = (\<lambda>n. False)" "pendingCombo (game ?a1) = 1"
    "settledScore (game ?a1) = 10"
    by (simp_all add: fruitLogic_fields fruitLogic_deferred[OF lazy] emptyScan_sel sampleGame_sel
        comboAfter_def comboBonus_def settled_empty_queue)
  show ?thesis
    using fruit_hit_combo[OF h1 h2, of ?a1] h1 h2 first
    by (simp add: processComboQueue_fields)
qed

subsection \<open>One scan over the entity collection\<close>

lemma forEachEntity_entities:
  "fst (forEachEntity fl hyp p1 dx dy d es a) = map (markBomb fl hyp p1 dx dy d) es"
  by (induction es arbitrary: a)
     (simp_all add: split_def Let_def sliceEntity_by_test markBomb_def bombLogic_fields
        BOMB_TYPE_def)

lemma forEachEntity_remove:
  "entitiesToRemove (snd (forEachEntity fl hyp p1 dx dy d es a))
     = entitiesToRemove a @ map e_id (filter (isFruitHit fl hyp p1 dx dy d) es)"
  by (induction es arbitrary: a)
     (simp_all add: split_def Let_def sliceEntity_by_test isFruitHit_def bombLogic_fields
        fruitLogic_buffers BOMB_TYPE_def)

lemma forEachEntity_add:
  "entitiesToAdd (snd (forEachEntity fl hyp p1 dx dy d es a))
     = entitiesToAdd a
       @ concat (map (\<lambda>h. [fragmentOf p1 dx dy d h 1, fragmentOf p1 dx dy d h (- 1)])
                   (filter (isFruitHit fl hyp p1 dx dy d) es))"
  by (induction es arbitrary: a)
     (simp_all add: split_def Let_def sliceEntity_by_test isFruitHit_def bombLogic_fields
        fruitLogic_buffers BOMB_TYPE_def)

lemma forEachEntity_settledScore:
  "settledScore (game (snd (forEachEntity fl hyp p1 dx dy d es a)))
     = settledScore (game a) + 10 * int (length (filter (isFruitHit fl hyp p1 dx dy d) es))
       + scanBonus (dateNow (game a)) (dateCalls (game a)) (comboTimerRef (game a))
           (pendingCombo (game a)) (length (filter (isFruitHit fl hyp p1 dx dy d) es))"
  by (induction es arbitrary: a)
     (simp_all add: split_def Let_def sliceEntity_by_test isFruitHit_def bombLogic_fields
        bombLogic_settled fruitLogic_fields BOMB_TYPE_def)

lemma forEachEntity_scoreRef_grows:
  "scoreRef (game a) + 10 * int (length (filter (isFruitHit fl hyp p1 dx dy d) es))
     \<le> scoreRef (game (snd (forEachEntity fl hyp p1 dx dy d es a)))"
proof (induction es arbitrary: a)
  case Nil
  show ?case by simp
next
  case (Cons e es)
  show ?case
  proof (cases "isFruitHit fl hyp p1 dx dy d e")
    case True
    then have step: "sliceEntity fl hyp p1 dx dy d e a = (e, fruitLogic p1 dx dy d e a)"
      by (simp add: sliceEntity_by_test isFruitHit_def BOMB_TYPE_def)
    show ?thesis
      using Cons.IH[of "fruitLogic p1 dx dy d e a"] fruitLogic_score_grows(1)[of a p1 dx dy d e]
        True
      by (simp add: step split_def Let_def)
  next
    case False
    then have step: "scoreRef (game (snd (sliceEntity fl hyp p1 dx dy d e a))) = scoreRef (game a)"
      by (simp add: sliceEntity_by_test isFruitHit_def BOMB_TYPE_def bombLogic_fields)
    show ?thesis
      using Cons.IH[of "snd (sliceEntity fl hyp p1 dx dy d e a)"] False step
      by (simp add: split_def Let_def)
  qed
qed

lemma comboBonus_nonneg: "0 \<le> comboBonus now t c"
  by (simp add: comboBonus_def)

lemma scanBonus_nonneg: "0 \<le> scanBonus clock c t k n"
  by (induction n arbitrary: c t k) (simp_all add: comboBonus_nonneg)

lemma applyBatch_fields:
  "entitiesRef (applyBatch (es, a))
     = (if entitiesToRemove a \<noteq> []
        then filter (\<lambda>e. e_id e \<notin> set (entitiesToRemove a)) es @ entitiesToAdd a else es)"
  "scoreRef (applyBatch (es, a)) = scoreRef (game a)"
  "settledScore (applyBatch (es, a)) = settledScore (game a)"
  "pendingCombo (applyBatch (es, a)) = pendingCombo (game a)"
  "comboQueue (applyBatch (es, a)) = comboQueue (game a)"
  "currentCombo (applyBatch (es, a)) = currentCombo (game a)"
  "comboTimerRef (applyBatch (es, a)) = comboTimerRef (game a)"
  "statsRef (applyBatch (es, a)) = statsRef (game a)"
  by (simp_all add: applyBatch_def Let_def settledScore_def pendingCombo_def)

lemma markBomb_id: "e_id (markBomb fl hyp p1 dx dy d e) = e_id e"
  by (simp add: markBomb_def)

lemma markBomb_fruit: "isFruitHit fl hyp p1 dx dy d e \<Longrightarrow> markBomb fl hyp p1 dx dy d e = e"
  by (simp add: markBomb_def isFruitHit_def)

lemma fragmentOf_fields:
  "e_id (fragmentOf p1 dx dy d e side) = e_id e @ (if side = 1 then ''-A'' else ''-B'')"
  "e_isSliced (fragmentOf p1 dx dy d e side)"
  "e_isFragment (fragmentOf p1 dx dy d e side) = Some True"
  "e_sliceSide (fragmentOf p1 dx dy d e side) = Some side"
  "e_sliceAngleRelative (fragmentOf p1 dx dy d e side) = Some (atan2 dy dx - e_rotation e)"
  "e_type (fragmentOf p1 dx dy d e side) = e_type e"
  "e_x (fragmentOf p1 dx dy d e side) = e_x e"
  "e_y (fragmentOf p1 dx dy d e side) = e_y e"
  "e_radius (fragmentOf p1 dx dy d e side) = e_radius e"
  "e_rotation (fragmentOf p1 dx dy d e side) = e_rotation e"
  "e_opacity (fragmentOf p1 dx dy d e side) = e_opacity e"
  "e_scale (fragmentOf p1 dx dy d e side) = e_scale e"
  "e_flash (fragmentOf p1 dx dy d e side) = 1"
  by (simp_all add: fragmentOf_def createFragment_def Let_def)

lemma scan_entities:
  "entitiesRef (applyBatch (forEachEntity fl hyp p1 dx dy d es (emptyScan s)))
     = filter (\<lambda>x. e_id x \<notin> e_id ` set (filter (isFruitHit fl hyp p1 dx dy d) es))
         (map (markBomb fl hyp p1 dx dy d) es)
       @ concat (map (\<lambda>h. [fragmentOf p1 dx dy d h 1, fragmentOf p1 dx dy d h (- 1)])
                   (filter (isFruitHit fl hyp p1 dx dy d) es))"
proof -
  let ?r = "forEachEntity fl hyp p1 dx dy d es (emptyScan s)"
  have "entitiesRef (applyBatch ?r) = entitiesRef (applyBatch (fst ?r, snd ?r))"
    by simp
  also have "\<dots> = filter (\<lambda>x. e_id x \<notin> e_id ` set (filter (isFruitHit fl hyp p1 dx dy d) es))
         (map (markBomb fl hyp p1 dx dy d) es)
       @ concat (map (\<lambda>h. [fragmentOf p1 dx dy d h 1, fragmentOf p1 dx dy d h (- 1)])
                   (filter (isFruitHit fl hyp p1 dx dy d) es))"
  proof (cases "filter (isFruitHit fl hyp p1 dx dy d) es = []")
    case True
    then have "\<forall>x\<in>set es. \<not> isFruitHit fl hyp p1 dx dy d x"
      by (simp add: filter_empty_conv)
    then have "{x \<in> set es. isFruitHit fl hyp p1 dx dy d x} = {}"
      by blast
    with True show ?thesis
      unfolding applyBatch_fields forEachEntity_entities forEachEntity_remove forEachEntity_add
      by (simp add: emptyScan_sel)
  next
    case False
    then show ?thesis
      unfolding applyBatch_fields forEachEntity_entities forEachEntity_remove forEachEntity_add
      by (simp add: emptyScan_sel)
  qed
  finally show ?thesis .
qed

lemma scan_settledScore:
  "settledScore (applyBatch (forEachEntity fl hyp p1 dx dy d es (emptyScan s)))
     = settledScore s + 10 * int (length (filter (isFruitHit fl hyp p1 dx dy d) es))
       + scanBonus (dateNow s) (dateCalls s) (comboTimerRef s) (pendingCombo s)
           (length (filter (isFruitHit fl hyp p1 dx dy d) es))"
proof -
  let ?r = "forEachEntity fl hyp p1 dx dy d es (emptyScan s)"
  have "settledScore (applyBatch ?r) = settledScore (applyBatch (fst ?r, snd ?r))"
    by simp
  also have "\<dots> = settledScore (game (snd ?r))"
    by (simp only: applyBatch_fields)
  finally show ?thesis
    by (simp add: forEachEntity_settledScore emptyScan_sel)
qed

lemma scan_scoreRef_grows:
  "scoreRef s + 10 * int (length (filter (isFruitHit fl hyp p1 dx dy d) es))
     \<le> scoreRef (applyBatch (forEachEntity fl hyp p1 dx dy d es (emptyScan s)))"
proof -
  let ?r = "forEachEntity fl hyp p1 dx dy d es (emptyScan s)"
  have "scoreRef (applyBatch ?r) = scoreRef (applyBatch (fst ?r, snd ?r))"
    by simp
  also have "\<dots> = scoreRef (game (snd ?r))"
    by (simp only: applyBatch_fields)
  finally show ?thesis
    using forEachEntity_scoreRef_grows[of "emptyScan s" fl hyp p1 dx dy d es]
    by (simp add: emptyScan_sel)
qed

lemma scoreRef_le_settled: "scoreRef s \<le> scoreRef (processComboQueue s)"
  by (simp add: processComboQueue_fields settledScore_def queueBonus_nonneg)

text \<open>
  Past the guards the hit test of the scan is the comparison of the computed distance
  with the radius; in exact arithmetic the computed distance is the distance of the
  specification, and the two points of the segment differ.
\<close>

lemma swipe_isHit:
  assumes "\<not> swipeDist s < 5"
  shows "isHit (applyRounding (roundDouble s)) (mathHypot s) (swipeP1 s) (swipeDx s) (swipeDy s)
            (swipeDist s) e
         \<longleftrightarrow> \<not> e_isSliced e
             \<and> distToSegment (applyRounding (roundDouble s)) (mathHypot s) (swipeP1 s)
                  (swipeDx s) (swipeDy s) (swipeL2 s) e < e_radius e"
proof -
  have "25 \<le> swipeL2 s"
    using assms by (simp add: swipeL2_def rounded_square_ge_25)
  then have "swipeL2 s \<noteq> 0"
    by linarith
  then show ?thesis
    by (simp add: isHit_def swipeL2_def)
qed

lemma swipe_exact:
  assumes "exactArithmetic s" and "\<not> swipeDist s < 5"
  shows "distToSegment (applyRounding (roundDouble s)) (mathHypot s) (swipeP1 s)
            (swipeDx s) (swipeDy s) (swipeL2 s) e
         = segmentDistance (e_x e) (e_y e) (pt_x (swipeP1 s)) (pt_y (swipeP1 s))
             (pt_x (swipeP2 s)) (pt_y (swipeP2 s))"
    and "pt_x (swipeP2 s) \<noteq> pt_x (swipeP1 s) \<or> pt_y (swipeP2 s) \<noteq> pt_y (swipeP1 s)"
proof -
  have fl: "applyRounding (roundDouble s) = (\<lambda>x. x)" and hy: "mathHypot s = hypot"
    using assms(1) by (simp_all add: exactArithmetic_def applyRounding_exact)
  show "distToSegment (applyRounding (roundDouble s)) (mathHypot s) (swipeP1 s)
            (swipeDx s) (swipeDy s) (swipeL2 s) e
         = segmentDistance (e_x e) (e_y e) (pt_x (swipeP1 s)) (pt_y (swipeP1 s))
             (pt_x (swipeP2 s)) (pt_y (swipeP2 s))"
    using distToSegment_spec[of "swipeP1 s" "swipeP2 s" e]
    by (simp add: swipeL2_def swipeDist_def swipeDx_def swipeDy_def fl hy)
  have "swipeDist s \<noteq> 0"
    using assms(2) by auto
  then show "pt_x (swipeP2 s) \<noteq> pt_x (swipeP1 s) \<or> pt_y (swipeP2 s) \<noteq> pt_y (swipeP1 s)"
    by (auto simp add: swipeDist_def swipeDx_def swipeDy_def fl hy hypot_eq_0_iff)
qed

lemma length_fragments:
  "length (concat (map (\<lambda>h. [f h, g h]) hs)) = 2 * length hs"
  by (induction hs) simp_all

lemma survivors_length:
  "length (filter (\<lambda>x. e_id x \<notin> S) (map (markBomb fl hyp p1 dx dy d) es))
     = length (filter (\<lambda>x. e_id x \<notin> S) es)"
  by (induction es) (simp_all add: markBomb_id)

text \<open>
  C2. In a scan (both guards passed) let \<open>hits\<close> be the fruits hit. For every fruit
  \<open>e\<close> the swipe hits (by the hit test of the scan): after \<open>checkCollisions\<close> the
  collection is the survivors (entities whose id is not the id of a hit fruit, hit
  bombs marked) followed by two fragments per hit fruit; \<open>e\<close> itself is gone and any
  entity left with its id is a fragment; its two fragments, sides \<open>+1\<close> and \<open>-1\<close>, are
  in the collection, sliced and marked as fragments, with the ids \<open>id-A\<close> and \<open>id-B\<close>,
  which differ; and the score grew by 10 per hit fruit plus the combo bonuses of the
  scan, which are not negative (for a single hit fruit: 10 plus its combo bonus). The
  10 points per fruit are on the score when the detector returns; the combo bonuses
  are on it once React has processed the queue of combo actions, and they are counted
  from the counter that the processed queue before the scan gives.
\<close>

theorem fruit_hit_fragmentation:
  fixes s :: Game and e :: Entity and width height dt :: real
  defines "fl \<equiv> applyRounding (roundDouble s)" and "hyp \<equiv> mathHypot s"
  defines "p1 \<equiv> swipeP1 s" and "dx \<equiv> swipeDx s" and "dy \<equiv> swipeDy s" and "d \<equiv> swipeDist s"
  defines "hits \<equiv> filter (isFruitHit fl hyp p1 dx dy d) (entitiesRef s)"
  defines "s' \<equiv> checkCollisions width height dt s"
  defines "fragA \<equiv> fragmentOf p1 dx dy d e 1" and "fragB \<equiv> fragmentOf p1 dx dy d e (- 1)"
  assumes trail: "2 \<le> length (trailRef s)" and long: "\<not> swipeDist s < 5"
    and live: "e \<in> set (entitiesRef s)" and whole: "\<not> e_isSliced e"
    and fruit: "e_type e \<noteq> BOMB"
    and near: "distToSegment (applyRounding (roundDouble s)) (mathHypot s) (swipeP1 s)
           (swipeDx s) (swipeDy s) (swipeL2 s) e < e_radius e"
  shows "e \<in> set hits
    \<and> entitiesRef s'
        = filter (\<lambda>x. e_id x \<notin> e_id ` set hits) (map (markBomb fl hyp p1 dx dy d) (entitiesRef s))
          @ concat (map (\<lambda>h. [fragmentOf p1 dx dy d h 1, fragmentOf p1 dx dy d h (- 1)]) hits)
    \<and> e \<notin> set (entitiesRef s')
    \<and> (\<forall>x\<in>set (entitiesRef s'). e_id x = e_id e \<longrightarrow> e_isFragment x = Some True)
    \<and> fragA \<in> set (entitiesRef s') \<and> fragB \<in> set (entitiesRef s')
    \<and> e_id fragA = e_id e @ ''-A'' \<and> e_id fragB = e_id e @ ''-B'' \<and> e_id fragA \<noteq> e_id fragB
    \<and> e_isSliced fragA \<and> e_isFragment fragA = Some True \<and> e_sliceSide fragA = Some 1
    \<and> e_isSliced fragB \<and> e_isFragment fragB = Some True \<and> e_sliceSide fragB = Some (- 1)
    \<and> length (entitiesRef s')
        = length (filter (\<lambda>x. e_id x \<notin> e_id ` set hits) (entitiesRef s)) + 2 * length hits
    \<and> scoreRef s + 10 * int (length hits) \<le> scoreRef s'
    \<and> scoreRef s' \<le> scoreRef (processComboQueue s')
    \<and> scoreRef (processComboQueue s')
        = scoreRef (processComboQueue s) + 10 * int (length hits)
          + scanBonus (dateNow s) (dateCalls s) (comboTimerRef s)
              (currentCombo (processComboQueue s)) (length hits)
    \<and> 0 \<le> scanBonus (dateNow s) (dateCalls s) (comboTimerRef s)
              (currentCombo (processComboQueue s)) (length hits)
    \<and> (hits = [e] \<longrightarrow>
         scoreRef (processComboQueue s') = scoreRef (processComboQueue s) + 10
           + comboBonus (dateNow s (dateCalls s)) (comboTimerRef s)
               (currentCombo (processComboQueue s)))"
proof -
  let ?frags = "concat (map (\<lambda>h. [fragmentOf p1 dx dy d h 1, fragmentOf p1 dx dy d h (- 1)]) hits)"
  let ?keep = "filter (\<lambda>x. e_id x \<notin> e_id ` set hits)
                 (map (markBomb fl hyp p1 dx dy d) (entitiesRef s))"
  have run: "s' = applyBatch (forEachEntity fl hyp p1 dx dy d (entitiesRef s) (emptyScan s))"
    unfolding s'_def fl_def hyp_def p1_def dx_def dy_def d_def using trail long
    by (rule checkCollisions_scan)
  have hit: "isFruitHit fl hyp p1 dx dy d e"
    unfolding isFruitHit_def fl_def hyp_def p1_def dx_def dy_def d_def
    using swipe_isHit[OF long, of e] whole fruit near by (simp add: BOMB_TYPE_def)
  then have mem: "e \<in> set hits"
    using live by (simp add: hits_def)
  have ents: "entitiesRef s' = ?keep @ ?frags"
    unfolding run hits_def by (rule scan_entities)
  have frags: "\<forall>x\<in>set ?frags. e_isSliced x \<and> e_isFragment x = Some True"
    by (auto simp add: fragmentOf_fields)
  have keep: "\<forall>x\<in>set ?keep. e_id x \<noteq> e_id e"
    using mem by auto
  have gone: "e \<notin> set (entitiesRef s')"
    using keep frags whole unfolding ents by auto
  have same_id: "\<forall>x\<in>set (entitiesRef s'). e_id x = e_id e \<longrightarrow> e_isFragment x = Some True"
    using keep frags unfolding ents by auto
  have inA: "fragA \<in> set (entitiesRef s')" and inB: "fragB \<in> set (entitiesRef s')"
    using mem unfolding ents fragA_def fragB_def by auto
  have len: "length (entitiesRef s')
        = length (filter (\<lambda>x. e_id x \<notin> e_id ` set hits) (entitiesRef s)) + 2 * length hits"
    unfolding ents by (simp only: length_append length_fragments survivors_length)
  have atreturn: "scoreRef s + 10 * int (length hits) \<le> scoreRef s'"
    unfolding run hits_def by (rule scan_scoreRef_grows)
  have le: "scoreRef s' \<le> scoreRef (processComboQueue s')"
    by (rule scoreRef_le_settled)
  have sc: "scoreRef (processComboQueue s')
        = scoreRef (processComboQueue s) + 10 * int (length hits)
          + scanBonus (dateNow s) (dateCalls s) (comboTimerRef s)
              (currentCombo (processComboQueue s)) (length hits)"
    unfolding processComboQueue_fields run hits_def by (rule scan_settledScore)
  have single: "hits = [e] \<longrightarrow>
         scoreRef (processComboQueue s') = scoreRef (processComboQueue s) + 10
           + comboBonus (dateNow s (dateCalls s)) (comboTimerRef s)
               (currentCombo (processComboQueue s))"
    using sc by auto
  have ids: "e_id fragA = e_id e @ ''-A'' \<and> e_id fragB = e_id e @ ''-B'' \<and> e_id fragA \<noteq> e_id fragB
    \<and> e_isSliced fragA \<and> e_isFragment fragA = Some True \<and> e_sliceSide fragA = Some 1
    \<and> e_isSliced fragB \<and> e_isFragment fragB = Some True \<and> e_sliceSide fragB = Some (- 1)"
    unfolding fragA_def fragB_def by (simp add: fragmentOf_fields)
  from mem ents gone same_id inA inB ids len atreturn le sc single scanBonus_nonneg
  show ?thesis by blast
qed

lemma swipeScene_sel:
  "entitiesRef (swipeScene es) = es" "scoreRef (swipeScene es) = 0"
  "currentCombo (swipeScene es) = 0" "comboTimerRef (swipeScene es) = 0"
  "dateNow (swipeScene es) = (\<lambda>n. 1000000)" "dateCalls (swipeScene es) = 0"
  "comboQueue (swipeScene es) = []" "reactEager (swipeScene es) = (\<lambda>n. False)"
  "dispatchCalls (swipeScene es) = 0" "maxCombo (statsRef (swipeScene es)) = 0"
  by (simp_all add: swipeScene_def sampleGame_def mountedGame_def)

lemma swipeScene_distance:
  "distToSegment (applyRounding (roundDouble (swipeScene es))) (mathHypot (swipeScene es))
      (swipeP1 (swipeScene es)) (swipeDx (swipeScene es)) (swipeDy (swipeScene es))
      (swipeL2 (swipeScene es)) e
   = segmentDistance (e_x e) (e_y e) 0 0 100 0"
  using swipe_exact(1)[of "swipeScene es" e]
  by (simp add: swipeScene_arith swipeScene_segment trailPoint_sel)

lemma swipeScene_fruit_hit:
  "isFruitHit (\<lambda>x. x) hypot (trailPoint 0 0 999990) 100 0 100 (entityAt ''f'' APPLE 50 0)"
  by (simp add: isFruitHit_def isHit_def distToSegment_def entityAt_def trailPoint_def
      hypot_def BOMB_TYPE_def Let_def)

text \<open>
  The example of the specification: the swipe from (0,0) to (100,0) against one fruit
  at (50,0) of radius 35 leaves exactly the two fragments \<open>f-A\<close> and \<open>f-B\<close> and a
  score of 10 (the hit is the first one, so there is no combo bonus).
\<close>

theorem fruit_hit_fragmentation_witness:
  "2 \<le> length (trailRef (swipeScene [entityAt ''f'' APPLE 50 0]))
   \<and> \<not> swipeDist (swipeScene [entityAt ''f'' APPLE 50 0]) < 5
   \<and> entityAt ''f'' APPLE 50 0 \<in> set (entitiesRef (swipeScene [entityAt ''f'' APPLE 50 0]))
   \<and> \<not> e_isSliced (entityAt ''f'' APPLE 50 0)
   \<and> e_type (entityAt ''f'' APPLE 50 0) \<noteq> BOMB
   \<and> segmentDistance 50 0 0 0 100 0 < e_radius (entityAt ''f'' APPLE 50 0)
   \<and> map e_id (entitiesRef (checkCollisions 800 600 (1 / 60)
                   (swipeScene [entityAt ''f'' APPLE 50 0]))) = [''f-A'', ''f-B'']
   \<and> map e_isFragment (entitiesRef (checkCollisions 800 600 (1 / 60)
                   (swipeScene [entityAt ''f'' APPLE 50 0]))) = [Some True, Some True]
   \<and> map e_sliceSide (entitiesRef (checkCollisions 800 600 (1 / 60)
                   (swipeScene [entityAt ''f'' APPLE 50 0]))) = [Some 1, Some (- 1)]
   \<and> scoreRef (checkCollisions 800 600 (1 / 60) (swipeScene [entityAt ''f'' APPLE 50 0])) = 10
   \<and> scoreRef (processComboQueue (checkCollisions 800 600 (1 / 60)
        (swipeScene [entityAt ''f'' APPLE 50 0]))) = 10"
proof -
  let ?e = "entityAt ''f'' APPLE 50 0"
  let ?s = "swipeScene [?e]"
  have h1: "2 \<le> length (trailRef ?s)" and h2: "\<not> swipeDist ?s < 5"
    by (simp_all add: swipeScene_segment)
  have h3: "?e \<in> set (entitiesRef ?s)"
    by (simp add: swipeScene_sel)
  have h4: "\<not> e_isSliced ?e" and h5: "e_type ?e \<noteq> BOMB"
    by (simp_all add: entityAt_sel)
  have h6: "segmentDistance 50 0 0 0 100 0 < e_radius ?e"
    by (simp add: segmentDistance_on_swipe entityAt_sel)
  have h6': "distToSegment (applyRounding (roundDouble ?s)) (mathHypot ?s) (swipeP1 ?s)
           (swipeDx ?s) (swipeDy ?s) (swipeL2 ?s) ?e < e_radius ?e"
    using h6 by (simp add: swipeScene_distance entityAt_sel)
  have bonus: "comboBonus 1000000 0 0 = 0"
    by (simp add: comboBonus_def)
  have before: "scoreRef (processComboQueue ?s) = 0" "currentCombo (processComboQueue ?s) = 0"
    by (simp_all add: processComboQueue_fields settled_empty_queue swipeScene_sel)
  show ?thesis
    using fruit_hit_fragmentation[OF h1 h2 h3 h4 h5 h6', of 800 600 "1 / 60"]
      h1 h2 h3 h4 h5 h6 swipeScene_fruit_hit bonus
    by (simp add: swipeScene_segment swipeScene_sel swipeScene_arith fragmentOf_fields markBomb_id
        entityAt_sel before)
qed

subsection \<open>The hit test of the detector\<close>

text \<open>
  C1 on the code: the detector does not test every swipe segment. A swipe of 3 pixels
  from (0,0) to (3,0) passes through the centre (1,0) of a live, unsliced fruit of
  radius 35, so the distance from the centre to the closest point of the segment is
  0, less than the radius; the detector returns at its 5-pixel guard and registers
  nothing.
\<close>

theorem short_swipe_registers_no_hit:
  "swipeP1 shortSwipeScene = trailPoint 0 0 999990
   \<and> swipeP2 shortSwipeScene = trailPoint 3 0 999995
   \<and> entityAt ''f'' APPLE 1 0 \<in> set (entitiesRef shortSwipeScene)
   \<and> \<not> e_isSliced (entityAt ''f'' APPLE 1 0)
   \<and> segmentDistance 1 0 0 0 3 0 = 0
   \<and> segmentDistance 1 0 0 0 3 0 < e_radius (entityAt ''f'' APPLE 1 0)
   \<and> checkCollisions 800 600 (1 / 60) shortSwipeScene = shortSwipeScene"
proof -
  have arith: "applyRounding (roundDouble shortSwipeScene) = (\<lambda>x. x)"
    "mathHypot shortSwipeScene = hypot"
    using sampleGame_arith by (simp_all add: shortSwipeScene_def)
  have seg: "swipeP1 shortSwipeScene = trailPoint 0 0 999990"
    "swipeP2 shortSwipeScene = trailPoint 3 0 999995"
    by (simp_all add: swipeP1_def swipeP2_def shortSwipeScene_def)
  have d: "swipeDist shortSwipeScene = 3"
    by (simp add: swipeDist_def swipeDx_def swipeDy_def seg arith trailPoint_sel hypot_zero_right)
  have skip: "checkCollisions 800 600 (1 / 60) shortSwipeScene = shortSwipeScene"
    by (rule checkCollisions_skip) (simp add: d)
  have dist0: "segmentDistance 1 0 0 0 3 0 = 0"
    by (simp add: segmentDistance_def Let_def)
  have live: "entityAt ''f'' APPLE 1 0 \<in> set (entitiesRef shortSwipeScene)"
    by (simp add: shortSwipeScene_def)
  from seg skip dist0 live show ?thesis
    by (simp add: entityAt_sel)
qed

text \<open>
  C1, as the code has it. For a swipe segment that passes the guards of the detector
  (its computed length is 5 pixels or more) and a live, not-yet-sliced entity, the
  scan's callback takes its hit branch (the bomb logic or the fruit logic) exactly
  when the distance it computes in double arithmetic, from the entity's centre to the
  point of the segment at the clamped projection parameter, is strictly less than the
  entity's radius; otherwise, so also at a computed distance equal to the radius, it
  leaves the entity and the state as they are. After the pass a hit fruit is gone
  from the collection and its two fragments are in it, a hit bomb is in it marked,
  and an entity that is not hit is in it as it was (when no hit fruit has its id). In
  exact arithmetic the computed distance is the Euclidean distance from the centre to
  the closest point of the segment: the least distance to a point
  \<open>p1 + u (p2 - p1)\<close>, \<open>0 \<le> u \<le> 1\<close>.
\<close>

theorem hit_iff_computed_distance_less_radius:
  fixes s :: Game and e :: Entity and width height dt :: real
  defines "fl \<equiv> applyRounding (roundDouble s)" and "hyp \<equiv> mathHypot s"
  defines "p1 \<equiv> swipeP1 s" and "p2 \<equiv> swipeP2 s"
  defines "dx \<equiv> swipeDx s" and "dy \<equiv> swipeDy s" and "d \<equiv> swipeDist s"
  defines "computed \<equiv> distToSegment fl hyp p1 dx dy (swipeL2 s) e"
  defines "hits \<equiv> filter (isFruitHit fl hyp p1 dx dy d) (entitiesRef s)"
  defines "s' \<equiv> checkCollisions width height dt s"
  assumes trail: "2 \<le> length (trailRef s)" and long: "\<not> swipeDist s < 5"
    and live: "e \<in> set (entitiesRef s)" and whole: "\<not> e_isSliced e"
  shows "s' = applyBatch (forEachEntity fl hyp p1 dx dy d (entitiesRef s) (emptyScan s))
    \<and> (\<forall>a. sliceEntity fl hyp p1 dx dy d e a =
             (if computed < e_radius e
              then (if e_type e = BOMB then bombLogic e a
                    else (e, fruitLogic p1 dx dy d e a))
              else (e, a)))
    \<and> (\<forall>a. sliceEntity fl hyp p1 dx dy d e a \<noteq> (e, a) \<longleftrightarrow> computed < e_radius e)
    \<and> (computed = e_radius e \<longrightarrow> (\<forall>a. sliceEntity fl hyp p1 dx dy d e a = (e, a)))
    \<and> (computed < e_radius e \<and> e_type e \<noteq> BOMB \<longrightarrow>
          e \<notin> set (entitiesRef s')
        \<and> fragmentOf p1 dx dy d e 1 \<in> set (entitiesRef s')
        \<and> fragmentOf p1 dx dy d e (- 1) \<in> set (entitiesRef s'))
    \<and> (computed < e_radius e \<and> e_type e = BOMB \<and> e_id e \<notin> e_id ` set hits \<longrightarrow>
          e\<lparr>e_isSliced := True, e_flash := 1\<rparr> \<in> set (entitiesRef s'))
    \<and> (\<not> computed < e_radius e \<and> e_id e \<notin> e_id ` set hits \<longrightarrow> e \<in> set (entitiesRef s'))
    \<and> (exactArithmetic s \<longrightarrow>
          computed = segmentDistance (e_x e) (e_y e) (pt_x p1) (pt_y p1) (pt_x p2) (pt_y p2)
        \<and> (\<forall>u. 0 \<le> u \<and> u \<le> 1 \<longrightarrow>
              computed \<le> sqrt ((e_x e - (pt_x p1 + u * (pt_x p2 - pt_x p1)))\<^sup>2
                              + (e_y e - (pt_y p1 + u * (pt_y p2 - pt_y p1)))\<^sup>2)))"
proof -
  let ?frags = "concat (map (\<lambda>h. [fragmentOf p1 dx dy d h 1, fragmentOf p1 dx dy d h (- 1)]) hits)"
  let ?keep = "filter (\<lambda>x. e_id x \<notin> e_id ` set hits)
                 (map (markBomb fl hyp p1 dx dy d) (entitiesRef s))"
  have run: "s' = applyBatch (forEachEntity fl hyp p1 dx dy d (entitiesRef s) (emptyScan s))"
    unfolding s'_def fl_def hyp_def p1_def dx_def dy_def d_def using trail long
    by (rule checkCollisions_scan)
  have test: "isHit fl hyp p1 dx dy d e \<longleftrightarrow> computed < e_radius e"
    unfolding fl_def hyp_def p1_def dx_def dy_def d_def computed_def
    using swipe_isHit[OF long, of e] whole by simp
  have branch: "\<forall>a. sliceEntity fl hyp p1 dx dy d e a =
             (if computed < e_radius e
              then (if e_type e = BOMB then bombLogic e a
                    else (e, fruitLogic p1 dx dy d e a))
              else (e, a))"
    by (simp add: sliceEntity_by_test test)
  have changes: "\<forall>a. sliceEntity fl hyp p1 dx dy d e a \<noteq> (e, a) \<longleftrightarrow> computed < e_radius e"
    by (simp add: sliceEntity_changes_iff test)
  have equal: "computed = e_radius e \<longrightarrow> (\<forall>a. sliceEntity fl hyp p1 dx dy d e a = (e, a))"
    using branch by simp
  have ents: "entitiesRef s' = ?keep @ ?frags"
    unfolding run hits_def by (rule scan_entities)
  have frags: "\<forall>x\<in>set ?frags. e_isSliced x"
    by (auto simp add: fragmentOf_fields)
  have fruit: "computed < e_radius e \<and> e_type e \<noteq> BOMB \<longrightarrow>
          e \<notin> set (entitiesRef s')
        \<and> fragmentOf p1 dx dy d e 1 \<in> set (entitiesRef s')
        \<and> fragmentOf p1 dx dy d e (- 1) \<in> set (entitiesRef s')"
  proof (intro impI)
    assume h: "computed < e_radius e \<and> e_type e \<noteq> BOMB"
    then have mem: "e \<in> set hits"
      using live test by (simp add: hits_def isFruitHit_def BOMB_TYPE_def)
    then have keep: "\<forall>x\<in>set ?keep. e_id x \<noteq> e_id e"
      by auto
    have gone: "e \<notin> set (entitiesRef s')"
      using keep frags whole unfolding ents by auto
    have "fragmentOf p1 dx dy d e 1 \<in> set ?frags" "fragmentOf p1 dx dy d e (- 1) \<in> set ?frags"
      using mem by auto
    with gone show "e \<notin> set (entitiesRef s')
        \<and> fragmentOf p1 dx dy d e 1 \<in> set (entitiesRef s')
        \<and> fragmentOf p1 dx dy d e (- 1) \<in> set (entitiesRef s')"
      unfolding ents by simp
  qed
  have bomb: "computed < e_radius e \<and> e_type e = BOMB \<and> e_id e \<notin> e_id ` set hits \<longrightarrow>
          e\<lparr>e_isSliced := True, e_flash := 1\<rparr> \<in> set (entitiesRef s')"
  proof (intro impI)
    assume h: "computed < e_radius e \<and> e_type e = BOMB \<and> e_id e \<notin> e_id ` set hits"
    then have "markBomb fl hyp p1 dx dy d e = e\<lparr>e_isSliced := True, e_flash := 1\<rparr>"
      using test by (simp add: markBomb_def BOMB_TYPE_def)
    moreover have "markBomb fl hyp p1 dx dy d e \<in> set ?keep"
      using h live by (simp add: markBomb_id)
    ultimately show "e\<lparr>e_isSliced := True, e_flash := 1\<rparr> \<in> set (entitiesRef s')"
      unfolding ents by simp
  qed
  have miss: "\<not> computed < e_radius e \<and> e_id e \<notin> e_id ` set hits \<longrightarrow> e \<in> set (entitiesRef s')"
  proof (intro impI)
    assume h: "\<not> computed < e_radius e \<and> e_id e \<notin> e_id ` set hits"
    then have "markBomb fl hyp p1 dx dy d e = e"
      using test by (simp add: markBomb_def)
    moreover have "markBomb fl hyp p1 dx dy d e \<in> set ?keep"
      using h live by (simp add: markBomb_id)
    ultimately show "e \<in> set (entitiesRef s')"
      unfolding ents by simp
  qed
  have exact: "exactArithmetic s \<longrightarrow>
          computed = segmentDistance (e_x e) (e_y e) (pt_x p1) (pt_y p1) (pt_x p2) (pt_y p2)
        \<and> (\<forall>u. 0 \<le> u \<and> u \<le> 1 \<longrightarrow>
              computed \<le> sqrt ((e_x e - (pt_x p1 + u * (pt_x p2 - pt_x p1)))\<^sup>2
                              + (e_y e - (pt_y p1 + u * (pt_y p2 - pt_y p1)))\<^sup>2))"
  proof (intro impI)
    assume ex: "exactArithmetic s"
    have eq: "computed
        = segmentDistance (e_x e) (e_y e) (pt_x p1) (pt_y p1) (pt_x p2) (pt_y p2)"
      unfolding computed_def fl_def hyp_def p1_def p2_def dx_def dy_def
      by (rule swipe_exact(1)[OF ex long])
    have ne: "pt_x p2 \<noteq> pt_x p1 \<or> pt_y p2 \<noteq> pt_y p1"
      unfolding p1_def p2_def by (rule swipe_exact(2)[OF ex long])
    have "\<forall>u. 0 \<le> u \<and> u \<le> 1 \<longrightarrow>
              computed \<le> sqrt ((e_x e - (pt_x p1 + u * (pt_x p2 - pt_x p1)))\<^sup>2
                              + (e_y e - (pt_y p1 + u * (pt_y p2 - pt_y p1)))\<^sup>2)"
      unfolding eq using segmentDistance_least[OF ne] by blast
    with eq show "computed
          = segmentDistance (e_x e) (e_y e) (pt_x p1) (pt_y p1) (pt_x p2) (pt_y p2)
        \<and> (\<forall>u. 0 \<le> u \<and> u \<le> 1 \<longrightarrow>
              computed \<le> sqrt ((e_x e - (pt_x p1 + u * (pt_x p2 - pt_x p1)))\<^sup>2
                              + (e_y e - (pt_y p1 + u * (pt_y p2 - pt_y p1)))\<^sup>2))"
      by blast
  qed
  from run branch changes equal fruit bomb miss exact show ?thesis
    by blast
qed

lemma boundaryScene_sel:
  "2 \<le> length (trailRef boundaryScene)" "\<not> swipeDist boundaryScene < 5"
  "entitiesRef boundaryScene = [entityAt ''m'' APPLE 50 35, entityAt ''h'' PEAR 50 34]"
  "exactArithmetic boundaryScene"
  "swipeP1 boundaryScene = trailPoint 0 0 999990" "swipeP2 boundaryScene = trailPoint 100 0 999995"
  by (simp_all add: boundaryScene_def swipeScene_segment swipeScene_sel swipeScene_arith)

lemma boundary_distances:
  "segmentDistance 50 35 0 0 100 0 = 35" "segmentDistance 50 34 0 0 100 0 = 34"
  by (simp_all add: segmentDistance_def Let_def sqrt_1225 sqrt_1156)

text \<open>
  The boundary on the swipe from (0,0) to (100,0), in exact arithmetic: a fruit of
  radius 35 centred at (50,35) is at distance exactly 35 and is still in the
  collection after the pass; the fruit centred at (50,34) is hit and gone.
\<close>

theorem hit_iff_computed_distance_less_radius_witness:
  "2 \<le> length (trailRef boundaryScene)
   \<and> \<not> swipeDist boundaryScene < 5
   \<and> entityAt ''m'' APPLE 50 35 \<in> set (entitiesRef boundaryScene)
   \<and> entityAt ''h'' PEAR 50 34 \<in> set (entitiesRef boundaryScene)
   \<and> \<not> e_isSliced (entityAt ''m'' APPLE 50 35)
   \<and> \<not> e_isSliced (entityAt ''h'' PEAR 50 34)
   \<and> exactArithmetic boundaryScene
   \<and> segmentDistance 50 35 0 0 100 0 = 35
   \<and> entityAt ''m'' APPLE 50 35 \<in> set (entitiesRef (checkCollisions 800 600 (1 / 60) boundaryScene))
   \<and> segmentDistance 50 34 0 0 100 0 = 34
   \<and> entityAt ''h'' PEAR 50 34 \<notin> set (entitiesRef (checkCollisions 800 600 (1 / 60) boundaryScene))"
proof -
  let ?m = "entityAt ''m'' APPLE 50 35" and ?h = "entityAt ''h'' PEAR 50 34"
  let ?fl = "applyRounding (roundDouble boundaryScene)" and ?hyp = "mathHypot boundaryScene"
  let ?p1 = "swipeP1 boundaryScene" and ?dx = "swipeDx boundaryScene"
  let ?dy = "swipeDy boundaryScene" and ?d = "swipeDist boundaryScene"
  have g1: "2 \<le> length (trailRef boundaryScene)" and g2: "\<not> swipeDist boundaryScene < 5"
    and ex: "exactArithmetic boundaryScene"
    by (simp_all add: boundaryScene_sel)
  have lm: "?m \<in> set (entitiesRef boundaryScene)" and lh: "?h \<in> set (entitiesRef boundaryScene)"
    by (simp_all add: boundaryScene_sel)
  have wm: "\<not> e_isSliced ?m" and wh: "\<not> e_isSliced ?h"
    by (simp_all add: entityAt_sel)
  note m = hit_iff_computed_distance_less_radius[OF g1 g2 lm wm, of 800 600 "1 / 60"]
  note h = hit_iff_computed_distance_less_radius[OF g1 g2 lh wh, of 800 600 "1 / 60"]
  have cm: "distToSegment ?fl ?hyp ?p1 ?dx ?dy (swipeL2 boundaryScene) ?m = 35"
    using m ex by (simp add: boundaryScene_sel entityAt_sel trailPoint_sel boundary_distances)
  have ch: "distToSegment ?fl ?hyp ?p1 ?dx ?dy (swipeL2 boundaryScene) ?h = 34"
    using h ex by (simp add: boundaryScene_sel entityAt_sel trailPoint_sel boundary_distances)
  have nohit: "\<not> isFruitHit ?fl ?hyp ?p1 ?dx ?dy ?d ?m"
    using swipe_isHit[OF g2, of ?m] cm by (simp add: isFruitHit_def entityAt_sel)
  have ids: "e_id ?m \<notin> e_id ` set (filter (isFruitHit ?fl ?hyp ?p1 ?dx ?dy ?d)
                                      (entitiesRef boundaryScene))"
    using nohit by (auto simp add: boundaryScene_sel entityAt_sel)
  have miss: "\<not> distToSegment ?fl ?hyp ?p1 ?dx ?dy (swipeL2 boundaryScene) ?m < e_radius ?m
      \<and> e_id ?m \<notin> e_id ` set (filter (isFruitHit ?fl ?hyp ?p1 ?dx ?dy ?d)
                                    (entitiesRef boundaryScene))
      \<longrightarrow> ?m \<in> set (entitiesRef (checkCollisions 800 600 (1 / 60) boundaryScene))"
    using m by blast
  have hit: "distToSegment ?fl ?hyp ?p1 ?dx ?dy (swipeL2 boundaryScene) ?h < e_radius ?h
      \<and> e_type ?h \<noteq> BOMB
      \<longrightarrow> ?h \<notin> set (entitiesRef (checkCollisions 800 600 (1 / 60) boundaryScene))"
    using h by blast
  have stays: "?m \<in> set (entitiesRef (checkCollisions 800 600 (1 / 60) boundaryScene))"
    using miss cm ids by (simp add: entityAt_sel)
  have gone: "?h \<notin> set (entitiesRef (checkCollisions 800 600 (1 / 60) boundaryScene))"
    using hit ch by (simp add: entityAt_sel)
  from g1 g2 lm lh wm wh ex stays gone show ?thesis
    by (simp add: boundary_distances)
qed

text \<open>
  At the boundary the engine decides. On the swipe from (0,0) to (100,0), with every
  other operation exact, the distance computed for the fruit centred at (50,35) is
  what the engine's \<open>Math.hypot\<close> returns for (0, 35): the fruit of radius 35 is hit
  exactly when that result is below 35.
\<close>

lemma boundary_follows_engine:
  "distToSegment (\<lambda>x. x) hyp (trailPoint 0 0 t) 100 0 10000 (entityAt i ty 50 35) = hyp 0 35"
  "isHit (\<lambda>x. x) hyp (trailPoint 0 0 t) 100 0 100 (entityAt i ty 50 35) \<longleftrightarrow> hyp 0 35 < 35"
  by (simp_all add: isHit_def distToSegment_def Let_def trailPoint_sel entityAt_sel)

subsection \<open>The combo after a detector pass\<close>

lemma applyBatch_game_fields:
  "comboQueue (applyBatch r) = comboQueue (game (snd r))"
  "currentCombo (applyBatch r) = currentCombo (game (snd r))"
  "comboTimerRef (applyBatch r) = comboTimerRef (game (snd r))"
  "scoreRef (applyBatch r) = scoreRef (game (snd r))"
  "statsRef (applyBatch r) = statsRef (game (snd r))"
  by (simp_all add: applyBatch_def Let_def)

lemma applyBatch_settled:
  "pendingCombo (applyBatch r) = pendingCombo (game (snd r))"
  "settledScore (applyBatch r) = settledScore (game (snd r))"
  "settledMaxCombo (applyBatch r) = settledMaxCombo (game (snd r))"
  by (simp_all add: pendingCombo_def settledScore_def settledMaxCombo_def
      applyBatch_game_fields)

lemma segmentDistance_along_swipe:
  "0 \<le> x \<Longrightarrow> x \<le> 100 \<Longrightarrow> segmentDistance x 0 0 0 100 0 = 0"
  by (simp add: segmentDistance_def Let_def max_def min_def)

lemma isHit_along_swipe:
  assumes "0 \<le> x" and "x \<le> 100"
  shows "isHit (\<lambda>x. x) hypot (trailPoint 0 0 t) 100 0 100 (entityAt i ty x 0)"
  using isHit_exact[of "trailPoint 100 0 5" "trailPoint 0 0 t" "entityAt i ty x 0"]
    segmentDistance_along_swipe[OF assms]
  by (simp add: trailPoint_sel entityAt_sel hypot_zero_right)

lemma retriedRound_sel:
  "gameState (retriedRound eager) = PLAYING" "scoreRef (retriedRound eager) = 0"
  "currentCombo (retriedRound eager) = 3" "comboTimerRef (retriedRound eager) = 999700"
  "comboQueue (retriedRound eager) = []" "dateNow (retriedRound eager) = (\<lambda>n. 1000000)"
  "dateCalls (retriedRound eager) = 0" "reactEager (retriedRound eager) = eager"
  "score (statsRef (retriedRound eager)) = 0" "maxCombo (statsRef (retriedRound eager)) = 0"
  "applyRounding (roundDouble (retriedRound eager)) = (\<lambda>x. x)"
  "mathHypot (retriedRound eager) = hypot"
  by (simp_all add: retriedRound_def startGame_def oracle_simps playAudio_def finishedScene_def
      sampleGame_def mountedGame_def applyRounding_exact)

lemma retriedRound_pass:
  "checkCollisions 800 600 (1 / 60) (retriedRound eager)
     = applyBatch ([entityAt ''f'' APPLE 50 0],
         fruitLogic (trailPoint 0 0 999990) 100 0 100 (entityAt ''f'' APPLE 50 0)
           (emptyScan (retriedRound eager)))"
proof -
  let ?e = "entityAt ''f'' APPLE 50 0" and ?p1 = "trailPoint 0 0 999990"
  let ?s = "retriedRound eager"
  have scene: "2 \<le> length (trailRef ?s)" "entitiesRef ?s = [?e]"
    "swipeP1 ?s = ?p1" "swipeP2 ?s = trailPoint 100 0 999995"
    by (simp_all add: retriedRound_def swipeP1_def swipeP2_def)
  have seg: "swipeDx ?s = 100" "swipeDy ?s = 0" "swipeDist ?s = 100"
    by (simp_all add: swipeDx_def swipeDy_def swipeDist_def scene retriedRound_sel trailPoint_sel
        hypot_zero_right)
  have long: "\<not> swipeDist ?s < 5"
    by (simp add: seg)
  have hit: "isHit (\<lambda>x. x) hypot ?p1 100 0 100 ?e" "e_type ?e \<noteq> BOMB"
    by (simp_all add: isHit_along_swipe entityAt_sel)
  have "forEachEntity (\<lambda>x. x) hypot ?p1 100 0 100 [?e] (emptyScan ?s)
          = ([?e], fruitLogic ?p1 100 0 100 ?e (emptyScan ?s))"
    by (simp add: split_def Let_def sliceEntity_by_test hit)
  then show ?thesis
    using checkCollisions_scan[OF scene(1) long, of 800 600 "1 / 60"]
    by (simp add: scene retriedRound_sel seg)
qed

text \<open>
  C3 on the code. Two fruits lie under the swipe from (0,0) to (100,0) and are hit in
  one pass, the second 0 ms after the first, on a React that runs no action at the
  call. When the detector returns, \<open>lastHitTime\<close> is the clock reading, but the combo
  counter still holds 0, \<open>maxCombo\<close> holds 0 and the score holds the two times 10
  points without a bonus: the two combo actions are in the queue. Only when React has
  processed the queue is the combo 2, \<open>maxCombo\<close> 2 and the score 30. And the first
  hit of a retried round, 300 ms after the last hit of the round before, does not
  reset the counter to 1: it continues the old combo of 3 to 4, with a bonus of 20.
\<close>

theorem combo_not_written_at_return:
  "comboTimerRef (checkCollisions 800 600 (1 / 60) twoFruitScene) = 1000000
   \<and> currentCombo (checkCollisions 800 600 (1 / 60) twoFruitScene) = 0
   \<and> maxCombo (statsRef (checkCollisions 800 600 (1 / 60) twoFruitScene)) = 0
   \<and> scoreRef (checkCollisions 800 600 (1 / 60) twoFruitScene) = 20
   \<and> comboQueue (checkCollisions 800 600 (1 / 60) twoFruitScene)
       = [SetCombo 1, ComboUpdater (entityAt ''g'' PEAR 70 0)]
   \<and> currentCombo (processComboQueue (checkCollisions 800 600 (1 / 60) twoFruitScene)) = 2
   \<and> maxCombo (statsRef (processComboQueue (checkCollisions 800 600 (1 / 60) twoFruitScene))) = 2
   \<and> scoreRef (processComboQueue (checkCollisions 800 600 (1 / 60) twoFruitScene)) = 30
   \<and> gameState (retriedRound (\<lambda>n. False)) = PLAYING
   \<and> scoreRef (retriedRound (\<lambda>n. False)) = 0
   \<and> currentCombo (processComboQueue
        (checkCollisions 800 600 (1 / 60) (retriedRound (\<lambda>n. False)))) = 4
   \<and> scoreRef (processComboQueue
        (checkCollisions 800 600 (1 / 60) (retriedRound (\<lambda>n. False)))) = 30"
proof -
  let ?f = "entityAt ''f'' APPLE 30 0" and ?g = "entityAt ''g'' PEAR 70 0"
  let ?p1 = "trailPoint 0 0 999990"
  let ?a0 = "emptyScan twoFruitScene"
  let ?a1 = "fruitLogic ?p1 100 0 100 ?f ?a0"
  let ?a2 = "fruitLogic ?p1 100 0 100 ?g ?a1"
  have scene: "2 \<le> length (trailRef twoFruitScene)" "\<not> swipeDist twoFruitScene < 5"
    "entitiesRef twoFruitScene = [?f, ?g]" "swipeP1 twoFruitScene = ?p1"
    "swipeDx twoFruitScene = 100" "swipeDy twoFruitScene = 0" "swipeDist twoFruitScene = 100"
    "applyRounding (roundDouble twoFruitScene) = (\<lambda>x. x)" "mathHypot twoFruitScene = hypot"
    by (simp_all add: twoFruitScene_def swipeScene_segment swipeScene_sel swipeScene_arith)
  have start: "scoreRef twoFruitScene = 0" "currentCombo twoFruitScene = 0"
    "comboTimerRef twoFruitScene = 0" "dateNow twoFruitScene = (\<lambda>n. 1000000)"
    "comboQueue twoFruitScene = []" "reactEager twoFruitScene = (\<lambda>n. False)"
    "maxCombo (statsRef twoFruitScene) = 0"
    by (simp_all add: twoFruitScene_def swipeScene_sel)
  have hits: "isHit (\<lambda>x. x) hypot ?p1 100 0 100 ?f" "isHit (\<lambda>x. x) hypot ?p1 100 0 100 ?g"
    by (simp_all add: isHit_along_swipe)
  have fruits: "e_type ?f \<noteq> BOMB" "e_type ?g \<noteq> BOMB"
    by (simp_all add: entityAt_sel)
  have pass: "checkCollisions 800 600 (1 / 60) twoFruitScene
      = applyBatch (forEachEntity (\<lambda>x. x) hypot ?p1 100 0 100 [?f, ?g] ?a0)"
    using checkCollisions_scan[OF scene(1,2), of 800 600 "1 / 60"] by (simp add: scene)
  have scan: "snd (forEachEntity (\<lambda>x. x) hypot ?p1 100 0 100 [?f, ?g] ?a0) = ?a2"
    by (simp add: split_def Let_def sliceEntity_by_test hits fruits)
  have lazy1: "\<not> reactEager (game ?a0) (dispatchCalls (game ?a0))"
    by (simp add: emptyScan_sel start)
  have one: "comboQueue (game ?a1) = [SetCombo 1]" "scoreRef (game ?a1) = 10"
    "comboTimerRef (game ?a1) = 1000000" "currentCombo (game ?a1) = 0"
    "dateNow (game ?a1) = (\<lambda>n. 1000000)" "maxCombo (statsRef (game ?a1)) = 0"
    "reactEager (game ?a1) = (\<lambda>n. False)"
    by (simp_all add: fruitLogic_deferred[OF lazy1] fruitLogic_fields emptyScan_sel start
        comboAction_def)
  have lazy2: "\<not> reactEager (game ?a1) (dispatchCalls (game ?a1))"
    by (simp add: one)
  have two: "comboQueue (game ?a2) = [SetCombo 1, ComboUpdater ?g]" "scoreRef (game ?a2) = 20"
    "comboTimerRef (game ?a2) = 1000000" "currentCombo (game ?a2) = 0"
    "maxCombo (statsRef (game ?a2)) = 0"
    by (simp_all add: fruitLogic_deferred[OF lazy2] fruitLogic_fields one comboAction_def
        emptyScan_sel start)
  have after: "comboTimerRef (checkCollisions 800 600 (1 / 60) twoFruitScene) = 1000000"
    "currentCombo (checkCollisions 800 600 (1 / 60) twoFruitScene) = 0"
    "maxCombo (statsRef (checkCollisions 800 600 (1 / 60) twoFruitScene)) = 0"
    "scoreRef (checkCollisions 800 600 (1 / 60) twoFruitScene) = 20"
    "comboQueue (checkCollisions 800 600 (1 / 60) twoFruitScene) = [SetCombo 1, ComboUpdater ?g]"
    unfolding pass applyBatch_game_fields scan by (simp_all add: two)
  have settled:
    "currentCombo (processComboQueue (checkCollisions 800 600 (1 / 60) twoFruitScene)) = 2"
    "maxCombo (statsRef (processComboQueue (checkCollisions 800 600 (1 / 60) twoFruitScene))) = 2"
    "scoreRef (processComboQueue (checkCollisions 800 600 (1 / 60) twoFruitScene)) = 30"
    by (simp_all add: processComboQueue_fields pendingCombo_def settledScore_def
        settledMaxCombo_def after)
  have rsettled:
    "currentCombo (processComboQueue
        (checkCollisions 800 600 (1 / 60) (retriedRound (\<lambda>n. False)))) = 4"
    "scoreRef (processComboQueue
        (checkCollisions 800 600 (1 / 60) (retriedRound (\<lambda>n. False)))) = 30"
    unfolding processComboQueue_fields retriedRound_pass applyBatch_settled
    by (simp_all add: fruitLogic_fields emptyScan_sel retriedRound_sel settled_empty_queue
        comboAfter_def comboBonus_def)
  from after settled retriedRound_sel(1,2)[of "\<lambda>n. False"] rsettled show ?thesis
    by simp
qed

text \<open>
  The same first hit of the retried round on a React that runs the action at the call:
  the updater has run when the detector returns, so the bonus of 20 is on the score
  and \<open>maxCombo\<close> is 4, while the counter cell still holds 3 and the computed value 4
  waits in the queue. Processed, the state holds the same counter and score as on
  the React that ran the action later.
\<close>

lemma setCurrentCombo_eager:
  assumes "reactEager s (dispatchCalls s)" and "comboQueue s = []"
  shows "scoreRef (setCurrentCombo act s) = scoreRef s + queueBonus [act] (currentCombo s)"
    and "maxCombo (statsRef (setCurrentCombo act s))
           = queueMaxCombo [act] (currentCombo s) (maxCombo (statsRef s))"
    and "comboQueue (setCurrentCombo act s)
           = (if queueCombo [act] (currentCombo s) = currentCombo s then []
              else [SetCombo (queueCombo [act] (currentCombo s))])"
  using assms
  by (simp_all add: setCurrentCombo_def Let_def split_def basicStateReducer_fields)

lemma updater_runs_at_call:
  "scoreRef (checkCollisions 800 600 (1 / 60) (retriedRound (\<lambda>n. True))) = 30
   \<and> maxCombo (statsRef (checkCollisions 800 600 (1 / 60) (retriedRound (\<lambda>n. True)))) = 4
   \<and> currentCombo (checkCollisions 800 600 (1 / 60) (retriedRound (\<lambda>n. True))) = 3
   \<and> comboQueue (checkCollisions 800 600 (1 / 60) (retriedRound (\<lambda>n. True))) = [SetCombo 4]
   \<and> currentCombo (processComboQueue
        (checkCollisions 800 600 (1 / 60) (retriedRound (\<lambda>n. True)))) = 4
   \<and> scoreRef (processComboQueue
        (checkCollisions 800 600 (1 / 60) (retriedRound (\<lambda>n. True)))) = 30"
proof -
  let ?s = "retriedRound (\<lambda>n. True)"
  let ?e = "entityAt ''f'' APPLE 50 0"
  let ?b = "fruitLogic (trailPoint 0 0 999990) 100 0 100 ?e (emptyScan ?s)"
  have raw: "scoreRef (game ?b) = 30" "maxCombo (statsRef (game ?b)) = 4"
    "currentCombo (game ?b) = 3" "comboQueue (game ?b) = [SetCombo 4]"
    unfolding fruitLogic_game comboSystem_action
    by (simp_all add: setCurrentCombo_eager setCurrentCombo_keeps spawnFloatingText_keeps
        createExplosion_keeps playAudio_keeps emptyScan_sel retriedRound_sel comboAction_def)
  have after: "scoreRef (checkCollisions 800 600 (1 / 60) ?s) = 30"
    "maxCombo (statsRef (checkCollisions 800 600 (1 / 60) ?s)) = 4"
    "currentCombo (checkCollisions 800 600 (1 / 60) ?s) = 3"
    "comboQueue (checkCollisions 800 600 (1 / 60) ?s) = [SetCombo 4]"
    unfolding retriedRound_pass applyBatch_game_fields by (simp_all add: raw)
  have settled: "currentCombo (processComboQueue (checkCollisions 800 600 (1 / 60) ?s)) = 4"
    "scoreRef (processComboQueue (checkCollisions 800 600 (1 / 60) ?s)) = 30"
    by (simp_all add: processComboQueue_fields pendingCombo_def settledScore_def after)
  from after settled show ?thesis
    by simp
qed

subsection \<open>What one step of the simulation changes\<close>

lemma endGame_fields:
  "gameState (endGame s) = GAMEOVER"
  "finalStats (endGame s) = Some (statsRef s)"
  "livesRef (endGame s) = livesRef s"
  "shakeIntensityRef (endGame s) = shakeIntensityRef s"
  "scoreRef (endGame s) = scoreRef s"
  "spawnTimerRef (endGame s) = spawnTimerRef s"
  "entitiesRef (endGame s) = entitiesRef s"
  "particlesRef (endGame s) = particlesRef s"
  "floatingTextsRef (endGame s) = floatingTextsRef s"
  "currentCombo (endGame s) = currentCombo s"
  "comboTimerRef (endGame s) = comboTimerRef s"
  by (simp_all add: endGame_def oracle_simps)

lemma checkGameOver_fields:
  "gameState (checkGameOver s)
     = (if livesRef s \<le> 0 \<and> gameState s = PLAYING \<and> shakeIntensityRef s < 1
        then GAMEOVER else gameState s)"
  "shakeIntensityRef (checkGameOver s) = shakeIntensityRef s"
  "particlesRef (checkGameOver s) = particlesRef s"
  "entitiesRef (checkGameOver s) = entitiesRef s"
  "scoreRef (checkGameOver s) = scoreRef s"
  "spawnTimerRef (checkGameOver s) = spawnTimerRef s"
  by (simp_all add: checkGameOver_def endGame_fields)

lemma decayShake_fields:
  "shakeIntensityRef (decayShake dt s)
     = (if shakeIntensityRef s > 0 then
          (if shakeIntensityRef s * ((9 / 10) powr (dt * 60)) < 1 / 2 then 0
           else shakeIntensityRef s * ((9 / 10) powr (dt * 60)))
        else shakeIntensityRef s)"
  "gameState (decayShake dt s) = gameState s"
  "particlesRef (decayShake dt s) = particlesRef s"
  "entitiesRef (decayShake dt s) = entitiesRef s"
  "scoreRef (decayShake dt s) = scoreRef s"
  "spawnTimerRef (decayShake dt s) = spawnTimerRef s"
  by (simp_all add: decayShake_def Let_def)

lemma spawnEntity_frame:
  "spawnEntity width height difficulty s =
     s\<lparr>entitiesRef := entitiesRef (spawnEntity width height difficulty s),
       randomCalls := randomCalls (spawnEntity width height difficulty s)\<rparr>"
  by (simp add: spawnEntity_def oracle_simps)

lemma spawnEntity_keeps:
  "gameState (spawnEntity width height difficulty s) = gameState s"
  "particlesRef (spawnEntity width height difficulty s) = particlesRef s"
  "floatingTextsRef (spawnEntity width height difficulty s) = floatingTextsRef s"
  "shakeIntensityRef (spawnEntity width height difficulty s) = shakeIntensityRef s"
  "livesRef (spawnEntity width height difficulty s) = livesRef s"
  "currentCombo (spawnEntity width height difficulty s) = currentCombo s"
  "comboTimerRef (spawnEntity width height difficulty s) = comboTimerRef s"
  "dateNow (spawnEntity width height difficulty s) = dateNow s"
  "dateCalls (spawnEntity width height difficulty s) = dateCalls s"
  by (subst spawnEntity_frame, simp)+

lemma spawnEntity_appends:
  "\<exists>e. entitiesRef (spawnEntity width height difficulty s) = entitiesRef s @ [e]
       \<and> e_y e = height + 50 \<and> e_opacity e = 1 \<and> \<not> e_isSliced e \<and> e_scale e = 1"
  by (simp add: spawnEntity_def oracle_simps)

lemma spawnTick_keeps:
  "gameState (spawnTick dt width height difficulty s) = gameState s"
  "particlesRef (spawnTick dt width height difficulty s) = particlesRef s"
  "shakeIntensityRef (spawnTick dt width height difficulty s) = shakeIntensityRef s"
  by (simp_all add: spawnTick_def Let_def spawnEntity_keeps)

lemma updateEntities_keeps:
  "gameState (updateEntities difficulty timeScale height s) = gameState s"
  "particlesRef (updateEntities difficulty timeScale height s) = particlesRef s"
  "shakeIntensityRef (updateEntities difficulty timeScale height s) = shakeIntensityRef s"
  by (simp_all add: updateEntities_def)

lemma stepParticle_frame:
  "snd (stepParticle timeScale p s) = s\<lparr>dateCalls := dateCalls (snd (stepParticle timeScale p s))\<rparr>"
  by (simp add: stepParticle_def oracle_simps)

lemma stepParticle_life:
  "p_life (fst (stepParticle timeScale p s)) = p_life p - p_decay p * timeScale"
  "p_decay (fst (stepParticle timeScale p s)) = p_decay p"
  "p_id (fst (stepParticle timeScale p s)) = p_id p"
  "p_type (fst (stepParticle timeScale p s)) = p_type p"
  "p_stuck (fst (stepParticle timeScale p s)) = p_stuck p"
  by (simp_all add: stepParticle_def oracle_simps)

lemma forEachParticle_frame:
  "snd (forEachParticle timeScale ps s)
     = s\<lparr>dateCalls := dateCalls (snd (forEachParticle timeScale ps s))\<rparr>"
proof (induction ps arbitrary: s)
  case Nil
  show ?case by simp
next
  case (Cons p ps)
  let ?s1 = "snd (stepParticle timeScale p s)"
  have "snd (forEachParticle timeScale ps ?s1)
          = ?s1\<lparr>dateCalls := dateCalls (snd (forEachParticle timeScale ps ?s1))\<rparr>"
    by (rule Cons.IH)
  also have "\<dots> = s\<lparr>dateCalls := dateCalls (snd (forEachParticle timeScale ps ?s1))\<rparr>"
    by (subst stepParticle_frame) simp
  finally show ?case by (simp add: split_def Let_def)
qed

lemma forEachParticle_keeps:
  "gameState (snd (forEachParticle timeScale ps s)) = gameState s"
  "shakeIntensityRef (snd (forEachParticle timeScale ps s)) = shakeIntensityRef s"
  "floatingTextsRef (snd (forEachParticle timeScale ps s)) = floatingTextsRef s"
  "entitiesRef (snd (forEachParticle timeScale ps s)) = entitiesRef s"
  "trailRef (snd (forEachParticle timeScale ps s)) = trailRef s"
  "dateNow (snd (forEachParticle timeScale ps s)) = dateNow s"
  by (subst forEachParticle_frame, simp)+

lemma forEachParticle_stepped:
  "length (fst (forEachParticle timeScale ps s)) = length ps"
  "map p_life (fst (forEachParticle timeScale ps s))
     = map (\<lambda>p. p_life p - p_decay p * timeScale) ps"
  "map p_decay (fst (forEachParticle timeScale ps s)) = map p_decay ps"
  "map p_id (fst (forEachParticle timeScale ps s)) = map p_id ps"
  by (induction ps arbitrary: s) (simp_all add: split_def Let_def stepParticle_life)

lemma updateParticles_fields:
  "particlesRef (updateParticles timeScale s)
     = filter (\<lambda>p. p_life p > 0) (fst (forEachParticle timeScale (particlesRef s) s))"
  "gameState (updateParticles timeScale s) = gameState s"
  "shakeIntensityRef (updateParticles timeScale s) = shakeIntensityRef s"
  "entitiesRef (updateParticles timeScale s) = entitiesRef s"
  by (simp_all add: updateParticles_def split_def Let_def forEachParticle_keeps)

lemma updateFloatingTexts_keeps:
  "gameState (updateFloatingTexts timeScale s) = gameState s"
  "particlesRef (updateFloatingTexts timeScale s) = particlesRef s"
  "shakeIntensityRef (updateFloatingTexts timeScale s) = shakeIntensityRef s"
  "entitiesRef (updateFloatingTexts timeScale s) = entitiesRef s"
  by (simp_all add: updateFloatingTexts_def)

lemma pruneTrail_keeps:
  "gameState (pruneTrail s) = gameState s"
  "particlesRef (pruneTrail s) = particlesRef s"
  "shakeIntensityRef (pruneTrail s) = shakeIntensityRef s"
  "entitiesRef (pruneTrail s) = entitiesRef s"
  by (simp_all add: pruneTrail_def oracle_simps)

lemmas update_stage_simps =
  checkGameOver_fields decayShake_fields spawnTick_keeps updateEntities_keeps
  updateParticles_fields updateFloatingTexts_keeps pruneTrail_keeps

lemma update_gameState:
  "gameState (update dt width height s)
     = (if livesRef s \<le> 0 \<and> gameState s = PLAYING \<and> shakeIntensityRef s < 1
        then GAMEOVER else gameState s)"
  unfolding update_def Let_def by (simp only: update_stage_simps)

lemma update_shake:
  "shakeIntensityRef (update dt width height s)
     = (if shakeIntensityRef s > 0 then
          (if shakeIntensityRef s * ((9 / 10) powr (dt * 60)) < 1 / 2 then 0
           else shakeIntensityRef s * ((9 / 10) powr (dt * 60)))
        else shakeIntensityRef s)"
  unfolding update_def Let_def by (simp only: update_stage_simps)

lemma update_particles:
  "\<exists>g. particlesRef (update dt width height s)
        = filter (\<lambda>p. p_life p > 0) (fst (forEachParticle (dt * 60) (particlesRef s) g))"
  unfolding update_def Let_def by (simp only: update_stage_simps) blast

subsection \<open>The end of a round\<close>

lemma bombedScene_sel:
  "gameState (bombedScene k) = PLAYING" "livesRef (bombedScene k) = 0"
  "shakeIntensityRef (bombedScene k) = k"
  by (simp_all add: bombedScene_def)

text \<open>
  C6 as stated fails. The shake is snapped to 0 below 1/2, but the transition is
  gated by \<open>shake < 1\<close>: with no lives left and a shake of 7/10, which is at or above
  the snap threshold 1/2 (the step leaves it at 63/100, not snapped), \<open>update\<close> ends
  the round.
\<close>

theorem gameover_gate_counterexample:
  "gameState (bombedScene (7 / 10)) = PLAYING
   \<and> livesRef (bombedScene (7 / 10)) = 0
   \<and> 1 / 2 \<le> shakeIntensityRef (bombedScene (7 / 10))
   \<and> gameState (update (1 / 60) 800 600 (bombedScene (7 / 10))) = GAMEOVER
   \<and> shakeIntensityRef (update (1 / 60) 800 600 (bombedScene (7 / 10))) = 63 / 100"
  by (simp add: update_gameState update_shake bombedScene_sel)

text \<open>
  C6, amended. In \<open>PLAYING\<close>, one step of \<open>update\<close> moves the session to \<open>GAMEOVER\<close>
  exactly when lives are 0 or less and the screen shake is below 1; otherwise, so
  while the shake is 1 or more, the session stays in \<open>PLAYING\<close>. The gate 1 is not
  the threshold 1/2 below which the same step snaps the decayed shake to 0.
\<close>

theorem gameover_gate:
  assumes "gameState s = PLAYING"
  shows "(gameState (update dt width height s) = GAMEOVER
            \<longleftrightarrow> livesRef s \<le> 0 \<and> shakeIntensityRef s < 1)
    \<and> (\<not> (livesRef s \<le> 0 \<and> shakeIntensityRef s < 1)
          \<longrightarrow> gameState (update dt width height s) = PLAYING)
    \<and> (1 \<le> shakeIntensityRef s \<longrightarrow> gameState (update dt width height s) = PLAYING)
    \<and> shakeIntensityRef (update dt width height s)
         = (if shakeIntensityRef s > 0 then
              (if shakeIntensityRef s * ((9 / 10) powr (dt * 60)) < 1 / 2 then 0
               else shakeIntensityRef s * ((9 / 10) powr (dt * 60)))
            else shakeIntensityRef s)"
  using assms by (simp add: update_gameState update_shake)

text \<open>After a bomb: with shake 2 the round goes on, with shake 7/10 it ends.\<close>

theorem gameover_gate_witness:
  "gameState (bombedScene 2) = PLAYING
   \<and> gameState (update (1 / 60) 800 600 (bombedScene 2)) = PLAYING
   \<and> gameState (bombedScene (7 / 10)) = PLAYING
   \<and> gameState (update (1 / 60) 800 600 (bombedScene (7 / 10))) = GAMEOVER"
  using gameover_gate[of "bombedScene 2" "1 / 60" 800 600]
        gameover_gate[of "bombedScene (7 / 10)" "1 / 60" 800 600]
  by (simp add: bombedScene_sel)

subsection \<open>The life of a particle\<close>

lemma particleScene_sel: "particlesRef (particleScene ps) = ps"
  by (simp add: particleScene_def)

lemma sparkParticle_sel:
  "p_life (sparkParticle l k) = l" "p_decay (sparkParticle l k) = k"
  "p_stuck (sparkParticle l k) = False"
  by (simp_all add: sparkParticle_def)

lemma update_particles_stepped:
  "\<exists>stepped. particlesRef (update dt width height s) = filter (\<lambda>p. 0 < p_life p) stepped
      \<and> length stepped = length (particlesRef s)
      \<and> (\<forall>i<length stepped.
            p_id (stepped ! i) = p_id (particlesRef s ! i)
          \<and> p_decay (stepped ! i) = p_decay (particlesRef s ! i)
          \<and> p_life (stepped ! i)
              = p_life (particlesRef s ! i) - p_decay (particlesRef s ! i) * (dt * 60))"
proof -
  obtain g where g: "particlesRef (update dt width height s)
        = filter (\<lambda>p. p_life p > 0) (fst (forEachParticle (dt * 60) (particlesRef s) g))"
    using update_particles by blast
  let ?st = "fst (forEachParticle (dt * 60) (particlesRef s) g)"
  have len: "length ?st = length (particlesRef s)"
    by (rule forEachParticle_stepped)
  have "\<forall>i<length ?st.
            p_id (?st ! i) = p_id (particlesRef s ! i)
          \<and> p_decay (?st ! i) = p_decay (particlesRef s ! i)
          \<and> p_life (?st ! i)
              = p_life (particlesRef s ! i) - p_decay (particlesRef s ! i) * (dt * 60)"
  proof (intro allI impI)
    fix i assume i: "i < length ?st"
    then have i': "i < length (particlesRef s)" using len by simp
    have "p_id (?st ! i) = map p_id ?st ! i" "p_decay (?st ! i) = map p_decay ?st ! i"
      "p_life (?st ! i) = map p_life ?st ! i"
      using i by simp_all
    then show "p_id (?st ! i) = p_id (particlesRef s ! i)
          \<and> p_decay (?st ! i) = p_decay (particlesRef s ! i)
          \<and> p_life (?st ! i)
              = p_life (particlesRef s ! i) - p_decay (particlesRef s ! i) * (dt * 60)"
      using i' by (simp add: forEachParticle_stepped)
  qed
  with g len show ?thesis by blast
qed

text \<open>
  C8 as stated fails. A tick with no elapsed time (\<open>dt = 0\<close>, two frames at one reading
  of the clock) leaves the life of a surviving particle as it was: a spark with life
  1 and decay 2/100 still has life 1 after the step.
\<close>

theorem particle_life_counterexample:
  "map p_life (particlesRef (particleScene [sparkParticle 1 (2 / 100)])) = [1]
   \<and> map p_life (particlesRef (update 0 800 600 (particleScene [sparkParticle 1 (2 / 100)]))) = [1]"
proof -
  let ?s = "particleScene [sparkParticle 1 (2 / 100)]"
  obtain g where g: "particlesRef (update 0 800 600 ?s)
        = filter (\<lambda>p. p_life p > 0) (fst (forEachParticle (0 * 60) (particlesRef ?s) g))"
    using update_particles[of 0 800 600 ?s] by blast
  have "map p_life (particlesRef (update 0 800 600 ?s)) = [1]"
    unfolding g by (simp add: particleScene_sel split_def Let_def stepParticle_life sparkParticle_sel)
  then show ?thesis
    by (simp add: particleScene_sel sparkParticle_sel)
qed

text \<open>
  C8, amended. After \<open>update\<close> every particle in the collection has life above 0. The
  collection is the particles of the state before, each with the same id and decay and
  with life lowered by decay \<times> dt \<times> 60, without those whose life is then 0 or less.
  So the life of a particle with positive decay (every particle \<open>createExplosion\<close>
  makes) strictly decreases on a tick with \<open>dt > 0\<close>, and is unchanged when \<open>dt = 0\<close>.
\<close>

theorem particle_life_decay:
  "(\<forall>p\<in>set (particlesRef (update dt width height s)). 0 < p_life p)
   \<and> (\<exists>stepped. particlesRef (update dt width height s) = filter (\<lambda>p. 0 < p_life p) stepped
        \<and> length stepped = length (particlesRef s)
        \<and> (\<forall>i<length stepped.
              p_id (stepped ! i) = p_id (particlesRef s ! i)
            \<and> p_decay (stepped ! i) = p_decay (particlesRef s ! i)
            \<and> p_life (stepped ! i)
                = p_life (particlesRef s ! i) - p_decay (particlesRef s ! i) * (dt * 60)
            \<and> (0 < dt \<and> 0 < p_decay (particlesRef s ! i)
                  \<longrightarrow> p_life (stepped ! i) < p_life (particlesRef s ! i))
            \<and> (dt = 0 \<longrightarrow> p_life (stepped ! i) = p_life (particlesRef s ! i))))"
proof -
  obtain stepped where st:
      "particlesRef (update dt width height s) = filter (\<lambda>p. 0 < p_life p) stepped"
      "length stepped = length (particlesRef s)"
      "\<forall>i<length stepped.
            p_id (stepped ! i) = p_id (particlesRef s ! i)
          \<and> p_decay (stepped ! i) = p_decay (particlesRef s ! i)
          \<and> p_life (stepped ! i)
              = p_life (particlesRef s ! i) - p_decay (particlesRef s ! i) * (dt * 60)"
    using update_particles_stepped[of dt width height s] by blast
  have alive: "\<forall>p\<in>set (particlesRef (update dt width height s)). 0 < p_life p"
    unfolding st(1) by simp
  have "\<forall>i<length stepped.
              p_id (stepped ! i) = p_id (particlesRef s ! i)
            \<and> p_decay (stepped ! i) = p_decay (particlesRef s ! i)
            \<and> p_life (stepped ! i)
                = p_life (particlesRef s ! i) - p_decay (particlesRef s ! i) * (dt * 60)
            \<and> (0 < dt \<and> 0 < p_decay (particlesRef s ! i)
                  \<longrightarrow> p_life (stepped ! i) < p_life (particlesRef s ! i))
            \<and> (dt = 0 \<longrightarrow> p_life (stepped ! i) = p_life (particlesRef s ! i))"
    using st(3) by simp
  with alive st(1,2) show ?thesis by blast
qed

text \<open>
  A tick of 1/60 s on two sparks: the one with life 1 and decay 2/100 survives with
  life 98/100, the one with life 1/100 and decay 5/100 is removed.
\<close>

theorem particle_life_decay_witness:
  "map p_life (particlesRef (update (1 / 60) 800 600
      (particleScene [sparkParticle 1 (2 / 100), sparkParticle (1 / 100) (5 / 100)])))
   = [98 / 100]"
proof -
  let ?s = "particleScene [sparkParticle 1 (2 / 100), sparkParticle (1 / 100) (5 / 100)]"
  obtain stepped where st:
      "particlesRef (update (1 / 60) 800 600 ?s) = filter (\<lambda>p. 0 < p_life p) stepped"
      "length stepped = length (particlesRef ?s)"
      "\<forall>i<length stepped.
            p_life (stepped ! i)
              = p_life (particlesRef ?s ! i) - p_decay (particlesRef ?s ! i) * (1 / 60 * 60)"
    using particle_life_decay[of "1 / 60" 800 600 ?s] by blast
  from st(2) obtain a b where ab: "stepped = [a, b]"
    by (auto simp add: particleScene_sel length_Suc_conv)
  have "p_life (stepped ! 0) = 98 / 100" "p_life (stepped ! 1) = - (4 / 100)"
    using st(3)[rule_format, of 0] st(3)[rule_format, of 1] st(2)
    by (simp_all add: particleScene_sel sparkParticle_sel)
  then have "p_life a = 98 / 100" "p_life b = - (4 / 100)"
    unfolding ab by simp_all
  then show ?thesis
    unfolding st(1) ab by simp
qed

subsection \<open>Every particle is created with a positive decay\<close>

lemma explosionParticle_decay:
  assumes "\<forall>n. 0 \<le> mathRandom s n"
  shows "\<exists>p. particlesRef (explosionParticle x y c b d f s) = particlesRef s @ [p]
             \<and> 0 < p_decay p"
proof -
  let ?p = "last (particlesRef (explosionParticle x y c b d f s))"
  have 1: "particlesRef (explosionParticle x y c b d f s) = particlesRef s @ [?p]"
    by (simp add: explosionParticle_def oracle_simps)
  have "0 < 2 / 100 + mathRandom s n * (3 / 100)" for n
    using assms[rule_format, of n] by (simp add: add_pos_nonneg)
  then have 2: "0 < p_decay ?p"
    by (simp add: explosionParticle_def oracle_simps)
  from 1 2 show ?thesis by blast
qed

lemma explosionLoop_decay:
  assumes "\<forall>n. 0 \<le> mathRandom s n"
  shows "\<exists>ps. particlesRef (explosionLoop k x y c b d f s) = particlesRef s @ ps
              \<and> (\<forall>p\<in>set ps. 0 < p_decay p)"
  using assms
proof (induction k arbitrary: s)
  case 0
  show ?case by simp
next
  case (Suc k)
  let ?s' = "explosionParticle x y c b d f s"
  obtain p where p: "particlesRef ?s' = particlesRef s @ [p]" "0 < p_decay p"
    using explosionParticle_decay[OF Suc.prems] by blast
  have "\<forall>n. 0 \<le> mathRandom ?s' n"
    using Suc.prems by (simp add: explosionParticle_mathRandom)
  then obtain ps where ps:
      "particlesRef (explosionLoop k x y c b d f ?s') = particlesRef ?s' @ ps"
      "\<forall>q\<in>set ps. 0 < p_decay q"
    using Suc.IH[of ?s'] by blast
  have "particlesRef (explosionLoop (Suc k) x y c b d f s) = particlesRef s @ (p # ps)"
    using p(1) ps(1) by simp
  moreover have "\<forall>q\<in>set (p # ps). 0 < p_decay q"
    using p(2) ps(2) by simp
  ultimately show ?case by blast
qed

lemma createExplosion_decay:
  assumes "\<forall>n. 0 \<le> mathRandom s n"
  shows "\<exists>ps. particlesRef (createExplosion x y c b d f s) = particlesRef s @ ps
              \<and> (\<forall>p\<in>set ps. 0 < p_decay p)"
proof -
  let ?k = "if b then 50 else 25 :: nat"
  obtain ps where ps: "particlesRef (explosionLoop ?k x y c b d f s) = particlesRef s @ ps"
      "\<forall>q\<in>set ps. 0 < p_decay q"
    using explosionLoop_decay[OF assms] by blast
  let ?core = "last (particlesRef (createExplosion x y c b d f s))"
  have "particlesRef (createExplosion x y c b d f s) = particlesRef s @ (ps @ [?core])"
    using ps(1) by (simp add: createExplosion_def oracle_simps)
  moreover have "p_decay ?core = 15 / 100"
    by (simp add: createExplosion_def oracle_simps)
  ultimately show ?thesis
    using ps(2) by (intro exI[of _ "ps @ [?core]"]) auto
qed

subsection \<open>Starting a session\<close>

lemma startGame_resets:
  "gameState (startGame s) = PLAYING"
  "entitiesRef (startGame s) = []" "particlesRef (startGame s) = []"
  "floatingTextsRef (startGame s) = []" "trailRef (startGame s) = []"
  "statsRef (startGame s) = \<lparr>score = 0, highScore = 0, combos = 0, fruitsSliced = 0,
                               bombsHit = 0, accuracy = 0, maxCombo = 0\<rparr>"
  "scoreRef (startGame s) = 0" "livesRef (startGame s) = 1"
  "shakeIntensityRef (startGame s) = 0" "lastHandPosRef (startGame s) = None"
  "finalStats (startGame s) = None" "gameOverQuote (startGame s) = []"
  by (simp_all add: startGame_def oracle_simps playAudio_def)

lemma startGame_keeps:
  "currentCombo (startGame s) = currentCombo s"
  "comboTimerRef (startGame s) = comboTimerRef s"
  "spawnTimerRef (startGame s) = spawnTimerRef s"
  by (simp_all add: startGame_def oracle_simps playAudio_def)

text \<open>
  C4 on the code. \<open>startGame\<close> empties the four collections and zeroes the statistics,
  the score and the shake, but it assigns neither the combo counter nor the combo
  timer. The first start after mounting finds both at their initial value 0; a retry
  after a round that ended on a combo of 3 starts the new round with the counter
  still 3 and the timer still at the last hit.
\<close>

theorem startGame_keeps_combo:
  "currentCombo (startGame sampleGame) = 0
   \<and> comboTimerRef (startGame sampleGame) = 0
   \<and> gameState finishedScene = GAMEOVER
   \<and> gameState (startGame finishedScene) = PLAYING
   \<and> entitiesRef (startGame finishedScene) = []
   \<and> particlesRef (startGame finishedScene) = []
   \<and> floatingTextsRef (startGame finishedScene) = []
   \<and> trailRef (startGame finishedScene) = []
   \<and> score (statsRef (startGame finishedScene)) = 0
   \<and> maxCombo (statsRef (startGame finishedScene)) = 0
   \<and> shakeIntensityRef (startGame finishedScene) = 0
   \<and> currentCombo (startGame finishedScene) = 3
   \<and> comboTimerRef (startGame finishedScene) = 999000"
  by (simp add: startGame_resets startGame_keeps)
     (simp add: finishedScene_def sampleGame_def mountedGame_def)

subsection \<open>Frames outside a round\<close>

lemma update_entities:
  "entitiesRef (update dt width height s)
     = filter (\<lambda>e. e_opacity e > 0 \<and> e_y e < height + 300)
         (map (stepEntity (if scoreRef s > 250 then HARD_DIFFICULTY else INITIAL_DIFFICULTY)
                 (dt * 60))
            (entitiesRef
               (spawnTick dt width height
                  (if scoreRef s > 250 then HARD_DIFFICULTY else INITIAL_DIFFICULTY)
                  (decayShake dt (checkGameOver s)))))"
  unfolding update_def Let_def
  by (simp only: update_stage_simps) (simp add: updateEntities_def)

lemma detectHand_NoHand_keeps:
  "gameState (detectHand w h NoHand s) = gameState s"
  "particlesRef (detectHand w h NoHand s) = particlesRef s"
  "floatingTextsRef (detectHand w h NoHand s) = floatingTextsRef s"
  "entitiesRef (detectHand w h NoHand s) = entitiesRef s"
  "scoreRef (detectHand w h NoHand s) = scoreRef s"
  "livesRef (detectHand w h NoHand s) = livesRef s"
  "shakeIntensityRef (detectHand w h NoHand s) = shakeIntensityRef s"
  "spawnTimerRef (detectHand w h NoHand s) = spawnTimerRef s"
  "mathRandom (detectHand w h NoHand s) = mathRandom s"
  by (simp_all add: detectHand_def oracle_simps)

text \<open>Outside a round a frame tracks the hand and, while an effect is left, steps.\<close>

lemma renderFrame_idle:
  assumes "gameState s = MENU \<or> gameState s = GAMEOVER"
  shows "renderFrame (Some (w, h)) input s =
     (let now = performanceNow s (performanceCalls s);
          dt = min ((now - lastTimeRef s) / 1000) (1 / 10);
          s3 = detectHand w h input
                 (s\<lparr>performanceCalls := Suc (performanceCalls s), lastTimeRef := now\<rparr>)
      in if particlesRef s3 \<noteq> [] \<or> floatingTextsRef s3 \<noteq> []
         then update dt w h s3 else s3)"
  using assms by (auto simp add: renderFrame_def oracle_simps)

lemma stepEntity_whole:
  assumes "\<not> e_isSliced e"
  shows "e_isSliced (stepEntity d ts e) = False" "e_opacity (stepEntity d ts e) = e_opacity e"
    "e_y (stepEntity d ts e) = e_y e + e_vy e * ts"
    "e_isFragment (stepEntity d ts e) = e_isFragment e"
  using assms by (simp_all add: stepEntity_def Let_def)

lemma spawnTick_spawns:
  "spawnRate d < spawnTimerRef s + dt * 1000 \<Longrightarrow>
   entitiesRef (spawnTick dt w h d s)
     = entitiesRef (spawnEntity w h d (s\<lparr>spawnTimerRef := spawnTimerRef s + dt * 1000\<rparr>))"
  by (simp add: spawnTick_def Let_def)

lemma spawnEntity_new:
  assumes "\<forall>n. 0 \<le> mathRandom s n" and "0 \<le> minSpeed d" and "minSpeed d \<le> maxSpeed d"
    and "0 \<le> h"
  shows "\<exists>e. entitiesRef (spawnEntity w h d s) = entitiesRef s @ [e]
       \<and> e_y e = h + 50 \<and> e_opacity e = 1 \<and> \<not> e_isSliced e \<and> e_isFragment e = None
       \<and> e_vy e \<le> 0"
proof -
  let ?e = "last (entitiesRef (spawnEntity w h d s))"
  have 1: "entitiesRef (spawnEntity w h d s) = entitiesRef s @ [?e]"
    by (simp add: spawnEntity_def oracle_simps)
  have 2: "e_y ?e = h + 50 \<and> e_opacity ?e = 1 \<and> \<not> e_isSliced ?e \<and> e_isFragment ?e = None"
    by (simp add: spawnEntity_def oracle_simps)
  have "(- (mathRandom s n * (maxSpeed d - minSpeed d)) - minSpeed d) * h \<le> 0" for n
  proof -
    have "0 \<le> mathRandom s n * (maxSpeed d - minSpeed d)"
      using assms(3) assms(1)[rule_format, of n] by simp
    then have "- (mathRandom s n * (maxSpeed d - minSpeed d)) - minSpeed d \<le> 0"
      using assms(2) by linarith
    then show ?thesis
      using assms(4) by (rule mult_nonpos_nonneg)
  qed
  then have 3: "e_vy ?e \<le> 0"
    by (simp add: spawnEntity_def oracle_simps)
  from 1 2 3 show ?thesis by blast
qed

lemma finishedScene_sel:
  "gameState finishedScene = GAMEOVER" "entitiesRef finishedScene = []"
  "particlesRef finishedScene = [sparkParticle 1 (2 / 100)]" "scoreRef finishedScene = 70"
  "livesRef finishedScene = 0" "shakeIntensityRef finishedScene = 0"
  "spawnTimerRef finishedScene = 1390" "mathRandom finishedScene = (\<lambda>n. 1 / 2)"
  "performanceNow finishedScene = (\<lambda>n. 16 * real n)" "performanceCalls finishedScene = 1"
  "lastTimeRef finishedScene = 0" "currentCombo finishedScene = 3"
  "comboTimerRef finishedScene = 999000"
  by (simp_all add: finishedScene_def sampleGame_def mountedGame_def)

text \<open>
  C5 on the code. In \<open>GAMEOVER\<close> (and \<open>MENU\<close>) a frame runs no collision test, but while
  a particle or a floating text is left it runs the whole of \<open>update\<close>, spawn timer
  included: the frame after the round ended, with a spark still alive and the spawn
  timer at 1390 ms, spawns a new, unsliced entity into the empty collection.
\<close>

theorem gameover_frame_spawns:
  "gameState finishedScene = GAMEOVER
   \<and> entitiesRef finishedScene = []
   \<and> gameState (renderFrame (Some (800, 600)) NoHand finishedScene) = GAMEOVER
   \<and> map e_isSliced (entitiesRef (renderFrame (Some (800, 600)) NoHand finishedScene)) = [False]
   \<and> map e_isFragment (entitiesRef (renderFrame (Some (800, 600)) NoHand finishedScene)) = [None]"
proof -
  let ?s2 = "finishedScene\<lparr>performanceCalls := Suc (performanceCalls finishedScene),
                lastTimeRef := performanceNow finishedScene (performanceCalls finishedScene)\<rparr>"
  let ?s3 = "detectHand 800 600 NoHand ?s2"
  let ?dt = "2 / 125 :: real"
  have frame: "renderFrame (Some (800, 600)) NoHand finishedScene = update ?dt 800 600 ?s3"
    using renderFrame_idle[of finishedScene 800 600 NoHand]
    by (simp add: Let_def detectHand_NoHand_keeps finishedScene_sel)
  have s3: "scoreRef ?s3 = 70" "livesRef ?s3 = 0" "gameState ?s3 = GAMEOVER"
    "shakeIntensityRef ?s3 = 0" "spawnTimerRef ?s3 = 1390" "entitiesRef ?s3 = []"
    "mathRandom ?s3 = (\<lambda>n. 1 / 2)"
    by (simp_all add: detectHand_NoHand_keeps finishedScene_sel)
  have pre: "decayShake ?dt (checkGameOver ?s3) = ?s3"
    by (simp add: decayShake_def checkGameOver_def s3)
  let ?s4 = "?s3\<lparr>spawnTimerRef := 1406\<rparr>"
  have tick: "entitiesRef (spawnTick ?dt 800 600 INITIAL_DIFFICULTY ?s3)
                = entitiesRef (spawnEntity 800 600 INITIAL_DIFFICULTY ?s4)"
    using spawnTick_spawns[of INITIAL_DIFFICULTY ?s3 ?dt 800 600]
    by (simp add: s3 INITIAL_DIFFICULTY_def)
  have "\<forall>n. 0 \<le> mathRandom ?s4 n"
    by (simp add: s3)
  then obtain e where e: "entitiesRef (spawnEntity 800 600 INITIAL_DIFFICULTY ?s4) = entitiesRef ?s4 @ [e]"
      "e_y e = 600 + 50" "e_opacity e = 1" "\<not> e_isSliced e" "e_isFragment e = None" "e_vy e \<le> 0"
    using spawnEntity_new[of ?s4 INITIAL_DIFFICULTY 600 800]
    by (auto simp add: INITIAL_DIFFICULTY_def)
  have below: "e_y e + e_vy e * (?dt * 60) < 600 + 300"
  proof -
    have "e_vy e * (?dt * 60) \<le> 0"
      using e(6) by (simp add: mult_le_0_iff)
    then show ?thesis using e(2) by simp
  qed
  have ents: "entitiesRef (update ?dt 800 600 ?s3) = [stepEntity INITIAL_DIFFICULTY (?dt * 60) e]"
    unfolding update_entities pre
    using below e(3,4)
    by (simp add: s3 tick e(1) stepEntity_whole)
  have "gameState (update ?dt 800 600 ?s3) = GAMEOVER"
    by (simp add: update_gameState s3)
  then show ?thesis
    unfolding frame ents using e(4,5)
    by (simp add: finishedScene_sel stepEntity_whole)
qed

text \<open>So the collection, empty when the round ended, holds one entity after the frame.\<close>

theorem gameover_frame_spawns_witness:
  "length (entitiesRef (renderFrame (Some (800, 600)) NoHand finishedScene)) = 1"
proof -
  have "map e_isSliced (entitiesRef (renderFrame (Some (800, 600)) NoHand finishedScene)) = [False]"
    using gameover_frame_spawns by blast
  then have "length (map e_isSliced
                (entitiesRef (renderFrame (Some (800, 600)) NoHand finishedScene))) = length [False]"
    by (rule arg_cong)
  then show ?thesis by simp
qed

subsection \<open>The feedback request\<close>

text \<open>
  C9. For every statistics snapshot, key and behaviour of the text-generation call,
  the promise of \<open>generateSenseiFeedback\<close> is fulfilled with a string, never
  rejected: with a missing (undefined or empty) key the string is the fixed
  \<open>The Dojo is silent (API Key missing).\<close>; when the call throws it is the fixed
  \<open>Even masters stumble. Try again.\<close>; when the result's text is undefined or empty
  it is the fixed \<open>Focus your mind, and the fruit will reveal its path.\<close>; otherwise
  it is the text of the result.
\<close>

theorem generateSenseiFeedback_never_throws:
  "(\<exists>r. generateSenseiFeedback API_KEY generateContent str stats = Inr r)
   \<and> (initGenAI API_KEY = None \<longleftrightarrow> API_KEY = None \<or> API_KEY = Some [])
   \<and> (initGenAI API_KEY = None \<longrightarrow>
        generateSenseiFeedback API_KEY generateContent str stats
          = Inr ''The Dojo is silent (API Key missing).'')
   \<and> (\<forall>ai error. initGenAI API_KEY = Some ai
          \<and> generateContent ai ''gemini-3-flash-preview'' (senseiPrompt str stats) = Inl error \<longrightarrow>
        generateSenseiFeedback API_KEY generateContent str stats
          = Inr ''Even masters stumble. Try again.'')
   \<and> (\<forall>ai. initGenAI API_KEY = Some ai
          \<and> (generateContent ai ''gemini-3-flash-preview'' (senseiPrompt str stats) = Inr None
             \<or> generateContent ai ''gemini-3-flash-preview'' (senseiPrompt str stats)
                 = Inr (Some [])) \<longrightarrow>
        generateSenseiFeedback API_KEY generateContent str stats
          = Inr ''Focus your mind, and the fruit will reveal its path.'')
   \<and> (\<forall>ai t. initGenAI API_KEY = Some ai \<and> t \<noteq> []
          \<and> generateContent ai ''gemini-3-flash-preview'' (senseiPrompt str stats)
              = Inr (Some t) \<longrightarrow>
        generateSenseiFeedback API_KEY generateContent str stats = Inr t)"
proof (intro conjI allI impI)
  show "\<exists>r. generateSenseiFeedback API_KEY generateContent str stats = Inr r"
    by (simp add: generateSenseiFeedback_def tryCatch_def Let_def
        split: option.split sum.split)
  show "initGenAI API_KEY = None \<longleftrightarrow> API_KEY = None \<or> API_KEY = Some []"
    by (simp add: initGenAI_def split: option.split)
qed (auto simp add: generateSenseiFeedback_def tryCatch_def Let_def)

text \<open>
  No key; a key and a call that throws; a key and a result without text; a key and
  a result with text.
\<close>

theorem generateSenseiFeedback_never_throws_witness:
  "generateSenseiFeedback None (\<lambda>k m c. Inr (Some ''Well cut.'')) (\<lambda>n. ''0'') (statsRef sampleGame)
     = Inr ''The Dojo is silent (API Key missing).''
   \<and> generateSenseiFeedback (Some ''key'') (\<lambda>k m c. Inl (Thrown ''offline'')) (\<lambda>n. ''0'')
        (statsRef sampleGame) = Inr ''Even masters stumble. Try again.''
   \<and> generateSenseiFeedback (Some ''key'') (\<lambda>k m c. Inr None) (\<lambda>n. ''0'') (statsRef sampleGame)
     = Inr ''Focus your mind, and the fruit will reveal its path.''
   \<and> generateSenseiFeedback (Some ''key'') (\<lambda>k m c. Inr (Some ''Well cut.'')) (\<lambda>n. ''0'')
        (statsRef sampleGame) = Inr ''Well cut.''"
proof -
  have k: "initGenAI None = None" "initGenAI (Some ''key'') = Some ''key''"
    by (simp_all add: initGenAI_def)
  show ?thesis
    using generateSenseiFeedback_never_throws[of None "\<lambda>k m c. Inr (Some ''Well cut.'')"
            "\<lambda>n. ''0''" "statsRef sampleGame"]
          generateSenseiFeedback_never_throws[of "Some ''key''" "\<lambda>k m c. Inl (Thrown ''offline'')"
            "\<lambda>n. ''0''" "statsRef sampleGame"]
          generateSenseiFeedback_never_throws[of "Some ''key''" "\<lambda>k m c. Inr None"
            "\<lambda>n. ''0''" "statsRef sampleGame"]
          generateSenseiFeedback_never_throws[of "Some ''key''" "\<lambda>k m c. Inr (Some ''Well cut.'')"
            "\<lambda>n. ''0''" "statsRef sampleGame"]
    by (simp add: k)
qed

end
